theory Spec2Isabelle
  imports Main "HOL-Library.Word" "HOL-Library.AList" "HOL-Library.Monad_Syntax"
begin

section \<open>The pkger service: state model\<close>

text \<open>
  A shallow embedding of \<^verbatim>\<open>pkger/service.go\<close> and of the state coordinator that follows it
  in the same source file. Conventions used throughout:

  \<^item> \<^verbatim>\<open>influxdb.ID\<close> is a 64-bit unsigned integer, a \<open>64 word\<close>.
  \<^item> A Go map with string keys is an association list. It is read with \<open>map_of\<close>, written
    with \<open>AList.update\<close> and ranged over with \<open>items\<close>, which visits every key of the
    denoted map once. Go leaves the order of a \<^verbatim>\<open>range\<close> over a map open; here it is the
    order of the list, and every statement below holds for every list.
  \<^item> A pointer to a state record is the key of the record in its map of the state
    coordinator: the maps are the store, the keys are the addresses. A nil pointer is
    \<open>None\<close>.
  \<^item> A function returns \<open>None\<close> when the Go code does not return normally: a nil pointer
    dereference panics, a loop does not end. An \<^verbatim>\<open>error\<close> result is a value.
  \<^item> The text of an error is a list of pieces: literal text and formatted arguments. How
    \<^verbatim>\<open>fmt\<close> renders an argument is not part of the model.
  \<^item> Stage workers run one after the other, in index order: the schedule the code has
    with a semaphore of width one. Cancellation of the context is not modelled.
\<close>

type_synonym ID = "64 word"

subsection \<open>Status and kind\<close>

text \<open>
  \<^verbatim>\<open>StateStatus\<close> is a Go string type. The three constants are declared outside the
  source files at hand; their values are the ones the package's models use. Only their
  being distinct and not empty matters below.
\<close>

type_synonym StateStatus = string

definition StateStatusExists :: StateStatus where
  "StateStatusExists = ''exists''"

definition StateStatusNew :: StateStatus where
  "StateStatusNew = ''new''"

definition StateStatusRemove :: StateStatus where
  "StateStatusRemove = ''remove''"

definition IsNew :: "StateStatus \<Rightarrow> bool" where
  "IsNew status \<longleftrightarrow> status = StateStatusNew \<or> status = ''''"

definition IsExisting :: "StateStatus \<Rightarrow> bool" where
  "IsExisting status \<longleftrightarrow> status = StateStatusExists"

definition IsRemoval :: "StateStatus \<Rightarrow> bool" where
  "IsRemoval status \<longleftrightarrow> status = StateStatusRemove"

text \<open>
  Modelled from the spec: the declaration of \<^verbatim>\<open>Kind\<close> is not among the source files. The
  resource kinds are a closed set: Bucket, Label, Dashboard, Check (Deadman, Threshold),
  NotificationEndpoint (HTTP, PagerDuty, Slack), NotificationRule, Task, Telegraf,
  Variable. The constructors are the constants the code switches on; \<open>KindUnknown\<close> is the
  zero value, which \<^verbatim>\<open>StackResourceAssociation{}\<close> carries.
\<close>

datatype Kind =
    KindUnknown
  | KindBucket
  | KindCheck
  | KindCheckDeadman
  | KindCheckThreshold
  | KindDashboard
  | KindLabel
  | KindNotificationEndpoint
  | KindNotificationEndpointHTTP
  | KindNotificationEndpointPagerDuty
  | KindNotificationEndpointSlack
  | KindNotificationRule
  | KindTask
  | KindTelegraf
  | KindVariable

subsection \<open>Errors\<close>

datatype piece = Txt string | QStr string | QID ID | QText "piece list"

type_synonym errtext = "piece list"

text \<open>
  A Go \<^verbatim>\<open>error\<close>: a code (empty for an error made by \<^verbatim>\<open>errors.New\<close> or \<^verbatim>\<open>fmt.Errorf\<close>) and
  its text.
\<close>

datatype error = Error (Code: string) (Msg: errtext)

definition EInternal :: string where
  "EInternal = ''internal error''"

definition EUnprocessableEntity :: string where
  "EUnprocessableEntity = ''unprocessable entity''"

definition errorsNew :: "errtext \<Rightarrow> error" where
  "errorsNew t = Error '''' t"

definition Wrap :: "error option \<Rightarrow> string \<Rightarrow> error option" where
  "Wrap err msg = (case err of None \<Rightarrow> None | Some e \<Rightarrow> Some (Error (Code e) (Txt msg # Txt '': '' # Msg e)))"

definition failedValidationErr :: "error option \<Rightarrow> error option" where
  "failedValidationErr err = (case err of None \<Rightarrow> None | Some e \<Rightarrow> Some (Error EUnprocessableEntity (Msg e)))"

definition toInfluxError :: "string \<Rightarrow> errtext \<Rightarrow> error" where
  "toInfluxError code msg = Error code msg"

definition internalErr :: "error option \<Rightarrow> error option" where
  "internalErr err = (case err of None \<Rightarrow> None | Some e \<Rightarrow> Some (toInfluxError EInternal (Msg e)))"

fun Join :: "errtext list \<Rightarrow> string \<Rightarrow> errtext" where
  "Join [] sep = []"
| "Join [t] sep = t"
| "Join (t # ts) sep = t @ Txt sep # Join ts sep"

subsection \<open>Go maps\<close>

type_synonym 'v gomap = "(string \<times> 'v) list"

definition items :: "'v gomap \<Rightarrow> (string \<times> 'v) list" where
  "items m = map (\<lambda>k. (k, the (map_of m k))) (remdups (map fst m))"

definition keys :: "'v gomap \<Rightarrow> string list" where
  "keys m = map fst (items m)"

definition elems :: "'v gomap \<Rightarrow> 'v list" where
  "elems m = map snd (items m)"

subsection \<open>Platform resources and parsed objects\<close>

text \<open>
  The resources of the platform (\<^verbatim>\<open>influxdb.Bucket\<close>, \<^verbatim>\<open>influxdb.Label\<close>, ...) are declared
  outside the source files; each is taken with the fields the code reads. Checks,
  dashboards, endpoints, rules, tasks and telegraf configs are read for their id, owner
  and name only.
\<close>

record Resource =
  ID :: ID
  OrgID :: ID
  Name :: string

record Bucket = Resource +
  Description :: string
  RetentionPeriod :: int

record Label = Resource +
  Properties :: "string \<rightharpoonup> string"

record Variable = Resource +
  VarDescription :: string
  Arguments :: "string option"

type_synonym Check = Resource
type_synonym Dashboard = Resource
type_synonym NotificationEndpoint = Resource
type_synonym NotificationRule = Resource
type_synonym Task = Resource
type_synonym TelegrafConfig = Resource

text \<open>
  The parsed objects of a package (\<^verbatim>\<open>bucket\<close>, \<^verbatim>\<open>label\<close>, ...) and their \<^verbatim>\<open>identity\<close> are
  declared by the parser, outside the source files. An object is taken with its identity
  (\<open>name\<close> is the pkg-name, \<open>displayName\<close> the optional name of the resource), the
  pkg-names of its label associations and the fields the code reads. \<open>retention\<close> is
  what \<^verbatim>\<open>RetentionRules.RP()\<close> returns, \<open>args\<close> what \<^verbatim>\<open>influxVarArgs()\<close> returns,
  \<open>endpointName\<close> what \<^verbatim>\<open>endpointPkgName()\<close> of a parsed rule returns.
\<close>

record object =
  name :: string
  displayName :: string
  labels :: "string list"

record bucket = object +
  description :: string
  retention :: int

record label = object +
  labelDescription :: string
  color :: string

record variable = object +
  varDescription :: string
  args :: "string option"

record notificationRule = object +
  endpointName :: string

type_synonym check = object
type_synonym dashboard = object
type_synonym notificationEndpoint = object
type_synonym task = object
type_synonym telegraf = object

definition PkgName :: "'a object_scheme \<Rightarrow> string" where
  "PkgName i = name i"

definition Name' :: "'a object_scheme \<Rightarrow> string" where
  "Name' i = (if displayName i \<noteq> '''' then displayName i else name i)"

text \<open>\<^verbatim>\<open>identity{name: &references{val: pkgName}}\<close>, every other field zero.\<close>

definition newIdentity :: "string \<Rightarrow> object" where
  "newIdentity pkgName = \<lparr>name = pkgName, displayName = '''', labels = []\<rparr>"

subsection \<open>State records\<close>

text \<open>
  The nine state structs share their fields: \<^verbatim>\<open>id\<close>, \<^verbatim>\<open>orgID\<close>, \<^verbatim>\<open>stateStatus\<close>, the parsed
  object (\<^verbatim>\<open>parserBkt\<close>, \<^verbatim>\<open>parserCheck\<close>, ...: here \<open>parser\<close>) and \<^verbatim>\<open>existing\<close>. A rule has
  \<^verbatim>\<open>associatedEndpoint\<close> in addition, a pointer to a state endpoint.
\<close>

record ('p, 'e) stateRes =
  id' :: ID
  orgID :: ID
  stateStatus :: StateStatus
  parser :: 'p
  existing :: "'e option"

record ('p, 'e) stateRuleRes = "('p, 'e) stateRes" +
  associatedEndpoint :: "string option"

type_synonym stateBucket = "(bucket, Bucket) stateRes"
type_synonym stateCheck = "(check, Check) stateRes"
type_synonym stateDashboard = "(dashboard, Dashboard) stateRes"
type_synonym stateEndpoint = "(notificationEndpoint, NotificationEndpoint) stateRes"
type_synonym stateLabel = "(label, Label) stateRes"
type_synonym stateRule = "(notificationRule, NotificationRule) stateRuleRes"
type_synonym stateTask = "(task, Task) stateRes"
type_synonym stateTelegraf = "(telegraf, TelegrafConfig) stateRes"
type_synonym stateVariable = "(variable, Variable) stateRes"

definition stateBucket_ID :: "stateBucket \<Rightarrow> ID" where
  "stateBucket_ID b =
     (case existing b of
        Some e \<Rightarrow> if \<not> IsNew (stateStatus b) then ID e else id' b
      | None \<Rightarrow> id' b)"

definition stateCheck_ID :: "stateCheck \<Rightarrow> ID" where
  "stateCheck_ID c =
     (case existing c of
        Some e \<Rightarrow> if \<not> IsNew (stateStatus c) then ID e else id' c
      | None \<Rightarrow> id' c)"

definition stateDashboard_ID :: "stateDashboard \<Rightarrow> ID" where
  "stateDashboard_ID d =
     (case existing d of
        Some e \<Rightarrow> if \<not> IsNew (stateStatus d) then ID e else id' d
      | None \<Rightarrow> id' d)"

definition stateLabel_ID :: "stateLabel \<Rightarrow> ID" where
  "stateLabel_ID l =
     (case existing l of
        Some e \<Rightarrow> if \<not> IsNew (stateStatus l) then ID e else id' l
      | None \<Rightarrow> id' l)"

definition stateEndpoint_ID :: "stateEndpoint \<Rightarrow> ID" where
  "stateEndpoint_ID e =
     (case existing e of
        Some x \<Rightarrow> if \<not> IsNew (stateStatus e) then ID x else id' e
      | None \<Rightarrow> id' e)"

definition stateRule_ID :: "stateRule \<Rightarrow> ID" where
  "stateRule_ID r =
     (case existing r of
        Some e \<Rightarrow> if \<not> IsNew (stateStatus r) then ID e else id' r
      | None \<Rightarrow> id' r)"

definition stateTask_ID :: "stateTask \<Rightarrow> ID" where
  "stateTask_ID t =
     (case existing t of
        Some e \<Rightarrow> if \<not> IsNew (stateStatus t) then ID e else id' t
      | None \<Rightarrow> id' t)"

definition stateTelegraf_ID :: "stateTelegraf \<Rightarrow> ID" where
  "stateTelegraf_ID t =
     (case existing t of
        Some e \<Rightarrow> if \<not> IsNew (stateStatus t) then ID e else id' t
      | None \<Rightarrow> id' t)"

definition stateVariable_ID :: "stateVariable \<Rightarrow> ID" where
  "stateVariable_ID v =
     (case existing v of
        Some e \<Rightarrow> if \<not> IsNew (stateStatus v) then ID e else id' v
      | None \<Rightarrow> id' v)"

subsection \<open>Stacks\<close>

text \<open>
  Record fields are constants of the theory, so the fields of the stack types carry a
  prefix: \<open>sa\<close> for \<^verbatim>\<open>StackResourceAssociation\<close>, \<open>sr\<close> for \<^verbatim>\<open>StackResource\<close>, \<open>stk\<close> for
  \<^verbatim>\<open>Stack\<close>. A time is a number.
\<close>

definition APIVersion :: string where
  "APIVersion = ''influxdata.com/v2alpha1''"

record StackResourceAssociation =
  saKind :: Kind
  saPkgName :: string

record StackResource =
  srAPIVersion :: string
  srID :: ID
  srKind :: Kind
  srPkgName :: string
  srAssociations :: "StackResourceAssociation list"

record Stack =
  stkID :: ID
  stkOrgID :: ID
  stkName :: string
  stkDescription :: string
  stkURLs :: "string list"
  stkResources :: "StackResource list"
  stkCreatedAt :: nat
  stkUpdatedAt :: nat

subsection \<open>The state coordinator\<close>

text \<open>
  A label mapping refers to its resource by kind and key and to its label by key.
  \<open>rmResourceType\<close> keeps the kind of which the code stores \<^verbatim>\<open>Kind.ResourceType()\<close>.
\<close>

record stateLabelMapping =
  lmStatus :: StateStatus
  lmResource :: "Kind \<times> string"
  lmLabel :: "string option"

record stateLabelMappingForRemoval =
  rmLabelID :: ID
  rmLabelPkgName :: string
  rmResourceID :: ID
  rmResourcePkgName :: string
  rmResourceType :: Kind

record stateCoordinator =
  mBuckets :: "stateBucket gomap"
  mChecks :: "stateCheck gomap"
  mDashboards :: "stateDashboard gomap"
  mEndpoints :: "stateEndpoint gomap"
  mLabels :: "stateLabel gomap"
  mRules :: "stateRule gomap"
  mTasks :: "stateTask gomap"
  mTelegrafs :: "stateTelegraf gomap"
  mVariables :: "stateVariable gomap"
  labelMappings :: "stateLabelMapping list"
  labelMappingsToRemove :: "stateLabelMappingForRemoval list"

text \<open>
  A package, as far as the service reads it. \<^verbatim>\<open>Pkg\<close> and its methods are declared by the
  parser, outside the source files.
\<close>

record Pkg =
  isParsed :: bool
  pkgBuckets :: "bucket list"
  pkgChecks :: "check list"
  pkgDashboards :: "dashboard list"
  pkgNotificationEndpoints :: "notificationEndpoint list"
  pkgLabels :: "label list"
  pkgNotificationRules :: "notificationRule list"
  pkgTasks :: "task list"
  pkgTelegrafs :: "telegraf list"
  pkgVariables :: "variable list"
  mSecrets :: "bool gomap"

definition newState :: "'p \<Rightarrow> ('p, 'e) stateRes" where
  "newState p = \<lparr>id' = 0, orgID = 0, stateStatus = StateStatusNew, parser = p, existing = None\<rparr>"

definition newStateRule :: "notificationRule \<Rightarrow> stateRule" where
  "newStateRule p = \<lparr>id' = 0, orgID = 0, stateStatus = StateStatusNew, parser = p, existing = None,
     associatedEndpoint = None\<rparr>"

definition newStateCoordinator :: "Pkg \<Rightarrow> stateCoordinator" where
  "newStateCoordinator pkg =
     \<lparr>mBuckets = foldl (\<lambda>m pkgBkt. AList.update (PkgName pkgBkt) (newState pkgBkt) m) [] (pkgBuckets pkg),
      mChecks = foldl (\<lambda>m pkgCheck. AList.update (PkgName pkgCheck) (newState pkgCheck) m) [] (pkgChecks pkg),
      mDashboards = foldl (\<lambda>m pkgDash. AList.update (PkgName pkgDash) (newState pkgDash) m) [] (pkgDashboards pkg),
      mEndpoints = foldl (\<lambda>m pkgEndpoint. AList.update (PkgName pkgEndpoint) (newState pkgEndpoint) m) []
        (pkgNotificationEndpoints pkg),
      mLabels = foldl (\<lambda>m pkgLabel. AList.update (PkgName pkgLabel) (newState pkgLabel) m) [] (pkgLabels pkg),
      mRules = foldl (\<lambda>m pkgRule. AList.update (PkgName pkgRule) (newStateRule pkgRule) m) []
        (pkgNotificationRules pkg),
      mTasks = foldl (\<lambda>m pkgTask. AList.update (PkgName pkgTask) (newState pkgTask) m) [] (pkgTasks pkg),
      mTelegrafs = foldl (\<lambda>m pkgTele. AList.update (PkgName pkgTele) (newState pkgTele) m) [] (pkgTelegrafs pkg),
      mVariables = foldl (\<lambda>m pkgVar. AList.update (PkgName pkgVar) (newState pkgVar) m) [] (pkgVariables pkg),
      labelMappings = [],
      labelMappingsToRemove = []\<rparr>"

text \<open>
  The accessors \<^verbatim>\<open>buckets()\<close>, \<^verbatim>\<open>checks()\<close>, ... return slices of pointers to the records of
  the maps: lists of keys. They carry a prime here, their names being those of local
  variables elsewhere.
\<close>

definition buckets' :: "stateCoordinator \<Rightarrow> string list" where
  "buckets' s = keys (mBuckets s)"

definition checks' :: "stateCoordinator \<Rightarrow> string list" where
  "checks' s = keys (mChecks s)"

definition dashboards' :: "stateCoordinator \<Rightarrow> string list" where
  "dashboards' s = keys (mDashboards s)"

definition endpoints' :: "stateCoordinator \<Rightarrow> string list" where
  "endpoints' s = keys (mEndpoints s)"

definition labels' :: "stateCoordinator \<Rightarrow> string list" where
  "labels' s = keys (mLabels s)"

definition rules' :: "stateCoordinator \<Rightarrow> string list" where
  "rules' s = keys (mRules s)"

definition tasks' :: "stateCoordinator \<Rightarrow> string list" where
  "tasks' s = keys (mTasks s)"

definition telegrafConfigs' :: "stateCoordinator \<Rightarrow> string list" where
  "telegrafConfigs' s = keys (mTelegrafs s)"

definition variables' :: "stateCoordinator \<Rightarrow> string list" where
  "variables' s = keys (mVariables s)"

text \<open>
  \<^verbatim>\<open>get\<close> returns an \<^verbatim>\<open>interface{}\<close> and a flag. The value is a state record of one of the
  nine types; the flag is set exactly when the result is \<open>Some\<close>.
\<close>

datatype stateObject =
    SBucket stateBucket
  | SCheck stateCheck
  | SDashboard stateDashboard
  | SLabel stateLabel
  | SEndpoint stateEndpoint
  | SRule stateRule
  | STask stateTask
  | STelegraf stateTelegraf
  | SVariable stateVariable

definition get :: "stateCoordinator \<Rightarrow> Kind \<Rightarrow> string \<Rightarrow> stateObject option" where
  "get s k pkgName =
     (case k of
        KindBucket \<Rightarrow> map_option SBucket (map_of (mBuckets s) pkgName)
      | KindCheck \<Rightarrow> map_option SCheck (map_of (mChecks s) pkgName)
      | KindCheckDeadman \<Rightarrow> map_option SCheck (map_of (mChecks s) pkgName)
      | KindCheckThreshold \<Rightarrow> map_option SCheck (map_of (mChecks s) pkgName)
      | KindDashboard \<Rightarrow> map_option SDashboard (map_of (mDashboards s) pkgName)
      | KindLabel \<Rightarrow> map_option SLabel (map_of (mLabels s) pkgName)
      | KindNotificationEndpoint \<Rightarrow> map_option SEndpoint (map_of (mEndpoints s) pkgName)
      | KindNotificationEndpointHTTP \<Rightarrow> map_option SEndpoint (map_of (mEndpoints s) pkgName)
      | KindNotificationEndpointPagerDuty \<Rightarrow> map_option SEndpoint (map_of (mEndpoints s) pkgName)
      | KindNotificationEndpointSlack \<Rightarrow> map_option SEndpoint (map_of (mEndpoints s) pkgName)
      | KindNotificationRule \<Rightarrow> map_option SRule (map_of (mRules s) pkgName)
      | KindTask \<Rightarrow> map_option STask (map_of (mTasks s) pkgName)
      | KindTelegraf \<Rightarrow> map_option STelegraf (map_of (mTelegrafs s) pkgName)
      | KindVariable \<Rightarrow> map_option SVariable (map_of (mVariables s) pkgName)
      | KindUnknown \<Rightarrow> None)"

text \<open>
  The type assertion of \<^verbatim>\<open>labelAssociations\<close> to its \<^verbatim>\<open>labelAssociater\<close>, and the call of
  \<^verbatim>\<open>labels()\<close>: every state record but the state label has the method.
\<close>

definition labelAssociater :: "stateObject \<Rightarrow> string list option" where
  "labelAssociater v =
     (case v of
        SBucket b \<Rightarrow> Some (labels (parser b))
      | SCheck c \<Rightarrow> Some (labels (parser c))
      | SDashboard d \<Rightarrow> Some (labels (parser d))
      | SLabel l \<Rightarrow> None
      | SEndpoint e \<Rightarrow> Some (labels (parser e))
      | SRule r \<Rightarrow> Some (labels (parser r))
      | STask t \<Rightarrow> Some (labels (parser t))
      | STelegraf t \<Rightarrow> Some (labels (parser t))
      | SVariable v \<Rightarrow> Some (labels (parser v)))"

text \<open>A pointer into a map: the key when the map has it, nil otherwise.\<close>

definition ptr :: "'v gomap \<Rightarrow> string \<Rightarrow> string option" where
  "ptr m k = (if map_of m k \<noteq> None then Some k else None)"

definition getLabelByPkgName :: "stateCoordinator \<Rightarrow> string \<Rightarrow> string option" where
  "getLabelByPkgName s pkgName = ptr (mLabels s) pkgName"

text \<open>
  When the key is missing, \<^verbatim>\<open>get\<close> returns a typed nil pointer for a kind it knows and the
  nil interface in its default branch. For the nil interface and for a nil pointer to a
  state label, which has no \<^verbatim>\<open>labels()\<close>, the assertion fails: no labels. For a nil pointer
  to another state record the assertion holds and \<^verbatim>\<open>labels()\<close> dereferences nil: no return,
  \<open>None\<close>. The result is a list of pointers to state labels, nil for a label the state does
  not have.
\<close>

definition labelAssociations :: "stateCoordinator \<Rightarrow> Kind \<Rightarrow> string \<Rightarrow> string option list option" where
  "labelAssociations s k pkgName =
     (case get s k pkgName of
        None \<Rightarrow> if k = KindUnknown \<or> k = KindLabel then Some [] else None
      | Some v \<Rightarrow>
          (case labelAssociater v of
             None \<Rightarrow> Some []
           | Some ls \<Rightarrow> Some (map (\<lambda>l. ptr (mLabels s) l) ls)))"

definition Contains :: "stateCoordinator \<Rightarrow> Kind \<Rightarrow> string \<Rightarrow> bool" where
  "Contains s k pkgName = (get s k pkgName \<noteq> None)"

text \<open>
  \<^verbatim>\<open>getObjectIDSetter\<close> returns a closure and a flag. The closure writes through the pointer
  it captured and is called by \<^verbatim>\<open>setObjectID\<close> when the flag is set, never otherwise: the
  pair is an option here. \<open>setExists\<close> is the body of the closure.
\<close>

definition setExists :: "ID \<Rightarrow> ('p, 'e, 'z) stateRes_scheme \<Rightarrow> ('p, 'e, 'z) stateRes_scheme" where
  "setExists i r = r\<lparr>id' := i, stateStatus := StateStatusExists\<rparr>"

definition getObjectIDSetter ::
  "stateCoordinator \<Rightarrow> Kind \<Rightarrow> string \<Rightarrow> (ID \<Rightarrow> stateCoordinator \<Rightarrow> stateCoordinator) option" where
  "getObjectIDSetter s k pkgName =
     (let setBucket = (\<lambda>i s. s\<lparr>mBuckets := AList.map_entry pkgName (setExists i) (mBuckets s)\<rparr>);
          setCheck = (\<lambda>i s. s\<lparr>mChecks := AList.map_entry pkgName (setExists i) (mChecks s)\<rparr>);
          setDashboard = (\<lambda>i s. s\<lparr>mDashboards := AList.map_entry pkgName (setExists i) (mDashboards s)\<rparr>);
          setLabel = (\<lambda>i s. s\<lparr>mLabels := AList.map_entry pkgName (setExists i) (mLabels s)\<rparr>);
          setEndpoint = (\<lambda>i s. s\<lparr>mEndpoints := AList.map_entry pkgName (setExists i) (mEndpoints s)\<rparr>);
          setRule = (\<lambda>i s. s\<lparr>mRules := AList.map_entry pkgName (setExists i) (mRules s)\<rparr>);
          setTask = (\<lambda>i s. s\<lparr>mTasks := AList.map_entry pkgName (setExists i) (mTasks s)\<rparr>);
          setTelegraf = (\<lambda>i s. s\<lparr>mTelegrafs := AList.map_entry pkgName (setExists i) (mTelegrafs s)\<rparr>);
          setVariable = (\<lambda>i s. s\<lparr>mVariables := AList.map_entry pkgName (setExists i) (mVariables s)\<rparr>)
      in case k of
        KindBucket \<Rightarrow> if map_of (mBuckets s) pkgName \<noteq> None then Some setBucket else None
      | KindCheck \<Rightarrow> if map_of (mChecks s) pkgName \<noteq> None then Some setCheck else None
      | KindCheckDeadman \<Rightarrow> if map_of (mChecks s) pkgName \<noteq> None then Some setCheck else None
      | KindCheckThreshold \<Rightarrow> if map_of (mChecks s) pkgName \<noteq> None then Some setCheck else None
      | KindDashboard \<Rightarrow> if map_of (mDashboards s) pkgName \<noteq> None then Some setDashboard else None
      | KindLabel \<Rightarrow> if map_of (mLabels s) pkgName \<noteq> None then Some setLabel else None
      | KindNotificationEndpoint \<Rightarrow> if map_of (mEndpoints s) pkgName \<noteq> None then Some setEndpoint else None
      | KindNotificationEndpointHTTP \<Rightarrow> if map_of (mEndpoints s) pkgName \<noteq> None then Some setEndpoint else None
      | KindNotificationEndpointPagerDuty \<Rightarrow>
          if map_of (mEndpoints s) pkgName \<noteq> None then Some setEndpoint else None
      | KindNotificationEndpointSlack \<Rightarrow> if map_of (mEndpoints s) pkgName \<noteq> None then Some setEndpoint else None
      | KindNotificationRule \<Rightarrow> if map_of (mRules s) pkgName \<noteq> None then Some setRule else None
      | KindTask \<Rightarrow> if map_of (mTasks s) pkgName \<noteq> None then Some setTask else None
      | KindTelegraf \<Rightarrow> if map_of (mTelegrafs s) pkgName \<noteq> None then Some setTelegraf else None
      | KindVariable \<Rightarrow> if map_of (mVariables s) pkgName \<noteq> None then Some setVariable else None
      | KindUnknown \<Rightarrow> None)"

definition setObjectID :: "stateCoordinator \<Rightarrow> Kind \<Rightarrow> string \<Rightarrow> ID \<Rightarrow> stateCoordinator" where
  "setObjectID s k pkgName i =
     (case getObjectIDSetter s k pkgName of
        None \<Rightarrow> s
      | Some idSetFn \<Rightarrow> idSetFn i s)"

text \<open>
  The synthetic record of \<^verbatim>\<open>addObjectForRemoval\<close>: the id, a parsed object that has the
  identity alone, the status REMOVE, every other field zero.
\<close>

definition forRemoval :: "ID \<Rightarrow> 'p \<Rightarrow> ('p, 'e) stateRes" where
  "forRemoval i p = \<lparr>id' = i, orgID = 0, stateStatus = StateStatusRemove, parser = p, existing = None\<rparr>"

definition forRemovalRule :: "ID \<Rightarrow> notificationRule \<Rightarrow> stateRule" where
  "forRemovalRule i p = \<lparr>id' = i, orgID = 0, stateStatus = StateStatusRemove, parser = p, existing = None,
     associatedEndpoint = None\<rparr>"

definition addObjectForRemoval :: "stateCoordinator \<Rightarrow> Kind \<Rightarrow> string \<Rightarrow> ID \<Rightarrow> stateCoordinator" where
  "addObjectForRemoval s k pkgName i =
     (let newIdentity = newIdentity pkgName;
          rmCheck = (\<lambda>s. s\<lparr>mChecks := AList.update pkgName (forRemoval i newIdentity) (mChecks s)\<rparr>);
          rmEndpoint = (\<lambda>s. s\<lparr>mEndpoints := AList.update pkgName (forRemoval i newIdentity) (mEndpoints s)\<rparr>)
      in case k of
        KindBucket \<Rightarrow>
          s\<lparr>mBuckets := AList.update pkgName
              (forRemoval i (object.extend newIdentity \<lparr>description = '''', retention = 0\<rparr>)) (mBuckets s)\<rparr>
      | KindCheck \<Rightarrow> rmCheck s
      | KindCheckDeadman \<Rightarrow> rmCheck s
      | KindCheckThreshold \<Rightarrow> rmCheck s
      | KindDashboard \<Rightarrow> s\<lparr>mDashboards := AList.update pkgName (forRemoval i newIdentity) (mDashboards s)\<rparr>
      | KindLabel \<Rightarrow>
          s\<lparr>mLabels := AList.update pkgName
              (forRemoval i (object.extend newIdentity \<lparr>labelDescription = '''', color = ''''\<rparr>)) (mLabels s)\<rparr>
      | KindNotificationEndpoint \<Rightarrow> rmEndpoint s
      | KindNotificationEndpointHTTP \<Rightarrow> rmEndpoint s
      | KindNotificationEndpointPagerDuty \<Rightarrow> rmEndpoint s
      | KindNotificationEndpointSlack \<Rightarrow> rmEndpoint s
      | KindNotificationRule \<Rightarrow>
          s\<lparr>mRules := AList.update pkgName
              (forRemovalRule i (object.extend newIdentity \<lparr>endpointName = ''''\<rparr>)) (mRules s)\<rparr>
      | KindTask \<Rightarrow> s\<lparr>mTasks := AList.update pkgName (forRemoval i newIdentity) (mTasks s)\<rparr>
      | KindTelegraf \<Rightarrow> s\<lparr>mTelegrafs := AList.update pkgName (forRemoval i newIdentity) (mTelegrafs s)\<rparr>
      | KindVariable \<Rightarrow>
          s\<lparr>mVariables := AList.update pkgName
              (forRemoval i (object.extend newIdentity \<lparr>varDescription = '''', args = None\<rparr>)) (mVariables s)\<rparr>
      | KindUnknown \<Rightarrow> s)"

text \<open>The body of the loop of \<^verbatim>\<open>reconcileStackResources\<close>, and the loop.\<close>

definition reconcileStackResource :: "stateCoordinator \<Rightarrow> StackResource \<Rightarrow> stateCoordinator" where
  "reconcileStackResource s r =
     (if \<not> Contains s (srKind r) (srPkgName r)
      then addObjectForRemoval s (srKind r) (srPkgName r) (srID r)
      else setObjectID s (srKind r) (srPkgName r) (srID r))"

definition reconcileStackResources :: "stateCoordinator \<Rightarrow> StackResource list \<Rightarrow> stateCoordinator" where
  "reconcileStackResources s stackResources = foldl reconcileStackResource s stackResources"

text \<open>
  \<^verbatim>\<open>reconcileLabelMappings\<close>. \<open>mLabelPkgNameToID\<close> is the map of its first loop (a later
  stack label overwrites an earlier one; a missing key reads as zero). \<open>labelPkgNames\<close>
  dereferences the label pointers as the \<^verbatim>\<open>delete\<close> loop does. The set \<^verbatim>\<open>mStackAss\<close> is a
  list without duplicates.
\<close>

definition mLabelPkgNameToID :: "StackResource list \<Rightarrow> string \<Rightarrow> ID" where
  "mLabelPkgNameToID stackResources pkgName =
     (case map_of (rev (map (\<lambda>r. (srPkgName r, srID r)) (filter (\<lambda>r. srKind r = KindLabel) stackResources)))
             pkgName of
        None \<Rightarrow> 0
      | Some i \<Rightarrow> i)"

fun labelPkgNames :: "stateCoordinator \<Rightarrow> string option list \<Rightarrow> string list option" where
  "labelPkgNames s [] = Some []"
| "labelPkgNames s (l # ls) =
     (case l of
        None \<Rightarrow> None
      | Some k \<Rightarrow>
          (case map_of (mLabels s) k of
             None \<Rightarrow> None
           | Some sl \<Rightarrow> map_option (\<lambda>ns. PkgName (parser sl) # ns) (labelPkgNames s ls)))"

definition reconcileLabelMapping ::
  "StackResource list \<Rightarrow> stateCoordinator \<Rightarrow> StackResource \<Rightarrow> stateCoordinator option" where
  "reconcileLabelMapping stackResources s r =
     (case labelAssociations s (srKind r) (srPkgName r) of
        None \<Rightarrow> None
      | Some ls \<Rightarrow>
          if srAssociations r = [] then Some s
          else
            (case labelPkgNames s ls of
               None \<Rightarrow> None
             | Some names \<Rightarrow>
                 let mStackAss = remdups (filter (\<lambda>ass. saKind ass = KindLabel) (srAssociations r));
                     forRemoval = filter (\<lambda>ass. saPkgName ass \<notin> set names) mStackAss
                 in Some (s\<lparr>labelMappingsToRemove := labelMappingsToRemove s @
                      map (\<lambda>assForRemoval.
                            \<lparr>rmLabelID = mLabelPkgNameToID stackResources (saPkgName assForRemoval),
                             rmLabelPkgName = saPkgName assForRemoval,
                             rmResourceID = srID r,
                             rmResourcePkgName = srPkgName r,
                             rmResourceType = srKind r\<rparr>) forRemoval\<rparr>)))"

fun foldOpt :: "('s \<Rightarrow> 'a \<Rightarrow> 's option) \<Rightarrow> 's \<Rightarrow> 'a list \<Rightarrow> 's option" where
  "foldOpt f s [] = Some s"
| "foldOpt f s (x # xs) = (case f s x of None \<Rightarrow> None | Some s' \<Rightarrow> foldOpt f s' xs)"

definition reconcileLabelMappings :: "stateCoordinator \<Rightarrow> StackResource list \<Rightarrow> stateCoordinator option" where
  "reconcileLabelMappings s stackResources = foldOpt (reconcileLabelMapping stackResources) s stackResources"

text \<open>
  \<^verbatim>\<open>reconcileNotificationDependencies\<close>: the first endpoint association of a stack rule is
  bound to the rule of that name. \<^verbatim>\<open>s.mRules[r.PkgName]\<close> is nil when the state has no such
  rule, and the assignment through it does not return.
\<close>

definition reconcileNotificationDependency :: "stateCoordinator \<Rightarrow> StackResource \<Rightarrow> stateCoordinator option" where
  "reconcileNotificationDependency s r =
     (if srKind r = KindNotificationRule then
        (case find (\<lambda>ass. saKind ass = KindNotificationEndpoint) (srAssociations r) of
           None \<Rightarrow> Some s
         | Some ass \<Rightarrow>
             (case map_of (mRules s) (srPkgName r) of
                None \<Rightarrow> None
              | Some _ \<Rightarrow>
                  Some (s\<lparr>mRules := AList.map_entry (srPkgName r)
                           (\<lambda>x. x\<lparr>associatedEndpoint := ptr (mEndpoints s) (saPkgName ass)\<rparr>) (mRules s)\<rparr>)))
      else Some s)"

definition reconcileNotificationDependencies ::
  "stateCoordinator \<Rightarrow> StackResource list \<Rightarrow> stateCoordinator option" where
  "reconcileNotificationDependencies s stackResources = foldOpt reconcileNotificationDependency s stackResources"

definition addStackState :: "stateCoordinator \<Rightarrow> Stack \<Rightarrow> stateCoordinator option" where
  "addStackState s stack =
     (case reconcileLabelMappings (reconcileStackResources s (stkResources stack)) (stkResources stack) of
        None \<Rightarrow> None
      | Some s' \<Rightarrow> reconcileNotificationDependencies s' (stkResources stack))"

subsection \<open>The methods of the state records\<close>

definition stateBucket_shouldApply :: "stateBucket \<Rightarrow> bool" where
  "stateBucket_shouldApply b \<longleftrightarrow>
     IsRemoval (stateStatus b) \<or>
     (case existing b of
        None \<Rightarrow> True
      | Some e \<Rightarrow>
          description (parser b) \<noteq> Description e \<or>
          Name' (parser b) \<noteq> Name e \<or>
          retention (parser b) \<noteq> RetentionPeriod e)"

definition stateLabel_shouldApply :: "stateLabel \<Rightarrow> bool" where
  "stateLabel_shouldApply l \<longleftrightarrow>
     IsRemoval (stateStatus l) \<or>
     (case existing l of
        None \<Rightarrow> True
      | Some e \<Rightarrow>
          labelDescription (parser l) \<noteq> (case Properties e ''description'' of None \<Rightarrow> '''' | Some d \<Rightarrow> d) \<or>
          Name' (parser l) \<noteq> Name e \<or>
          color (parser l) \<noteq> (case Properties e ''color'' of None \<Rightarrow> '''' | Some c \<Rightarrow> c))"

definition stateVariable_shouldApply :: "stateVariable \<Rightarrow> bool" where
  "stateVariable_shouldApply v \<longleftrightarrow>
     IsRemoval (stateStatus v) \<or>
     (case existing v of
        None \<Rightarrow> True
      | Some e \<Rightarrow>
          VarDescription e \<noteq> varDescription (parser v) \<or>
          Arguments e = None \<or>
          Arguments e \<noteq> args (parser v))"

text \<open>
  The methods of a state rule that follow its endpoint pointer. \<open>endpointPkgName\<close> of the
  parsed rule is the field \<open>endpointName\<close>; here is the method of the state rule.
\<close>

definition stateRule_endpointPkgName :: "stateCoordinator \<Rightarrow> stateRule \<Rightarrow> string" where
  "stateRule_endpointPkgName s r =
     (case associatedEndpoint r of
        None \<Rightarrow> ''''
      | Some k \<Rightarrow> (case map_of (mEndpoints s) k of None \<Rightarrow> '''' | Some e \<Rightarrow> PkgName (parser e)))"

definition endpointAssociation :: "stateCoordinator \<Rightarrow> stateRule \<Rightarrow> StackResourceAssociation" where
  "endpointAssociation s r =
     (case associatedEndpoint r of
        None \<Rightarrow> \<lparr>saKind = KindUnknown, saPkgName = ''''\<rparr>
      | Some _ \<Rightarrow> \<lparr>saKind = KindNotificationEndpoint, saPkgName = stateRule_endpointPkgName s r\<rparr>)"

section \<open>The services the pkger service calls\<close>

text \<open>
  The resource services, the secret service and the stack store are interfaces declared
  outside the source files. An interface is a record of functions over the state \<open>'w\<close> of
  the platform (the store: over its own state \<open>'st\<close>), with the methods the code calls.
  A method that reads returns its result; a method that writes returns its result and the
  new state. Where the code drops the error of a read (\<^verbatim>\<open>existing, _ = ...\<close>), the read
  returns the pointer alone, nil being \<open>None\<close>. An update returns its error and its
  pointer. A method that creates returns its error, or the resource as the service left it
  behind the pointer it was given.
\<close>

record BucketUpdate =
  buName :: "string option"
  buDescription :: "string option"
  buRetentionPeriod :: "int option"

record 'w BucketService =
  FindBucketByID :: "ID \<Rightarrow> 'w \<Rightarrow> Bucket option"
  FindBucketByName :: "ID \<Rightarrow> string \<Rightarrow> 'w \<Rightarrow> Bucket option"
  CreateBucket :: "Bucket \<Rightarrow> 'w \<Rightarrow> (error + Bucket) \<times> 'w"
  UpdateBucket :: "ID \<Rightarrow> BucketUpdate \<Rightarrow> 'w \<Rightarrow> (error option \<times> Bucket option) \<times> 'w"
  DeleteBucket :: "ID \<Rightarrow> 'w \<Rightarrow> error option \<times> 'w"

text \<open>
  A check is created and updated from \<^verbatim>\<open>influxdb.CheckCreate{Check: c.summarize().Check,
  Status: c.parserCheck.Status()}\<close>; \<^verbatim>\<open>summarize\<close> and \<^verbatim>\<open>Status\<close> are the parser's. The service
  is handed the state check they are computed from.
\<close>

record 'w CheckService =
  FindCheckByID :: "ID \<Rightarrow> 'w \<Rightarrow> Check option"
  FindCheck :: "string \<Rightarrow> ID \<Rightarrow> 'w \<Rightarrow> Check option"
  CreateCheck :: "stateCheck \<Rightarrow> ID \<Rightarrow> 'w \<Rightarrow> (error + Check) \<times> 'w"
  UpdateCheck :: "ID \<Rightarrow> stateCheck \<Rightarrow> 'w \<Rightarrow> (error option \<times> Check option) \<times> 'w"
  DeleteCheck :: "ID \<Rightarrow> 'w \<Rightarrow> error option \<times> 'w"

record 'w DashboardService =
  FindDashboardByID :: "ID \<Rightarrow> 'w \<Rightarrow> Dashboard option"

record LabelUpdate =
  luName :: string
  luProperties :: "string \<rightharpoonup> string"

text \<open>\<^verbatim>\<open>FindLabels\<close> is called with a name, an organisation and the limit one.\<close>

record 'w LabelService =
  FindLabelByID :: "ID \<Rightarrow> 'w \<Rightarrow> Label option"
  FindLabels :: "string \<Rightarrow> ID \<Rightarrow> 'w \<Rightarrow> error + Label list"
  CreateLabel :: "Label \<Rightarrow> 'w \<Rightarrow> (error + Label) \<times> 'w"
  UpdateLabel :: "ID \<Rightarrow> LabelUpdate \<Rightarrow> 'w \<Rightarrow> (error option \<times> Label option) \<times> 'w"
  DeleteLabel :: "ID \<Rightarrow> 'w \<Rightarrow> error option \<times> 'w"

record 'w NotificationEndpointService =
  FindNotificationEndpoints :: "ID \<Rightarrow> 'w \<Rightarrow> error + NotificationEndpoint list"

record 'w NotificationRuleStore =
  FindNotificationRuleByID :: "ID \<Rightarrow> 'w \<Rightarrow> NotificationRule option"

text \<open>\<^verbatim>\<open>DeleteSecret\<close> takes the organisation and any number of keys.\<close>

record 'w SecretService =
  GetSecretKeys :: "ID \<Rightarrow> 'w \<Rightarrow> error + string list"
  PutSecrets :: "ID \<Rightarrow> string gomap \<Rightarrow> 'w \<Rightarrow> error option \<times> 'w"
  DeleteSecret :: "ID \<Rightarrow> string list \<Rightarrow> 'w \<Rightarrow> error option \<times> 'w"

record 'w TaskService =
  FindTaskByID :: "ID \<Rightarrow> 'w \<Rightarrow> Task option"

record 'w TelegrafConfigStore =
  FindTelegrafConfigByID :: "ID \<Rightarrow> 'w \<Rightarrow> TelegrafConfig option"

record VariableUpdate =
  vuName :: string
  vuDescription :: string
  vuArguments :: "string option"

text \<open>\<^verbatim>\<open>FindVariables\<close> is called with an organisation, a limit and an offset.\<close>

record 'w VariableService =
  FindVariables :: "ID \<Rightarrow> nat \<Rightarrow> nat \<Rightarrow> 'w \<Rightarrow> error + Variable list"
  CreateVariable :: "Variable \<Rightarrow> 'w \<Rightarrow> (error + Variable) \<times> 'w"
  UpdateVariable :: "ID \<Rightarrow> VariableUpdate \<Rightarrow> 'w \<Rightarrow> (error option \<times> Variable option) \<times> 'w"
  DeleteVariable :: "ID \<Rightarrow> 'w \<Rightarrow> error option \<times> 'w"

record 'st Store =
  CreateStack :: "Stack \<Rightarrow> 'st \<Rightarrow> error option \<times> 'st"
  ReadStackByID :: "ID \<Rightarrow> 'st \<Rightarrow> (error + Stack) \<times> 'st"
  UpdateStack :: "Stack \<Rightarrow> 'st \<Rightarrow> error option \<times> 'st"
  DeleteStack :: "ID \<Rightarrow> 'st \<Rightarrow> error option \<times> 'st"

text \<open>
  The \<^verbatim>\<open>Service\<close> struct: its store and its external services. The logger is the list of
  logged entries in the state of an apply; \<^verbatim>\<open>applyReqLimit\<close> is the width of the semaphore,
  one here; \<^verbatim>\<open>idGen\<close>, \<^verbatim>\<open>timeGen\<close> and \<^verbatim>\<open>orgSVC\<close> are not used by dry-run and apply.
\<close>

record ('w, 'st) Service =
  store :: "'st Store"
  bucketSVC :: "'w BucketService"
  checkSVC :: "'w CheckService"
  dashSVC :: "'w DashboardService"
  labelSVC :: "'w LabelService"
  endpointSVC :: "'w NotificationEndpointService"
  ruleSVC :: "'w NotificationRuleStore"
  secretSVC :: "'w SecretService"
  taskSVC :: "'w TaskService"
  teleSVC :: "'w TelegrafConfigStore"
  varSVC :: "'w VariableService"

section \<open>Dry run\<close>

text \<open>
  \<^verbatim>\<open>for _, p := range m { ... }\<close> over a map of pointers, where the body changes the record
  behind \<open>p\<close> and no other: every record of the map is replaced by its image.
\<close>

definition forEach :: "('v \<Rightarrow> 'v) \<Rightarrow> 'v gomap \<Rightarrow> 'v gomap" where
  "forEach f m = foldl (\<lambda>m k. AList.map_entry k f m) m (keys m)"

text \<open>A map that a loop fills with \<^verbatim>\<open>m[key(x)] = x\<close>: the last entry of a key stays.\<close>

definition indexBy :: "('a \<Rightarrow> 'k) \<Rightarrow> 'a list \<Rightarrow> 'k \<rightharpoonup> 'a" where
  "indexBy key xs = map_of (rev (map (\<lambda>x. (key x, x)) xs))"

definition dryRunBucket :: "'w BucketService \<Rightarrow> ID \<Rightarrow> 'w \<Rightarrow> stateBucket \<Rightarrow> stateBucket" where
  "dryRunBucket svc orgID' w stateBkt0 =
     (let stateBkt = stateBkt0\<lparr>orgID := orgID'\<rparr>;
          existing' =
            (if stateBucket_ID stateBkt \<noteq> 0 then FindBucketByID svc (stateBucket_ID stateBkt) w
             else FindBucketByName svc orgID' (Name' (parser stateBkt)) w);
          stateBkt = (if IsNew (stateStatus stateBkt) \<and> existing' \<noteq> None
                      then stateBkt\<lparr>stateStatus := StateStatusExists\<rparr> else stateBkt)
      in stateBkt\<lparr>existing := existing'\<rparr>)"

definition dryRunBuckets :: "'w BucketService \<Rightarrow> ID \<Rightarrow> 'w \<Rightarrow> stateBucket gomap \<Rightarrow> stateBucket gomap" where
  "dryRunBuckets svc orgID' w bkts = forEach (dryRunBucket svc orgID' w) bkts"

definition dryRunCheck :: "'w CheckService \<Rightarrow> ID \<Rightarrow> 'w \<Rightarrow> stateCheck \<Rightarrow> stateCheck" where
  "dryRunCheck svc orgID' w c0 =
     (let c = c0\<lparr>orgID := orgID'\<rparr>;
          existing' =
            (if stateCheck_ID c \<noteq> 0 then FindCheckByID svc (stateCheck_ID c) w
             else FindCheck svc (Name' (parser c)) orgID' w);
          c = (if IsNew (stateStatus c) \<and> existing' \<noteq> None
               then c\<lparr>stateStatus := StateStatusExists\<rparr> else c)
      in c\<lparr>existing := existing'\<rparr>)"

definition dryRunChecks :: "'w CheckService \<Rightarrow> ID \<Rightarrow> 'w \<Rightarrow> stateCheck gomap \<Rightarrow> stateCheck gomap" where
  "dryRunChecks svc orgID' w checks = forEach (dryRunCheck svc orgID' w) checks"

definition dryRunDashboard :: "'w DashboardService \<Rightarrow> ID \<Rightarrow> 'w \<Rightarrow> stateDashboard \<Rightarrow> stateDashboard" where
  "dryRunDashboard svc orgID' w stateDash0 =
     (let stateDash = stateDash0\<lparr>orgID := orgID'\<rparr>;
          existing' =
            (if stateDashboard_ID stateDash \<noteq> 0 then FindDashboardByID svc (stateDashboard_ID stateDash) w
             else None);
          stateDash = (if IsNew (stateStatus stateDash) \<and> existing' \<noteq> None
                       then stateDash\<lparr>stateStatus := StateStatusExists\<rparr> else stateDash)
      in stateDash\<lparr>existing := existing'\<rparr>)"

definition dryRunDashboards ::
  "'w DashboardService \<Rightarrow> ID \<Rightarrow> 'w \<Rightarrow> stateDashboard gomap \<Rightarrow> stateDashboard gomap" where
  "dryRunDashboards svc orgID' w dashs = forEach (dryRunDashboard svc orgID' w) dashs"

definition findLabel :: "'w LabelService \<Rightarrow> ID \<Rightarrow> 'w \<Rightarrow> stateLabel \<Rightarrow> Label option" where
  "findLabel svc orgID' w l =
     (if stateLabel_ID l \<noteq> 0 then FindLabelByID svc (stateLabel_ID l) w
      else
        (case FindLabels svc (Name' (parser l)) orgID' w of
           Inl err \<Rightarrow> None
         | Inr existingLabels \<Rightarrow>
             (case existingLabels of
                [] \<Rightarrow> None
              | x # _ \<Rightarrow> Some x)))"

definition dryRunLabel :: "'w LabelService \<Rightarrow> ID \<Rightarrow> 'w \<Rightarrow> stateLabel \<Rightarrow> stateLabel" where
  "dryRunLabel svc orgID' w pkgLabel0 =
     (let pkgLabel = pkgLabel0\<lparr>orgID := orgID'\<rparr>;
          existingLabel = findLabel svc orgID' w pkgLabel;
          pkgLabel = (if IsNew (stateStatus pkgLabel) \<and> existingLabel \<noteq> None
                      then pkgLabel\<lparr>stateStatus := StateStatusExists\<rparr> else pkgLabel)
      in pkgLabel\<lparr>existing := existingLabel\<rparr>)"

definition dryRunLabels :: "'w LabelService \<Rightarrow> ID \<Rightarrow> 'w \<Rightarrow> stateLabel gomap \<Rightarrow> stateLabel gomap" where
  "dryRunLabels svc orgID' w ls = forEach (dryRunLabel svc orgID' w) ls"

definition findEndpoint :: "NotificationEndpoint list \<Rightarrow> stateEndpoint \<Rightarrow> NotificationEndpoint option" where
  "findEndpoint existingEndpoints e =
     (let mExistingByName = indexBy Name existingEndpoints;
          mExistingByID = indexBy ID existingEndpoints
      in case mExistingByID (stateEndpoint_ID e) of
           Some iExisting \<Rightarrow> Some iExisting
         | None \<Rightarrow>
             (case mExistingByName (Name' (parser e)) of
                Some iExisting \<Rightarrow> Some iExisting
              | None \<Rightarrow> None))"

definition dryRunNotificationEndpoint :: "NotificationEndpoint list \<Rightarrow> stateEndpoint \<Rightarrow> stateEndpoint" where
  "dryRunNotificationEndpoint existingEndpoints newEndpoint0 =
     (let existing' = findEndpoint existingEndpoints newEndpoint0;
          newEndpoint = (if IsNew (stateStatus newEndpoint0) \<and> existing' \<noteq> None
                         then newEndpoint0\<lparr>stateStatus := StateStatusExists\<rparr> else newEndpoint0)
      in newEndpoint\<lparr>existing := existing'\<rparr>)"

definition dryRunNotificationEndpoints ::
  "'w NotificationEndpointService \<Rightarrow> ID \<Rightarrow> 'w \<Rightarrow> stateEndpoint gomap \<Rightarrow> error option \<times> stateEndpoint gomap" where
  "dryRunNotificationEndpoints svc orgID' w endpoints =
     (case FindNotificationEndpoints svc orgID' w of
        Inl err \<Rightarrow> (internalErr (Some err), endpoints)
      | Inr existingEndpoints \<Rightarrow> (None, forEach (dryRunNotificationEndpoint existingEndpoints) endpoints))"

definition dryRunNotificationRule ::
  "'w NotificationRuleStore \<Rightarrow> ID \<Rightarrow> 'w \<Rightarrow> stateRule \<Rightarrow> stateRule" where
  "dryRunNotificationRule svc orgID' w rule0 =
     (let rule = rule0\<lparr>orgID := orgID'\<rparr>;
          existing' =
            (if stateRule_ID rule \<noteq> 0 then FindNotificationRuleByID svc (stateRule_ID rule) w
             else None)
      in rule\<lparr>existing := existing'\<rparr>)"

text \<open>
  The second loop of \<^verbatim>\<open>dryRunNotificationRules\<close>, which returns at the first rule whose
  endpoint is missing. It runs over the rules in the order of the map; each step reads and
  writes the rule at hand alone.
\<close>

fun bindEndpoints :: "stateEndpoint gomap \<Rightarrow> (string \<times> stateRule) list \<Rightarrow> stateRule gomap
    \<Rightarrow> error option \<times> stateRule gomap" where
  "bindEndpoints endpoints [] rules = (None, rules)"
| "bindEndpoints endpoints ((k, r) # rs) rules =
     (if associatedEndpoint r \<noteq> None then bindEndpoints endpoints rs rules
      else
        (let ok = (map_of endpoints (endpointName (parser r)) \<noteq> None) in
         if \<not> IsRemoval (stateStatus r) \<and> \<not> ok then
           (Some (Error EUnprocessableEntity
              [Txt ''failed to find notification endpoint '', QStr (endpointName (parser r)),
               Txt '' dependency for notification rule '', QStr (PkgName (parser r))]), rules)
         else bindEndpoints endpoints rs
           (AList.map_entry k (\<lambda>r. r\<lparr>associatedEndpoint := ptr endpoints (endpointName (parser r))\<rparr>) rules)))"

definition dryRunNotificationRules ::
  "'w NotificationRuleStore \<Rightarrow> ID \<Rightarrow> 'w \<Rightarrow> stateRule gomap \<Rightarrow> stateEndpoint gomap
    \<Rightarrow> error option \<times> stateRule gomap" where
  "dryRunNotificationRules svc orgID' w rules endpoints =
     (let rules = forEach (dryRunNotificationRule svc orgID' w) rules
      in bindEndpoints endpoints (items rules) rules)"

definition dryRunSecrets :: "'w SecretService \<Rightarrow> ID \<Rightarrow> 'w \<Rightarrow> Pkg \<Rightarrow> error option \<times> Pkg" where
  "dryRunSecrets svc orgID' w pkg =
     (let pkgSecrets = mSecrets pkg in
      if length (keys pkgSecrets) = 0 then (None, pkg)
      else
        (case GetSecretKeys svc orgID' w of
           Inl err \<Rightarrow> (Some (Error EInternal (Msg err)), pkg)
         | Inr existingSecrets \<Rightarrow>
             (None, pkg\<lparr>mSecrets := foldl (\<lambda>m secret. AList.update secret True m) pkgSecrets existingSecrets\<rparr>)))"

definition dryRunTask :: "'w TaskService \<Rightarrow> ID \<Rightarrow> 'w \<Rightarrow> stateTask \<Rightarrow> stateTask" where
  "dryRunTask svc orgID' w stateTask0 =
     (let stateTask = stateTask0\<lparr>orgID := orgID'\<rparr>;
          existing' =
            (if stateTask_ID stateTask \<noteq> 0 then FindTaskByID svc (stateTask_ID stateTask) w
             else None);
          stateTask = (if IsNew (stateStatus stateTask) \<and> existing' \<noteq> None
                       then stateTask\<lparr>stateStatus := StateStatusExists\<rparr> else stateTask)
      in stateTask\<lparr>existing := existing'\<rparr>)"

definition dryRunTasks :: "'w TaskService \<Rightarrow> ID \<Rightarrow> 'w \<Rightarrow> stateTask gomap \<Rightarrow> stateTask gomap" where
  "dryRunTasks svc orgID' w tasks = forEach (dryRunTask svc orgID' w) tasks"

definition dryRunTelegrafConfig :: "'w TelegrafConfigStore \<Rightarrow> ID \<Rightarrow> 'w \<Rightarrow> stateTelegraf \<Rightarrow> stateTelegraf" where
  "dryRunTelegrafConfig svc orgID' w stateTele0 =
     (let stateTele = stateTele0\<lparr>orgID := orgID'\<rparr>;
          existing' =
            (if stateTelegraf_ID stateTele \<noteq> 0 then FindTelegrafConfigByID svc (stateTelegraf_ID stateTele) w
             else None);
          stateTele = (if IsNew (stateStatus stateTele) \<and> existing' \<noteq> None
                       then stateTele\<lparr>stateStatus := StateStatusExists\<rparr> else stateTele)
      in stateTele\<lparr>existing := existing'\<rparr>)"

definition dryRunTelegrafConfigs ::
  "'w TelegrafConfigStore \<Rightarrow> ID \<Rightarrow> 'w \<Rightarrow> stateTelegraf gomap \<Rightarrow> stateTelegraf gomap" where
  "dryRunTelegrafConfigs svc orgID' w teleConfigs = forEach (dryRunTelegrafConfig svc orgID' w) teleConfigs"

text \<open>
  \<^verbatim>\<open>getAllPlatformVariables\<close> reads the variables page by page, a hundred at a time, until a
  page is short. The loop need not end: the result is \<open>None\<close> when it does not.
\<close>

partial_function (option) getAllPlatformVariablesFrom ::
  "'w VariableService \<Rightarrow> ID \<Rightarrow> 'w \<Rightarrow> Variable list \<Rightarrow> nat \<Rightarrow> (error + Variable list) option" where
  "getAllPlatformVariablesFrom svc orgID' w existingVars offset =
     (case FindVariables svc orgID' 100 offset w of
        Inl err \<Rightarrow> Some (Inl err)
      | Inr vars \<Rightarrow>
          if length vars < 100 then Some (Inr (existingVars @ vars))
          else getAllPlatformVariablesFrom svc orgID' w (existingVars @ vars) (offset + length vars))"

definition getAllPlatformVariables :: "'w VariableService \<Rightarrow> ID \<Rightarrow> 'w \<Rightarrow> (error + Variable list) option" where
  "getAllPlatformVariables svc orgID' w = getAllPlatformVariablesFrom svc orgID' w [] 0"

definition dryRunVariable :: "Variable list \<Rightarrow> stateVariable \<Rightarrow> stateVariable" where
  "dryRunVariable existingVars v0 =
     (let mIDs = indexBy ID existingVars;
          mNames = indexBy Name existingVars;
          existing' =
            (if stateVariable_ID v0 \<noteq> 0 then mIDs (stateVariable_ID v0)
             else mNames (Name' (parser v0)));
          v = (if IsNew (stateStatus v0) \<and> existing' \<noteq> None
               then v0\<lparr>stateStatus := StateStatusExists\<rparr> else v0)
      in v\<lparr>existing := existing'\<rparr>)"

definition dryRunVariables ::
  "'w VariableService \<Rightarrow> ID \<Rightarrow> 'w \<Rightarrow> stateVariable gomap \<Rightarrow> stateVariable gomap option" where
  "dryRunVariables svc orgID' w vars =
     (case getAllPlatformVariables svc orgID' w of
        None \<Rightarrow> None
      | Some res \<Rightarrow>
          (let existingVars = (case res of Inl err \<Rightarrow> [] | Inr vs \<Rightarrow> vs)
           in Some (forEach (dryRunVariable existingVars) vars)))"

text \<open>\<^verbatim>\<open>Service.addStackState\<close>: the one place where dry-run reads the store.\<close>

definition Service_addStackState ::
  "'st Store \<Rightarrow> ID \<Rightarrow> stateCoordinator \<Rightarrow> 'st \<Rightarrow> (error option \<times> stateCoordinator \<times> 'st) option" where
  "Service_addStackState store' stackID state st =
     (case ReadStackByID store' stackID st of
        (Inl err, st') \<Rightarrow> Some (Wrap (internalErr (Some err)) ''reading stack'', state, st')
      | (Inr stack, st') \<Rightarrow>
          (case addStackState state stack of
             None \<Rightarrow> None
           | Some state' \<Rightarrow> Some (None, state', st')))"

subsection \<open>Options of an apply\<close>

record ApplyOpt =
  EnvRefs :: "string gomap"
  MissingSecrets :: "string gomap"
  StackID :: ID

type_synonym ApplyOptFn = "ApplyOpt \<Rightarrow> ApplyOpt"

definition ApplyWithEnvRefs :: "string gomap \<Rightarrow> ApplyOptFn" where
  "ApplyWithEnvRefs envRefs = (\<lambda>opt. opt\<lparr>EnvRefs := envRefs\<rparr>)"

definition ApplyWithSecrets :: "string gomap \<Rightarrow> ApplyOptFn" where
  "ApplyWithSecrets secrets = (\<lambda>opt. opt\<lparr>MissingSecrets := secrets\<rparr>)"


definition applyOptFromOptFns :: "ApplyOptFn list \<Rightarrow> ApplyOpt" where
  "applyOptFromOptFns opts = foldl (\<lambda>opt ofn. ofn opt) \<lparr>EnvRefs = [], MissingSecrets = [], StackID = 0\<rparr> opts"

subsection \<open>The dry run\<close>

text \<open>
  The methods of the package (\<^verbatim>\<open>Validate\<close>, \<^verbatim>\<open>applyEnvRefs\<close>, \<^verbatim>\<open>applySecrets\<close>) and \<^verbatim>\<open>IsParseErr\<close>
  are the parser's, outside the source files: they are parameters. So is
  \<^verbatim>\<open>dryRunLabelMappings\<close>, which reads the state and the label service and no claim below
  is about. A method of the package that changes the package returns the new one.
\<close>

record 'w pkgMethods =
  Validate :: "Pkg \<Rightarrow> error option \<times> Pkg"
  IsParseErr :: "error \<Rightarrow> bool"
  applyEnvRefs :: "Pkg \<Rightarrow> string gomap \<Rightarrow> error option \<times> Pkg"
  applySecrets' :: "Pkg \<Rightarrow> string gomap \<Rightarrow> Pkg"
  dryRunLabelMappings :: "'w \<Rightarrow> stateCoordinator \<Rightarrow> (error + stateLabelMapping list) option"

text \<open>
  \<^verbatim>\<open>dryRun\<close> returns a state (nil on failure) and an error (the parse error, when the state
  is returned with one). The package and the state of the store are returned as the call
  leaves them. The dry run is written in three parts: the validation, the building of the
  state, the reads of the platform. A part that makes \<^verbatim>\<open>dryRun\<close> return early gives the
  returned error as \<open>Inl\<close>.
\<close>

definition dryRunValidate ::
  "'w pkgMethods \<Rightarrow> Pkg \<Rightarrow> ApplyOpt \<Rightarrow> (error option + error option) \<times> Pkg" where
  "dryRunValidate m pkg0 opt =
     (case (if \<not> isParsed pkg0 then
              (case Validate m pkg0 of
                 (Some err, pkg) \<Rightarrow>
                   if \<not> IsParseErr m err then (Inl (internalErr (Some err)), pkg) else (Inr (Some err), pkg)
               | (None, pkg) \<Rightarrow> (Inr None, pkg))
            else (Inr None, pkg0)) of
        (Inl e, pkg) \<Rightarrow> (Inl e, pkg)
      | (Inr parseErr, pkg) \<Rightarrow>
          if length (keys (EnvRefs opt)) > 0 then
            (case applyEnvRefs m pkg (EnvRefs opt) of
               (Some err, pkg') \<Rightarrow>
                 if \<not> IsParseErr m err then (Inl (internalErr (Some err)), pkg') else (Inr (Some err), pkg')
             | (None, pkg') \<Rightarrow> (Inr None, pkg'))
          else (Inr parseErr, pkg))"

definition dryRunState ::
  "('w, 'st) Service \<Rightarrow> Pkg \<Rightarrow> ApplyOpt \<Rightarrow> 'st \<Rightarrow> (error option \<times> stateCoordinator \<times> 'st) option" where
  "dryRunState svc pkg opt st =
     (let state = newStateCoordinator pkg in
      if StackID opt > 0 then
        (case Service_addStackState (store svc) (StackID opt) state st of
           None \<Rightarrow> None
         | Some (err, state', st') \<Rightarrow> Some (internalErr err, state', st'))
      else Some (None, state, st))"

definition dryRunResources ::
  "'w pkgMethods \<Rightarrow> ('w, 'st) Service \<Rightarrow> ID \<Rightarrow> 'w \<Rightarrow> stateCoordinator
    \<Rightarrow> (error option + stateCoordinator) option" where
  "dryRunResources m svc orgID' w state0 =
     (let state = state0\<lparr>mBuckets := dryRunBuckets (bucketSVC svc) orgID' w (mBuckets state0)\<rparr>;
          state = state\<lparr>mChecks := dryRunChecks (checkSVC svc) orgID' w (mChecks state)\<rparr>;
          state = state\<lparr>mDashboards := dryRunDashboards (dashSVC svc) orgID' w (mDashboards state)\<rparr>;
          state = state\<lparr>mLabels := dryRunLabels (labelSVC svc) orgID' w (mLabels state)\<rparr>;
          state = state\<lparr>mTasks := dryRunTasks (taskSVC svc) orgID' w (mTasks state)\<rparr>;
          state = state\<lparr>mTelegrafs := dryRunTelegrafConfigs (teleSVC svc) orgID' w (mTelegrafs state)\<rparr>
      in case dryRunVariables (varSVC svc) orgID' w (mVariables state) of
           None \<Rightarrow> None
         | Some vars \<Rightarrow>
             (let state = state\<lparr>mVariables := vars\<rparr> in
              case dryRunNotificationEndpoints (endpointSVC svc) orgID' w (mEndpoints state) of
                (Some err, _) \<Rightarrow> Some (Inl (Wrap (Some err) ''failed to dry run notification endpoints''))
              | (None, es) \<Rightarrow>
                  (let state = state\<lparr>mEndpoints := es\<rparr> in
                   case dryRunNotificationRules (ruleSVC svc) orgID' w (mRules state) (mEndpoints state) of
                     (Some err, _) \<Rightarrow> Some (Inl (Some err))
                   | (None, rs) \<Rightarrow>
                       (let state = state\<lparr>mRules := rs\<rparr> in
                        case dryRunLabelMappings m w state of
                          None \<Rightarrow> None
                        | Some (Inl err) \<Rightarrow> Some (Inl (Some err))
                        | Some (Inr stateLabelMappings) \<Rightarrow>
                            Some (Inr (state\<lparr>labelMappings := stateLabelMappings\<rparr>))))))"

definition dryRun ::
  "'w pkgMethods \<Rightarrow> ('w, 'st) Service \<Rightarrow> ID \<Rightarrow> Pkg \<Rightarrow> ApplyOptFn list \<Rightarrow> 'w \<Rightarrow> 'st
    \<Rightarrow> ((stateCoordinator option \<times> error option) \<times> Pkg \<times> 'st) option" where
  "dryRun m svc orgID' pkg0 opts w st =
     (let opt = applyOptFromOptFns opts in
      case dryRunValidate m pkg0 opt of
        (Inl e, pkg) \<Rightarrow> Some ((None, e), pkg, st)
      | (Inr parseErr, pkg) \<Rightarrow>
          (case dryRunState svc pkg opt st of
             None \<Rightarrow> None
           | Some (Some err, _, st') \<Rightarrow> Some ((None, Some err), pkg, st')
           | Some (None, state, st') \<Rightarrow>
               (case dryRunSecrets (secretSVC svc) orgID' w pkg of
                  (Some err, pkg') \<Rightarrow> Some ((None, Some err), pkg', st')
                | (None, pkg') \<Rightarrow>
                    (case dryRunResources m svc orgID' w state of
                       None \<Rightarrow> None
                     | Some (Inl e) \<Rightarrow> Some ((None, e), pkg', st')
                     | Some (Inr state') \<Rightarrow> Some ((Some state', parseErr), pkg', st')))))"

text \<open>
  \<^verbatim>\<open>DryRun\<close> returns the summary and the diff of the state, which are views of the state
  and the package: the state and the package are returned in their place.
\<close>

definition DryRun ::
  "'w pkgMethods \<Rightarrow> ('w, 'st) Service \<Rightarrow> ID \<Rightarrow> ID \<Rightarrow> Pkg \<Rightarrow> ApplyOptFn list \<Rightarrow> 'w \<Rightarrow> 'st
    \<Rightarrow> ((error + stateCoordinator \<times> Pkg) \<times> 'st) option" where
  "DryRun m svc orgID' userID pkg opts w st =
     (case dryRun m svc orgID' pkg opts w st of
        None \<Rightarrow> None
      | Some ((_, Some err), _, st') \<Rightarrow> Some (Inl err, st')
      | Some ((None, None), _, st') \<Rightarrow> None
      | Some ((Some state, None), pkg', st') \<Rightarrow> Some (Inr (state, pkg'), st'))"

section \<open>Apply\<close>

subsection \<open>Appliers and the rollback coordinator\<close>

text \<open>
  An applier is a pair of closures. The closures of one apply share variables: the state
  coordinator, the slices they append to, the platform behind the services. The state
  \<open>'c\<close> holds them, and a closure is a function on it. \<^verbatim>\<open>creater.fn\<close> and \<^verbatim>\<open>rollbacker.fn\<close> are
  \<open>create_fn\<close> and \<open>rollback_fn\<close>. The semaphore of the coordinator is not modelled: its
  width is one.
\<close>

record applyErrBody =
  ebName :: string
  ebMsg :: errtext

record errMsg =
  emResource :: string
  emErr :: applyErrBody

record 'c rollbacker =
  resource :: string
  rollback_fn :: "ID \<Rightarrow> 'c \<Rightarrow> (error option \<times> 'c) option"

record 'c creater =
  entries :: nat
  create_fn :: "nat \<Rightarrow> ID \<Rightarrow> ID \<Rightarrow> 'c \<Rightarrow> (applyErrBody option \<times> 'c) option"

record 'c applier =
  creater :: "'c creater"
  rollbacker :: "'c rollbacker"

record 'c rollbackCoordinator =
  rollbacks :: "'c rollbacker list"

text \<open>The zero values: a nil function does not return when it is called.\<close>

definition zeroCreater :: "'c creater" where
  "zeroCreater = \<lparr>entries = 0, create_fn = (\<lambda>i orgID' userID c. None)\<rparr>"

definition zeroRollbacker :: "'c rollbacker" where
  "zeroRollbacker = \<lparr>resource = '''', rollback_fn = (\<lambda>orgID' c. None)\<rparr>"

definition toErrorText :: "applyErrBody list \<Rightarrow> string \<Rightarrow> string \<Rightarrow> errtext" where
  "toErrorText a resType msg =
     [Txt ''resource_type='', QStr resType, Txt '' err='', QStr msg] @
     concat (map (\<lambda>e. [Txt [CHR 0x0A, CHR 0x09], Txt ''pkg_name='', QStr (ebName e),
                         Txt '' err_msg='', QText (ebMsg e)]) a)"

definition toError :: "applyErrBody list \<Rightarrow> string \<Rightarrow> string \<Rightarrow> error option" where
  "toError a resType msg = (if length a = 0 then None else Some (errorsNew (toErrorText a resType msg)))"

text \<open>
  The error stream: the messages of a stage, grouped by resource in a map, make one error.
  Every group has a message, so its \<^verbatim>\<open>toError\<close> is not nil.
\<close>

definition errStream_close :: "errMsg list \<Rightarrow> error option" where
  "errStream_close msgs =
     (let mErrs = foldl (\<lambda>m msg. AList.update (emResource msg)
                    ((case map_of m (emResource msg) of None \<Rightarrow> [] | Some errs \<Rightarrow> errs) @ [emErr msg]) m)
                  [] msgs
      in if length (keys mErrs) = 0 then None
         else Some (errorsNew (Join (map (\<lambda>(resource', err). toErrorText err resource' ''failed to apply resource'')
                                 (items mErrs)) [CHR 0x0A])))"

text \<open>
  \<^verbatim>\<open>runTilEnd\<close>. For every applier, in order: its rollbacker is appended to the rollbacks of
  the coordinator, then its creater runs once per entry. The errors of the entries are
  collected; a stage returns one error when there is any.
\<close>

definition runEntry ::
  "'c applier \<Rightarrow> ID \<Rightarrow> ID \<Rightarrow> errMsg list \<times> 'c \<Rightarrow> nat \<Rightarrow> (errMsg list \<times> 'c) option" where
  "runEntry app orgID' userID ec i =
     (case create_fn (creater app) i orgID' userID (snd ec) of
        None \<Rightarrow> None
      | Some (None, c') \<Rightarrow> Some (fst ec, c')
      | Some (Some err, c') \<Rightarrow>
          Some (fst ec @ [\<lparr>emResource = resource (rollbacker app), emErr = err\<rparr>], c'))"

definition runApplier ::
  "ID \<Rightarrow> ID \<Rightarrow> 'c rollbackCoordinator \<times> errMsg list \<times> 'c \<Rightarrow> 'c applier
    \<Rightarrow> ('c rollbackCoordinator \<times> errMsg list \<times> 'c) option" where
  "runApplier orgID' userID rec app =
     (case rec of (r, ec) \<Rightarrow>
        (let r' = r\<lparr>rollbacks := rollbacks r @ [rollbacker app]\<rparr>
         in case foldOpt (runEntry app orgID' userID) ec [0..<entries (creater app)] of
              None \<Rightarrow> None
            | Some ec' \<Rightarrow> Some (r', ec')))"

definition runTilEnd ::
  "'c rollbackCoordinator \<Rightarrow> ID \<Rightarrow> ID \<Rightarrow> 'c applier list \<Rightarrow> 'c
    \<Rightarrow> (error option \<times> 'c rollbackCoordinator \<times> 'c) option" where
  "runTilEnd r orgID' userID appliers c =
     (case foldOpt (runApplier orgID' userID) (r, [], c) appliers of
        None \<Rightarrow> None
      | Some (r', msgs, c') \<Rightarrow> Some (errStream_close msgs, r', c'))"

text \<open>
  \<^verbatim>\<open>rollback\<close>. The logger \<open>l\<close> is the function that logs an error with its message. When
  the error of the apply is not nil, every rollbacker is called, in the order of the slice;
  an error of a rollbacker is logged and the loop goes on.
\<close>

definition rollbackStep ::
  "(string \<Rightarrow> error \<Rightarrow> 'c \<Rightarrow> 'c) \<Rightarrow> ID \<Rightarrow> 'c \<Rightarrow> 'c rollbacker \<Rightarrow> 'c option" where
  "rollbackStep l orgID' c r =
     (case rollback_fn r orgID' c of
        None \<Rightarrow> None
      | Some (None, c') \<Rightarrow> Some c'
      | Some (Some err, c') \<Rightarrow> Some (l (''failed to delete '' @ resource r) err c'))"

definition rollback ::
  "'c rollbackCoordinator \<Rightarrow> (string \<Rightarrow> error \<Rightarrow> 'c \<Rightarrow> 'c) \<Rightarrow> error option \<Rightarrow> ID \<Rightarrow> 'c \<Rightarrow> 'c option" where
  "rollback r l err orgID' c =
     (if err = None then Some c
      else foldOpt (rollbackStep l orgID') c (rollbacks r))"

subsection \<open>The state of an apply\<close>

text \<open>
  What the closures of one apply share: the platform, the state coordinator, the log of
  the service, and the slices the closures of \<^verbatim>\<open>applySecrets\<close>, \<^verbatim>\<open>applyBuckets\<close>,
  \<^verbatim>\<open>applyChecks\<close>, \<^verbatim>\<open>applyLabels\<close> and \<^verbatim>\<open>applyVariables\<close> append to (slices of pointers: lists
  of keys). \<open>others\<close> holds the variables of the closures that are parameters below.
\<close>

record ('w, 'x) applyCtx =
  world :: 'w
  state :: stateCoordinator
  logged :: "(string \<times> error) list"
  rollbackSecrets :: "string list"
  rollbackBuckets :: "string list"
  rollbackChecks :: "string list"
  rollBackLabels :: "string list"
  rollBackVars :: "string list"
  others :: 'x

definition logError :: "string \<Rightarrow> error \<Rightarrow> ('w, 'x) applyCtx \<Rightarrow> ('w, 'x) applyCtx" where
  "logError msg err c = c\<lparr>logged := logged c @ [(msg, err)]\<rparr>"

text \<open>\<^verbatim>\<open>fmt.Errorf("...[%q]: %w", id, err)\<close>.\<close>

definition Errorf_id :: "string \<Rightarrow> ID \<Rightarrow> error \<Rightarrow> error" where
  "Errorf_id what i err = Error (Code err) ([Txt what, Txt ''['', QID i, Txt '']: ''] @ Msg err)"

subsection \<open>Secrets\<close>

definition applySecrets :: "'w SecretService \<Rightarrow> string gomap \<Rightarrow> ('w, 'x) applyCtx applier" where
  "applySecrets svc secrets =
     (if length (keys secrets) = 0 then
        \<lparr>creater = zeroCreater,
         rollbacker = \<lparr>resource = '''', rollback_fn = (\<lambda>orgID' c. Some (None, c))\<rparr>\<rparr>
      else
        \<lparr>creater =
           \<lparr>entries = 1,
            create_fn = (\<lambda>i orgID' userID c.
              case PutSecrets svc orgID' secrets (world c) of
                (Some err, w') \<Rightarrow> Some (Some \<lparr>ebName = ''secrets'', ebMsg = Msg err\<rparr>, c\<lparr>world := w'\<rparr>)
              | (None, w') \<Rightarrow>
                  Some (None, c\<lparr>world := w', rollbackSecrets := rollbackSecrets c @ keys secrets\<rparr>))\<rparr>,
         rollbacker =
           \<lparr>resource = ''secrets'',
            rollback_fn = (\<lambda>orgID' c.
              case DeleteSecret svc orgID' [] (world c) of
                (err, w') \<Rightarrow> Some (err, c\<lparr>world := w'\<rparr>))\<rparr>\<rparr>)"

subsection \<open>Buckets\<close>

definition applyBucket :: "'w BucketService \<Rightarrow> stateBucket \<Rightarrow> 'w \<Rightarrow> ((error + Bucket) \<times> 'w) option" where
  "applyBucket svc b w =
     (if stateStatus b = StateStatusRemove then
        (case DeleteBucket svc (stateBucket_ID b) w of
           (Some err, w') \<Rightarrow> Some (Inl (Errorf_id ''failed to delete bucket'' (stateBucket_ID b) err), w')
         | (None, w') \<Rightarrow>
             (case existing b of
                None \<Rightarrow> None
              | Some e \<Rightarrow> Some (Inr e, w')))
      else if stateStatus b = StateStatusExists then
        (case UpdateBucket svc (stateBucket_ID b)
                \<lparr>buName = Some (Name' (parser b)),
                 buDescription = Some (description (parser b)),
                 buRetentionPeriod = Some (retention (parser b))\<rparr> w of
           ((Some err, _), w') \<Rightarrow> Some (Inl (Errorf_id ''failed to updated bucket'' (stateBucket_ID b) err), w')
         | ((None, None), w') \<Rightarrow> None
         | ((None, Some influxBucket), w') \<Rightarrow> Some (Inr influxBucket, w'))
      else
        (case CreateBucket svc
                \<lparr>ID = 0, OrgID = orgID b, Name = Name' (parser b),
                 Description = description (parser b), RetentionPeriod = retention (parser b)\<rparr> w of
           (Inl err, w') \<Rightarrow> Some (Inl (Errorf_id ''failed to create bucket'' (stateBucket_ID b) err), w')
         | (Inr influxBucket, w') \<Rightarrow> Some (Inr influxBucket, w')))"

text \<open>
  The creater of \<^verbatim>\<open>applyBuckets\<close>. \<open>buckets\<close> is the slice of pointers the applier was made
  with. The first critical section sets the organisation of the record and takes the
  pointer; the second sets the id and appends the pointer to \<^verbatim>\<open>rollbackBuckets\<close>.
\<close>

definition applyBuckets_createFn ::
  "'w BucketService \<Rightarrow> string list \<Rightarrow> nat \<Rightarrow> ID \<Rightarrow> ID \<Rightarrow> ('w, 'x) applyCtx
    \<Rightarrow> (applyErrBody option \<times> ('w, 'x) applyCtx) option" where
  "applyBuckets_createFn svc buckets i orgID' userID c0 =
     (if \<not> i < length buckets then None
      else
        (let c = c0\<lparr>state := (state c0)\<lparr>mBuckets :=
                   AList.map_entry (buckets ! i) (\<lambda>b. b\<lparr>orgID := orgID'\<rparr>) (mBuckets (state c0))\<rparr>\<rparr>
         in case map_of (mBuckets (state c)) (buckets ! i) of
              None \<Rightarrow> None
            | Some b \<Rightarrow>
                if \<not> stateBucket_shouldApply b then Some (None, c)
                else
                  (case applyBucket svc b (world c) of
                     None \<Rightarrow> None
                   | Some (Inl err, w') \<Rightarrow>
                       Some (Some \<lparr>ebName = PkgName (parser b), ebMsg = Msg err\<rparr>, c\<lparr>world := w'\<rparr>)
                   | Some (Inr influxBucket, w') \<Rightarrow>
                       Some (None,
                         c\<lparr>world := w',
                           state := (state c)\<lparr>mBuckets :=
                             AList.map_entry (buckets ! i) (\<lambda>b. b\<lparr>id' := ID influxBucket\<rparr>) (mBuckets (state c))\<rparr>,
                           rollbackBuckets := rollbackBuckets c @ [buckets ! i]\<rparr>))))"

subsection \<open>Checks\<close>

definition applyCheck ::
  "'w CheckService \<Rightarrow> stateCheck \<Rightarrow> ID \<Rightarrow> 'w \<Rightarrow> (error + Check option) \<times> 'w" where
  "applyCheck svc c userID w =
     (if stateStatus c = StateStatusRemove then
        (case DeleteCheck svc (stateCheck_ID c) w of
           (Some err, w') \<Rightarrow> (Inl (Errorf_id ''failed to delete check'' (stateCheck_ID c) err), w')
         | (None, w') \<Rightarrow> (Inr (existing c), w'))
      else if stateStatus c = StateStatusExists then
        (case UpdateCheck svc (stateCheck_ID c) c w of
           ((Some err, _), w') \<Rightarrow> (Inl err, w')
         | ((None, influxCheck), w') \<Rightarrow> (Inr influxCheck, w'))
      else
        (case CreateCheck svc c userID w of
           (Inl err, w') \<Rightarrow> (Inl err, w')
         | (Inr check', w') \<Rightarrow> (Inr (Some check'), w')))"

text \<open>
  The creater of \<^verbatim>\<open>applyChecks\<close>. It has no test of \<^verbatim>\<open>shouldApply\<close>: a state check has no such
  method. \<^verbatim>\<open>influxCheck.GetID()\<close> does not return on a nil check.
\<close>

definition applyChecks_createFn ::
  "'w CheckService \<Rightarrow> string list \<Rightarrow> nat \<Rightarrow> ID \<Rightarrow> ID \<Rightarrow> ('w, 'x) applyCtx
    \<Rightarrow> (applyErrBody option \<times> ('w, 'x) applyCtx) option" where
  "applyChecks_createFn svc checks i orgID' userID c0 =
     (if \<not> i < length checks then None
      else
        (let c = c0\<lparr>state := (state c0)\<lparr>mChecks :=
                   AList.map_entry (checks ! i) (\<lambda>x. x\<lparr>orgID := orgID'\<rparr>) (mChecks (state c0))\<rparr>\<rparr>
         in case map_of (mChecks (state c)) (checks ! i) of
              None \<Rightarrow> None
            | Some chk \<Rightarrow>
                (case applyCheck svc chk userID (world c) of
                   (Inl err, w') \<Rightarrow>
                     Some (Some \<lparr>ebName = Name' (parser chk), ebMsg = Msg err\<rparr>, c\<lparr>world := w'\<rparr>)
                 | (Inr None, w') \<Rightarrow> None
                 | (Inr (Some influxCheck), w') \<Rightarrow>
                     Some (None,
                       c\<lparr>world := w',
                         state := (state c)\<lparr>mChecks :=
                           AList.map_entry (checks ! i) (\<lambda>x. x\<lparr>id' := ID influxCheck\<rparr>) (mChecks (state c))\<rparr>,
                         rollbackChecks := rollbackChecks c @ [checks ! i]\<rparr>))))"

subsection \<open>Labels\<close>

definition properties :: "stateLabel \<Rightarrow> string \<rightharpoonup> string" where
  "properties l = [''color'' \<mapsto> color (parser l), ''description'' \<mapsto> labelDescription (parser l)]"

definition toInfluxLabel :: "stateLabel \<Rightarrow> Label" where
  "toInfluxLabel l =
     \<lparr>ID = stateLabel_ID l, OrgID = orgID l, Name = Name' (parser l), Properties = properties l\<rparr>"

text \<open>
  \<^verbatim>\<open>applyLabel\<close> returns the zero label and the error at hand, nil or not, when the error is
  not nil or the label pointer is nil.
\<close>

definition applyLabel :: "'w LabelService \<Rightarrow> stateLabel \<Rightarrow> 'w \<Rightarrow> (error option \<times> Label) \<times> 'w" where
  "applyLabel svc l w =
     (case (if stateStatus l = StateStatusRemove then
              (case DeleteLabel svc (stateLabel_ID l) w of
                 (err, w') \<Rightarrow> ((existing l, err), w'))
            else if stateStatus l = StateStatusExists then
              (case UpdateLabel svc (stateLabel_ID l)
                      \<lparr>luName = Name' (parser l), luProperties = properties l\<rparr> w of
                 ((err, influxLabel), w') \<Rightarrow> ((influxLabel, Wrap err ''updating''), w'))
            else
              (case CreateLabel svc (toInfluxLabel l) w of
                 (Inl err, w') \<Rightarrow> ((Some (toInfluxLabel l), Wrap (Some err) ''creating''), w')
               | (Inr creatLabel, w') \<Rightarrow> ((Some creatLabel, None), w'))) of
        ((influxLabel, err), w') \<Rightarrow>
          (case influxLabel of
             None \<Rightarrow> ((err, \<lparr>ID = 0, OrgID = 0, Name = '''', Properties = Map.empty\<rparr>), w')
           | Some il \<Rightarrow>
               if err \<noteq> None then ((err, \<lparr>ID = 0, OrgID = 0, Name = '''', Properties = Map.empty\<rparr>), w')
               else ((None, il), w')))"

definition applyLabels_createFn ::
  "'w LabelService \<Rightarrow> string list \<Rightarrow> nat \<Rightarrow> ID \<Rightarrow> ID \<Rightarrow> ('w, 'x) applyCtx
    \<Rightarrow> (applyErrBody option \<times> ('w, 'x) applyCtx) option" where
  "applyLabels_createFn svc ls i orgID' userID c0 =
     (if \<not> i < length ls then None
      else
        (let c = c0\<lparr>state := (state c0)\<lparr>mLabels :=
                   AList.map_entry (ls ! i) (\<lambda>x. x\<lparr>orgID := orgID'\<rparr>) (mLabels (state c0))\<rparr>\<rparr>
         in case map_of (mLabels (state c)) (ls ! i) of
              None \<Rightarrow> None
            | Some l \<Rightarrow>
                if \<not> stateLabel_shouldApply l then Some (None, c)
                else
                  (case applyLabel svc l (world c) of
                     ((Some err, _), w') \<Rightarrow>
                       Some (Some \<lparr>ebName = PkgName (parser l), ebMsg = Msg err\<rparr>, c\<lparr>world := w'\<rparr>)
                   | ((None, influxLabel), w') \<Rightarrow>
                       Some (None,
                         c\<lparr>world := w',
                           state := (state c)\<lparr>mLabels :=
                             AList.map_entry (ls ! i) (\<lambda>x. x\<lparr>id' := ID influxLabel\<rparr>) (mLabels (state c))\<rparr>,
                           rollBackLabels := rollBackLabels c @ [ls ! i]\<rparr>))))"

subsection \<open>Variables\<close>

definition applyVariable ::
  "'w VariableService \<Rightarrow> stateVariable \<Rightarrow> 'w \<Rightarrow> ((error + Variable) \<times> 'w) option" where
  "applyVariable svc v w =
     (if stateStatus v = StateStatusRemove then
        (case DeleteVariable svc (id' v) w of
           (Some err, w') \<Rightarrow> Some (Inl err, w')
         | (None, w') \<Rightarrow>
             (case existing v of
                None \<Rightarrow> None
              | Some e \<Rightarrow> Some (Inr e, w')))
      else if stateStatus v = StateStatusExists then
        (case UpdateVariable svc (stateVariable_ID v)
                \<lparr>vuName = Name' (parser v), vuDescription = varDescription (parser v),
                 vuArguments = args (parser v)\<rparr> w of
           ((Some err, _), w') \<Rightarrow> Some (Inl err, w')
         | ((None, None), w') \<Rightarrow> None
         | ((None, Some updatedVar), w') \<Rightarrow> Some (Inr updatedVar, w'))
      else
        (case CreateVariable svc
                \<lparr>ID = 0, OrgID = orgID v, Name = Name' (parser v),
                 VarDescription = varDescription (parser v), Arguments = args (parser v)\<rparr> w of
           (Inl err, w') \<Rightarrow> Some (Inl err, w')
         | (Inr influxVar, w') \<Rightarrow> Some (Inr influxVar, w')))"

definition applyVariables_createFn ::
  "'w VariableService \<Rightarrow> string list \<Rightarrow> nat \<Rightarrow> ID \<Rightarrow> ID \<Rightarrow> ('w, 'x) applyCtx
    \<Rightarrow> (applyErrBody option \<times> ('w, 'x) applyCtx) option" where
  "applyVariables_createFn svc vars i orgID' userID c0 =
     (if \<not> i < length vars then None
      else
        (let c = c0\<lparr>state := (state c0)\<lparr>mVariables :=
                   AList.map_entry (vars ! i) (\<lambda>x. x\<lparr>orgID := orgID'\<rparr>) (mVariables (state c0))\<rparr>\<rparr>
         in case map_of (mVariables (state c)) (vars ! i) of
              None \<Rightarrow> None
            | Some v \<Rightarrow>
                if \<not> stateVariable_shouldApply v then Some (None, c)
                else
                  (case applyVariable svc v (world c) of
                     None \<Rightarrow> None
                   | Some (Inl err, w') \<Rightarrow>
                       Some (Some \<lparr>ebName = Name' (parser v), ebMsg = Msg err\<rparr>, c\<lparr>world := w'\<rparr>)
                   | Some (Inr influxVar, w') \<Rightarrow>
                       Some (None,
                         c\<lparr>world := w',
                           state := (state c)\<lparr>mVariables :=
                             AList.map_entry (vars ! i) (\<lambda>x. x\<lparr>id' := ID influxVar\<rparr>) (mVariables (state c))\<rparr>,
                           rollBackVars := rollBackVars c @ [vars ! i]\<rparr>))))"

subsection \<open>The appliers that are parameters\<close>

text \<open>
  The appliers of dashboards, endpoints, rules, tasks, telegraf configs and label mappings,
  and the rollbacks of buckets, checks, labels and variables, are methods of the service
  that no claim below is about: they are parameters, and every theorem about
  \<^verbatim>\<open>applyState\<close> and \<^verbatim>\<open>Apply\<close> holds for all of them. Their closures act on the state of the
  apply, their own variables being in \<open>others\<close>, whose first value is \<open>others0\<close>. None of
  them is handed the stack store.
\<close>

record ('w, 'x) applyMethods =
  others0 :: 'x
  rollbackBucketsM :: "string list \<Rightarrow> ('w, 'x) applyCtx \<Rightarrow> (error option \<times> ('w, 'x) applyCtx) option"
  rollbackChecksM :: "string list \<Rightarrow> ('w, 'x) applyCtx \<Rightarrow> (error option \<times> ('w, 'x) applyCtx) option"
  rollbackLabelsM :: "string list \<Rightarrow> ('w, 'x) applyCtx \<Rightarrow> (error option \<times> ('w, 'x) applyCtx) option"
  rollbackVariablesM :: "string list \<Rightarrow> ('w, 'x) applyCtx \<Rightarrow> (error option \<times> ('w, 'x) applyCtx) option"
  applyDashboards :: "string list \<Rightarrow> ('w, 'x) applyCtx applier"
  applyNotificationEndpoints ::
    "ID \<Rightarrow> string list \<Rightarrow> ('w, 'x) applyCtx applier
      \<times> (ID \<Rightarrow> ('w, 'x) applyCtx \<Rightarrow> (error option \<times> ('w, 'x) applyCtx) option)"
  applyNotificationRules ::
    "ID \<Rightarrow> string list \<Rightarrow> ('w, 'x) applyCtx applier
      \<times> (ID \<Rightarrow> ('w, 'x) applyCtx \<Rightarrow> (error option \<times> ('w, 'x) applyCtx) option)"
  applyTasks :: "string list \<Rightarrow> ('w, 'x) applyCtx applier"
  applyTelegrafs :: "ID \<Rightarrow> string list \<Rightarrow> ('w, 'x) applyCtx applier"
  applyLabelMappings :: "stateLabelMapping list \<Rightarrow> ('w, 'x) applyCtx applier"
  removeLabelMappings :: "stateLabelMappingForRemoval list \<Rightarrow> ('w, 'x) applyCtx applier"

definition applyBuckets ::
  "('w, 'x) applyMethods \<Rightarrow> 'w BucketService \<Rightarrow> string list \<Rightarrow> ('w, 'x) applyCtx applier" where
  "applyBuckets am svc buckets =
     \<lparr>creater = \<lparr>entries = length buckets, create_fn = applyBuckets_createFn svc buckets\<rparr>,
      rollbacker = \<lparr>resource = ''bucket'',
                    rollback_fn = (\<lambda>_ c. rollbackBucketsM am (rollbackBuckets c) c)\<rparr>\<rparr>"

definition applyChecks ::
  "('w, 'x) applyMethods \<Rightarrow> 'w CheckService \<Rightarrow> string list \<Rightarrow> ('w, 'x) applyCtx applier" where
  "applyChecks am svc checks =
     \<lparr>creater = \<lparr>entries = length checks, create_fn = applyChecks_createFn svc checks\<rparr>,
      rollbacker = \<lparr>resource = ''check'',
                    rollback_fn = (\<lambda>_ c. rollbackChecksM am (rollbackChecks c) c)\<rparr>\<rparr>"

definition applyLabels ::
  "('w, 'x) applyMethods \<Rightarrow> 'w LabelService \<Rightarrow> string list \<Rightarrow> ('w, 'x) applyCtx applier" where
  "applyLabels am svc ls =
     \<lparr>creater = \<lparr>entries = length ls, create_fn = applyLabels_createFn svc ls\<rparr>,
      rollbacker = \<lparr>resource = ''label'',
                    rollback_fn = (\<lambda>_ c. rollbackLabelsM am (rollBackLabels c) c)\<rparr>\<rparr>"

definition applyVariables ::
  "('w, 'x) applyMethods \<Rightarrow> 'w VariableService \<Rightarrow> string list \<Rightarrow> ('w, 'x) applyCtx applier" where
  "applyVariables am svc vars =
     \<lparr>creater = \<lparr>entries = length vars, create_fn = applyVariables_createFn svc vars\<rparr>,
      rollbacker = \<lparr>resource = ''variable'',
                    rollback_fn = (\<lambda>_ c. rollbackVariablesM am (rollBackVars c) c)\<rparr>\<rparr>"

subsection \<open>Rules and endpoints\<close>

text \<open>
  \<^verbatim>\<open>applyNotificationGenerator\<close>. Its first loop binds every rule that is not removed to the
  state endpoint of the pkg-name of its endpoint, and collects the rules that have none.
  The text of the error of such a rule names the endpoint of the parsed rule.
\<close>

definition endpointsByPkgName :: "stateCoordinator \<Rightarrow> string list \<Rightarrow> string \<rightharpoonup> string" where
  "endpointsByPkgName s stateEndpoints =
     map_of (rev (concat (map (\<lambda>k. case map_of (mEndpoints s) k of
                                      None \<Rightarrow> []
                                    | Some e \<Rightarrow> [(PkgName (parser e), k)]) stateEndpoints)))"

definition bindGeneratorRule ::
  "(string \<rightharpoonup> string) \<Rightarrow> applyErrBody list \<times> stateCoordinator \<Rightarrow> string
    \<Rightarrow> (applyErrBody list \<times> stateCoordinator) option" where
  "bindGeneratorRule mEndpoints' es k =
     (case es of (errs, s) \<Rightarrow>
        (case map_of (mRules s) k of
           None \<Rightarrow> None
         | Some r \<Rightarrow>
             if IsRemoval (stateStatus r) then Some (errs, s)
             else
               (case mEndpoints' (stateRule_endpointPkgName s r) of
                  None \<Rightarrow>
                    Some (errs @ [\<lparr>ebName = Name' (parser r),
                                   ebMsg = [Txt ''notification rule endpoint dependency does not exist; endpointName='',
                                            QStr (endpointName (parser r))]\<rparr>], s)
                | Some v \<Rightarrow>
                    Some (errs, s\<lparr>mRules := AList.map_entry k (\<lambda>r. r\<lparr>associatedEndpoint := Some v\<rparr>)
                                               (mRules s)\<rparr>))))"

definition applyNotificationGenerator ::
  "('w, 'x) applyMethods \<Rightarrow> ID \<Rightarrow> string list \<Rightarrow> string list \<Rightarrow> ('w, 'x) applyCtx
    \<Rightarrow> ((('w, 'x) applyCtx applier \<times> ('w, 'x) applyCtx applier) \<times> error option \<times> ('w, 'x) applyCtx) option" where
  "applyNotificationGenerator am userID rules stateEndpoints c =
     (case foldOpt (bindGeneratorRule (endpointsByPkgName (state c) stateEndpoints)) ([], state c) rules of
        None \<Rightarrow> None
      | Some (errs, s') \<Rightarrow>
          (let c' = c\<lparr>state := s'\<rparr> in
           case toError errs ''notification_rules'' ''failed to find dependency'' of
             Some err \<Rightarrow>
               Some ((\<lparr>creater = zeroCreater, rollbacker = zeroRollbacker\<rparr>,
                      \<lparr>creater = zeroCreater, rollbacker = zeroRollbacker\<rparr>), Some err, c')
           | None \<Rightarrow>
               (case applyNotificationEndpoints am userID stateEndpoints of
                  (endpointApp, endpointRollbackFn) \<Rightarrow>
                    (case applyNotificationRules am userID rules of
                       (ruleApp, ruleRollbackFn) \<Rightarrow>
                         Some ((endpointApp\<lparr>rollbacker :=
                                  \<lparr>resource = '''',
                                   rollback_fn = (\<lambda>orgID' c.
                                     case endpointRollbackFn orgID' c of
                                       None \<Rightarrow> None
                                     | Some (None, c1) \<Rightarrow> ruleRollbackFn orgID' c1
                                     | Some (Some err, c1) \<Rightarrow>
                                         ruleRollbackFn orgID' (logError ''failed to roll back endpoints'' err c1))\<rparr>\<rparr>,
                                ruleApp), None, c')))))"

subsection \<open>The stages\<close>

text \<open>
  \<^verbatim>\<open>applyState\<close>. The appliers of the first three groups and of the rules are made before
  any stage runs, from the slices of pointers the state gives then; the appliers of the
  label mappings are made when the rules have been applied. The groups run in order, and
  the first stage that has an error ends the apply.
\<close>

fun runGroups ::
  "ID \<Rightarrow> ID \<Rightarrow> 'c applier list list \<Rightarrow> 'c rollbackCoordinator \<Rightarrow> 'c
    \<Rightarrow> (error option \<times> 'c rollbackCoordinator \<times> 'c) option" where
  "runGroups orgID' userID [] r c = Some (None, r, c)"
| "runGroups orgID' userID (g # gs) r c =
     (case runTilEnd r orgID' userID g c of
        None \<Rightarrow> None
      | Some (Some err, r', c') \<Rightarrow> Some (internalErr (Some err), r', c')
      | Some (None, r', c') \<Rightarrow> runGroups orgID' userID gs r' c')"

definition applyState ::
  "('w, 'x) applyMethods \<Rightarrow> ('w, 'st) Service \<Rightarrow> ('w, 'x) applyCtx rollbackCoordinator \<Rightarrow> ID \<Rightarrow> ID
    \<Rightarrow> string gomap \<Rightarrow> ('w, 'x) applyCtx
    \<Rightarrow> (error option \<times> ('w, 'x) applyCtx rollbackCoordinator \<times> ('w, 'x) applyCtx) option" where
  "applyState am svc coordinator orgID' userID missingSecrets c0 =
     (case applyNotificationGenerator am userID (rules' (state c0)) (endpoints' (state c0)) c0 of
        None \<Rightarrow> None
      | Some (_, Some err, c) \<Rightarrow> Some (Some err, coordinator, c)
      | Some ((endpointApp, ruleApp), None, c) \<Rightarrow>
          (let appliers =
                 [[applySecrets (secretSVC svc) missingSecrets],
                  [applyLabels am (labelSVC svc) (labels' (state c))],
                  [applyVariables am (varSVC svc) (variables' (state c)),
                   applyBuckets am (bucketSVC svc) (buckets' (state c)),
                   applyChecks am (checkSVC svc) (checks' (state c)),
                   applyDashboards am (dashboards' (state c)),
                   endpointApp,
                   applyTasks am (tasks' (state c)),
                   applyTelegrafs am userID (telegrafConfigs' (state c))]]
           in case runGroups orgID' userID appliers coordinator c of
                None \<Rightarrow> None
              | Some (Some err, r1, c1) \<Rightarrow> Some (Some err, r1, c1)
              | Some (None, r1, c1) \<Rightarrow>
                  (case runTilEnd r1 orgID' userID [ruleApp] c1 of
                     None \<Rightarrow> None
                   | Some (Some err, r2, c2) \<Rightarrow> Some (Some err, r2, c2)
                   | Some (None, r2, c2) \<Rightarrow>
                       (let secondary =
                              [applyLabelMappings am (labelMappings (state c2)),
                               removeLabelMappings am (labelMappingsToRemove (state c2))]
                        in case runTilEnd r2 orgID' userID secondary c2 of
                             None \<Rightarrow> None
                           | Some (err, r3, c3) \<Rightarrow> Some (internalErr err, r3, c3)))))"

subsection \<open>The stack after an apply\<close>

fun mapOpt :: "('a \<Rightarrow> 'b option) \<Rightarrow> 'a list \<Rightarrow> 'b list option" where
  "mapOpt f [] = Some []"
| "mapOpt f (x # xs) =
     (case f x of
        None \<Rightarrow> None
      | Some y \<Rightarrow> (case mapOpt f xs of None \<Rightarrow> None | Some ys \<Rightarrow> Some (y # ys)))"

text \<open>\<^verbatim>\<open>stateLabelsToStackAssociations\<close> dereferences every label pointer it is given.\<close>

definition stateLabelsToStackAssociations ::
  "stateCoordinator \<Rightarrow> string option list \<Rightarrow> StackResourceAssociation list option" where
  "stateLabelsToStackAssociations s stateLabels =
     mapOpt (\<lambda>l. case l of
                   None \<Rightarrow> None
                 | Some k \<Rightarrow>
                     (case map_of (mLabels s) k of
                        None \<Rightarrow> None
                      | Some sl \<Rightarrow> Some \<lparr>saKind = KindLabel, saPkgName = PkgName (parser sl)\<rparr>)) stateLabels"

text \<open>
  The stack resource that \<^verbatim>\<open>updateStackAfterSuccess\<close> appends for a record of a kind that has
  label associations, and one loop of the function: the records that are not removed, in
  the order of the map.
\<close>

definition stackResourceFor ::
  "stateCoordinator \<Rightarrow> Kind \<Rightarrow> ID \<Rightarrow> string \<Rightarrow> StackResourceAssociation list \<Rightarrow> StackResource option" where
  "stackResourceFor s k i pkgName extra =
     (case labelAssociations s k pkgName of
        None \<Rightarrow> None
      | Some associatedLabels \<Rightarrow>
          (case stateLabelsToStackAssociations s associatedLabels of
             None \<Rightarrow> None
           | Some ass \<Rightarrow>
               Some \<lparr>srAPIVersion = APIVersion, srID = i, srKind = k, srPkgName = pkgName,
                     srAssociations = ass @ extra\<rparr>))"

definition notRemoved :: "('p, 'e, 'z) stateRes_scheme gomap \<Rightarrow> ('p, 'e, 'z) stateRes_scheme list" where
  "notRemoved m = filter (\<lambda>r. \<not> IsRemoval (stateStatus r)) (elems m)"

definition stackResourcesOf :: "stateCoordinator \<Rightarrow> StackResource list option" where
  "stackResourcesOf s =
     (case mapOpt (\<lambda>b. stackResourceFor s KindBucket (stateBucket_ID b) (PkgName (parser b)) [])
             (notRemoved (mBuckets s)) of None \<Rightarrow> None | Some bs \<Rightarrow>
      case mapOpt (\<lambda>c. stackResourceFor s KindCheck (stateCheck_ID c) (PkgName (parser c)) [])
             (notRemoved (mChecks s)) of None \<Rightarrow> None | Some cs \<Rightarrow>
      case mapOpt (\<lambda>d. stackResourceFor s KindDashboard (stateDashboard_ID d) (PkgName (parser d)) [])
             (notRemoved (mDashboards s)) of None \<Rightarrow> None | Some ds \<Rightarrow>
      case mapOpt (\<lambda>n. stackResourceFor s KindNotificationEndpoint (stateEndpoint_ID n) (PkgName (parser n)) [])
             (notRemoved (mEndpoints s)) of None \<Rightarrow> None | Some ns \<Rightarrow>
      let ls = map (\<lambda>l. \<lparr>srAPIVersion = APIVersion, srID = stateLabel_ID l, srKind = KindLabel,
                          srPkgName = PkgName (parser l), srAssociations = []\<rparr>) (notRemoved (mLabels s)) in
      case mapOpt (\<lambda>r. stackResourceFor s KindNotificationRule (stateRule_ID r) (PkgName (parser r))
                          [endpointAssociation s r])
             (notRemoved (mRules s)) of None \<Rightarrow> None | Some rs \<Rightarrow>
      case mapOpt (\<lambda>t. stackResourceFor s KindTask (stateTask_ID t) (PkgName (parser t)) [])
             (notRemoved (mTasks s)) of None \<Rightarrow> None | Some ts \<Rightarrow>
      case mapOpt (\<lambda>t. stackResourceFor s KindTelegraf (stateTelegraf_ID t) (PkgName (parser t)) [])
             (notRemoved (mTelegrafs s)) of None \<Rightarrow> None | Some gs \<Rightarrow>
      case mapOpt (\<lambda>v. stackResourceFor s KindVariable (stateVariable_ID v) (PkgName (parser v)) [])
             (notRemoved (mVariables s)) of None \<Rightarrow> None | Some vs \<Rightarrow>
      Some (bs @ cs @ ds @ ns @ ls @ rs @ ts @ gs @ vs))"

text \<open>\<open>now\<close> is what \<^verbatim>\<open>time.Now()\<close> returns when the function asks.\<close>

definition updateStackAfterSuccess ::
  "'st Store \<Rightarrow> nat \<Rightarrow> ID \<Rightarrow> stateCoordinator \<Rightarrow> 'st \<Rightarrow> (error option \<times> 'st) option" where
  "updateStackAfterSuccess store' now stackID s st =
     (case ReadStackByID store' stackID st of
        (Inl err, st') \<Rightarrow> Some (Some err, st')
      | (Inr stack, st') \<Rightarrow>
          (case stackResourcesOf s of
             None \<Rightarrow> None
           | Some stackResources \<Rightarrow>
               Some (UpdateStack store' (stack\<lparr>stkResources := stackResources, stkUpdatedAt := now\<rparr>) st')))"

text \<open>
  \<^verbatim>\<open>updateStackAfterRollback\<close>. \<^verbatim>\<open>existingResources\<close> maps a kind and a pkg-name to a pointer
  into the resources of the stack: the last resource of that kind and name. \<open>changeRes\<close>
  is a write through such a pointer, \<open>hasChanges\<close> the flag of the function.
\<close>

definition lastIndex :: "StackResource list \<Rightarrow> Kind \<Rightarrow> string \<Rightarrow> nat option" where
  "lastIndex rs k pkgName =
     (case filter (\<lambda>i. srKind (rs ! i) = k \<and> srPkgName (rs ! i) = pkgName) (rev [0..<length rs]) of
        [] \<Rightarrow> None
      | i # _ \<Rightarrow> Some i)"

definition changeRes ::
  "Kind \<Rightarrow> string \<Rightarrow> (StackResource \<Rightarrow> (StackResource \<times> bool) option)
    \<Rightarrow> StackResource list \<times> bool \<Rightarrow> (StackResource list \<times> bool) option" where
  "changeRes k pkgName f rh =
     (case rh of (rs, hasChanges) \<Rightarrow>
        (case lastIndex rs k pkgName of
           None \<Rightarrow> Some (rs, hasChanges)
         | Some i \<Rightarrow>
             (case f (rs ! i) of
                None \<Rightarrow> None
              | Some (res, changed) \<Rightarrow> Some (rs[i := res], hasChanges \<or> changed))))"

definition restoreID :: "ID \<Rightarrow> 'e Resource_scheme option \<Rightarrow> StackResource \<Rightarrow> (StackResource \<times> bool) option" where
  "restoreID i existing' res =
     (if srID res \<noteq> i then
        (case existing' of
           None \<Rightarrow> None
         | Some e \<Rightarrow> Some (res\<lparr>srID := ID e\<rparr>, True))
      else Some (res, False))"

definition restoreRule :: "stateCoordinator \<Rightarrow> stateRule \<Rightarrow> StackResource \<Rightarrow> (StackResource \<times> bool) option" where
  "restoreRule s r res0 =
     (case restoreID (stateRule_ID r) (existing r) res0 of
        None \<Rightarrow> None
      | Some (res, changed) \<Rightarrow>
          (let endpointAssociation = endpointAssociation s r;
               endpointAssociationChanged =
                 (\<exists>ass \<in> set (srAssociations res). saKind ass = KindNotificationEndpoint \<and> ass \<noteq> endpointAssociation);
               newAss = map (\<lambda>ass. if saKind ass = KindNotificationEndpoint \<and> ass \<noteq> endpointAssociation
                                    then endpointAssociation else ass) (srAssociations res)
           in if endpointAssociationChanged then Some (res\<lparr>srAssociations := newAss\<rparr>, True)
              else Some (res, changed)))"

definition restoredResources :: "stateCoordinator \<Rightarrow> StackResource list \<Rightarrow> (StackResource list \<times> bool) option" where
  "restoredResources s rs0 =
     (case foldOpt (\<lambda>rh b. changeRes KindBucket (PkgName (parser b)) (restoreID (stateBucket_ID b) (existing b)) rh)
             (rs0, False) (elems (mBuckets s)) of None \<Rightarrow> None | Some rh \<Rightarrow>
      case foldOpt (\<lambda>rh c. changeRes KindCheck (PkgName (parser c)) (restoreID (stateCheck_ID c) (existing c)) rh)
             rh (elems (mChecks s)) of None \<Rightarrow> None | Some rh \<Rightarrow>
      case foldOpt (\<lambda>rh d. changeRes KindDashboard (PkgName (parser d)) (restoreID (stateDashboard_ID d) (existing d)) rh)
             rh (elems (mDashboards s)) of None \<Rightarrow> None | Some rh \<Rightarrow>
      case foldOpt (\<lambda>rh e. changeRes KindNotificationEndpoint (PkgName (parser e))
                              (restoreID (stateEndpoint_ID e) (existing e)) rh)
             rh (elems (mEndpoints s)) of None \<Rightarrow> None | Some rh \<Rightarrow>
      case foldOpt (\<lambda>rh l. changeRes KindLabel (PkgName (parser l)) (restoreID (stateLabel_ID l) (existing l)) rh)
             rh (elems (mLabels s)) of None \<Rightarrow> None | Some rh \<Rightarrow>
      case foldOpt (\<lambda>rh r. changeRes KindNotificationRule (PkgName (parser r)) (restoreRule s r) rh)
             rh (elems (mRules s)) of None \<Rightarrow> None | Some rh \<Rightarrow>
      case foldOpt (\<lambda>rh t. changeRes KindTask (PkgName (parser t)) (restoreID (stateTask_ID t) (existing t)) rh)
             rh (elems (mTasks s)) of None \<Rightarrow> None | Some rh \<Rightarrow>
      case foldOpt (\<lambda>rh t. changeRes KindTelegraf (PkgName (parser t)) (restoreID (stateTelegraf_ID t) (existing t)) rh)
             rh (elems (mTelegrafs s)) of None \<Rightarrow> None | Some rh \<Rightarrow>
      foldOpt (\<lambda>rh v. changeRes KindVariable (PkgName (parser v)) (restoreID (stateVariable_ID v) (existing v)) rh)
             rh (elems (mVariables s)))"

definition updateStackAfterRollback ::
  "'st Store \<Rightarrow> nat \<Rightarrow> ID \<Rightarrow> stateCoordinator \<Rightarrow> 'st \<Rightarrow> (error option \<times> 'st) option" where
  "updateStackAfterRollback store' now stackID s st =
     (case ReadStackByID store' stackID st of
        (Inl err, st') \<Rightarrow> Some (Some err, st')
      | (Inr stack, st') \<Rightarrow>
          (case restoredResources s (stkResources stack) of
             None \<Rightarrow> None
           | Some (rs, hasChanges) \<Rightarrow>
               if \<not> hasChanges then Some (None, st')
               else Some (UpdateStack store' (stack\<lparr>stkResources := rs, stkUpdatedAt := now\<rparr>) st')))"

subsection \<open>Apply\<close>

text \<open>
  \<^verbatim>\<open>Apply\<close> returns a summary, a diff and an error. The summary and the diff are views of
  the state and the package as they are when \<^verbatim>\<open>Apply\<close> returns: the state and the package
  are returned in their place, nothing when the error is not nil. With them come the
  platform, the log of the service and the state of the store as the call leaves them.

  \<open>updateStack\<close> is the function \<^verbatim>\<open>Apply\<close> defers first, which runs last: it returns at once
  when the stack id is zero, and logs the error of the update otherwise. The rollback of
  the coordinator is deferred second and runs before it.
\<close>

definition updateStack ::
  "'st Store \<Rightarrow> nat \<Rightarrow> ID \<Rightarrow> error option \<Rightarrow> ('w, 'x) applyCtx \<Rightarrow> 'st \<Rightarrow> (('w, 'x) applyCtx \<times> 'st) option" where
  "updateStack store' now stackID e c st =
     (if stackID = 0 then Some (c, st)
      else
        (case (if e \<noteq> None then updateStackAfterRollback store' now stackID (state c) st
               else updateStackAfterSuccess store' now stackID (state c) st) of
           None \<Rightarrow> None
         | Some (None, st') \<Rightarrow> Some (c, st')
         | Some (Some err, st') \<Rightarrow> Some (logError ''failed to update stack'' err c, st')))"

definition Apply ::
  "'w pkgMethods \<Rightarrow> ('w, 'x) applyMethods \<Rightarrow> ('w, 'st) Service \<Rightarrow> nat \<Rightarrow> ID \<Rightarrow> ID \<Rightarrow> Pkg \<Rightarrow> ApplyOptFn list
    \<Rightarrow> 'w \<Rightarrow> 'st
    \<Rightarrow> (((stateCoordinator \<times> Pkg) option \<times> error option) \<times> 'w \<times> (string \<times> error) list \<times> 'st) option" where
  "Apply pm am svc now orgID' userID pkg0 opts w st =
     (case (if \<not> isParsed pkg0 then Validate pm pkg0 else (None, pkg0)) of
        (Some err, pkg) \<Rightarrow> Some ((None, failedValidationErr (Some err)), w, [], st)
      | (None, pkg) \<Rightarrow>
          (let opt = applyOptFromOptFns opts in
           case applyEnvRefs pm pkg (EnvRefs opt) of
             (Some err, pkg) \<Rightarrow> Some ((None, failedValidationErr (Some err)), w, [], st)
           | (None, pkg) \<Rightarrow>
               (case dryRun pm svc orgID' pkg opts w st of
                  None \<Rightarrow> None
                | Some ((_, Some err), pkg, st1) \<Rightarrow> Some ((None, Some err), w, [], st1)
                | Some ((None, None), pkg, st1) \<Rightarrow> None
                | Some ((Some state0, None), pkg, st1) \<Rightarrow>
                    (let c0 = \<lparr>world = w, state = state0, logged = [], rollbackSecrets = [],
                               rollbackBuckets = [], rollbackChecks = [], rollBackLabels = [],
                               rollBackVars = [], others = others0 am\<rparr>
                     in case applyState am svc \<lparr>rollbacks = []\<rparr> orgID' userID (MissingSecrets opt) c0 of
                          None \<Rightarrow> None
                        | Some (Some err, coordinator, c1) \<Rightarrow>
                            (case rollback coordinator logError (Some err) orgID' c1 of
                               None \<Rightarrow> None
                             | Some c2 \<Rightarrow>
                                 (case updateStack (store svc) now (StackID opt) (Some err) c2 st1 of
                                    None \<Rightarrow> None
                                  | Some (c3, st2) \<Rightarrow> Some ((None, Some err), world c3, logged c3, st2)))
                        | Some (None, coordinator, c1) \<Rightarrow>
                            (let pkg' = applySecrets' pm pkg (MissingSecrets opt);
                                 result = (state c1, pkg')
                             in case rollback coordinator logError None orgID' c1 of
                                  None \<Rightarrow> None
                                | Some c2 \<Rightarrow>
                                    (case updateStack (store svc) now (StackID opt) None c2 st1 of
                                       None \<Rightarrow> None
                                     | Some (c3, st2) \<Rightarrow>
                                         Some ((Some result, None), world c3, logged c3, st2)))))))"

section \<open>Observations for the statements\<close>

text \<open>
  What the theorems read off a state: the kinds that share a map (the three check kinds
  address \<open>mChecks\<close>, the four endpoint kinds \<open>mEndpoints\<close>), and the fields of a state
  record whatever its type.
\<close>

definition slotOf :: "Kind \<Rightarrow> Kind" where
  "slotOf k =
     (if k = KindCheckDeadman \<or> k = KindCheckThreshold then KindCheck
      else if k = KindNotificationEndpointHTTP \<or> k = KindNotificationEndpointPagerDuty
        \<or> k = KindNotificationEndpointSlack then KindNotificationEndpoint
      else k)"

definition stackKey :: "StackResource \<Rightarrow> Kind \<times> string" where
  "stackKey r = (slotOf (srKind r), srPkgName r)"

fun objField :: "stateObject \<Rightarrow> ID" where
  "objField (SBucket x) = id' x"
| "objField (SCheck x) = id' x"
| "objField (SDashboard x) = id' x"
| "objField (SLabel x) = id' x"
| "objField (SEndpoint x) = id' x"
| "objField (SRule x) = id' x"
| "objField (STask x) = id' x"
| "objField (STelegraf x) = id' x"
| "objField (SVariable x) = id' x"

fun objStatus :: "stateObject \<Rightarrow> StateStatus" where
  "objStatus (SBucket x) = stateStatus x"
| "objStatus (SCheck x) = stateStatus x"
| "objStatus (SDashboard x) = stateStatus x"
| "objStatus (SLabel x) = stateStatus x"
| "objStatus (SEndpoint x) = stateStatus x"
| "objStatus (SRule x) = stateStatus x"
| "objStatus (STask x) = stateStatus x"
| "objStatus (STelegraf x) = stateStatus x"
| "objStatus (SVariable x) = stateStatus x"

fun objPkgName :: "stateObject \<Rightarrow> string" where
  "objPkgName (SBucket x) = PkgName (parser x)"
| "objPkgName (SCheck x) = PkgName (parser x)"
| "objPkgName (SDashboard x) = PkgName (parser x)"
| "objPkgName (SLabel x) = PkgName (parser x)"
| "objPkgName (SEndpoint x) = PkgName (parser x)"
| "objPkgName (SRule x) = PkgName (parser x)"
| "objPkgName (STask x) = PkgName (parser x)"
| "objPkgName (STelegraf x) = PkgName (parser x)"
| "objPkgName (SVariable x) = PkgName (parser x)"

fun objHasExisting :: "stateObject \<Rightarrow> bool" where
  "objHasExisting (SBucket x) = (existing x \<noteq> None)"
| "objHasExisting (SCheck x) = (existing x \<noteq> None)"
| "objHasExisting (SDashboard x) = (existing x \<noteq> None)"
| "objHasExisting (SLabel x) = (existing x \<noteq> None)"
| "objHasExisting (SEndpoint x) = (existing x \<noteq> None)"
| "objHasExisting (SRule x) = (existing x \<noteq> None)"
| "objHasExisting (STask x) = (existing x \<noteq> None)"
| "objHasExisting (STelegraf x) = (existing x \<noteq> None)"
| "objHasExisting (SVariable x) = (existing x \<noteq> None)"

text \<open>A state record with its id and status set as the closure of \<^verbatim>\<open>getObjectIDSetter\<close> sets them.\<close>

fun objSetExists :: "ID \<Rightarrow> stateObject \<Rightarrow> stateObject" where
  "objSetExists i (SBucket x) = SBucket (setExists i x)"
| "objSetExists i (SCheck x) = SCheck (setExists i x)"
| "objSetExists i (SDashboard x) = SDashboard (setExists i x)"
| "objSetExists i (SLabel x) = SLabel (setExists i x)"
| "objSetExists i (SEndpoint x) = SEndpoint (setExists i x)"
| "objSetExists i (SRule x) = SRule (setExists i x)"
| "objSetExists i (STask x) = STask (setExists i x)"
| "objSetExists i (STelegraf x) = STelegraf (setExists i x)"
| "objSetExists i (SVariable x) = SVariable (setExists i x)"

text \<open>
  A rule whose endpoint is missing: it is not being removed, it has no associated endpoint,
  and the endpoint map of the state has no entry for the pkg-name of its endpoint. And a
  rule after the binding: a rule that had no associated endpoint points to the endpoint of
  that pkg-name.
\<close>

definition missingEndpoint :: "stateEndpoint gomap \<Rightarrow> stateRule \<Rightarrow> bool" where
  "missingEndpoint endpoints r \<longleftrightarrow>
     \<not> IsRemoval (stateStatus r) \<and> associatedEndpoint r = None
     \<and> map_of endpoints (endpointName (parser r)) = None"

definition bindRule :: "stateEndpoint gomap \<Rightarrow> stateRule \<Rightarrow> stateRule" where
  "bindRule endpoints r =
     (if associatedEndpoint r \<noteq> None then r
      else r\<lparr>associatedEndpoint := ptr endpoints (endpointName (parser r))\<rparr>)"



text \<open>
  A rollbacker that also records that it was called: the state carries a trace, and the
  rollbacker number \<open>i\<close> appends \<open>i\<close> to it whenever it returns. \<open>tracedAll\<close> numbers the
  rollbackers of a list from zero, in the order of the list; \<open>tracedLog\<close> is a logger that
  leaves the trace alone.
\<close>

definition traced :: "nat \<Rightarrow> 'c rollbacker \<Rightarrow> ('c \<times> nat list) rollbacker" where
  "traced i rb =
     \<lparr>resource = resource rb,
      rollback_fn = (\<lambda>org ct.
        case rollback_fn rb org (fst ct) of
          None \<Rightarrow> None
        | Some (e, c') \<Rightarrow> Some (e, (c', snd ct @ [i])))\<rparr>"

definition tracedAll :: "'c rollbacker list \<Rightarrow> ('c \<times> nat list) rollbacker list" where
  "tracedAll rs = map (\<lambda>(i, rb). traced i rb) (enumerate 0 rs)"

definition tracedLog :: "(string \<Rightarrow> error \<Rightarrow> 'c \<Rightarrow> 'c) \<Rightarrow> string \<Rightarrow> error \<Rightarrow> 'c \<times> nat list \<Rightarrow> 'c \<times> nat list" where
  "tracedLog l msg e ct = (l msg e (fst ct), snd ct)"

text \<open>The rollback in the order claim C1 states: the last rollbacker registered runs first.\<close>

definition rollbackReversed ::
  "'c rollbackCoordinator \<Rightarrow> (string \<Rightarrow> error \<Rightarrow> 'c \<Rightarrow> 'c) \<Rightarrow> error option \<Rightarrow> ID \<Rightarrow> 'c \<Rightarrow> 'c option" where
  "rollbackReversed r l err org c = rollback (r\<lparr>rollbacks := rev (rollbacks r)\<rparr>) l err org c"



text \<open>What claim C5 reads of a state record: its id, its status, its pkg-name, whether it has an existing resource.\<close>

definition objView :: "stateObject \<Rightarrow> ID \<times> StateStatus \<times> string \<times> bool" where
  "objView v = (objField v, objStatus v, objPkgName v, objHasExisting v)"

section \<open>Concrete inputs\<close>

text \<open>The packages, records and services at which the theorems below are instantiated.\<close>

definition pBucket1 :: bucket where
  "pBucket1 = \<lparr>name = ''rucket_1'', displayName = '''', labels = [''label_1''],
     description = ''desc'', retention = 3600\<rparr>"

definition iBucket1 :: Bucket where
  "iBucket1 = \<lparr>ID = 9, OrgID = 1, Name = ''rucket_1'', Description = ''desc'', RetentionPeriod = 3600\<rparr>"

definition sBucket1 :: stateBucket where
  "sBucket1 = \<lparr>id' = 7, orgID = 1, stateStatus = StateStatusExists, parser = pBucket1,
     existing = Some iBucket1\<rparr>"

definition pLabel1 :: label where
  "pLabel1 = \<lparr>name = ''label_1'', displayName = '''', labels = [], labelDescription = ''a label'',
     color = ''#ff0000''\<rparr>"

definition pkg1 :: Pkg where
  "pkg1 = \<lparr>isParsed = True, pkgBuckets = [pBucket1], pkgChecks = [], pkgDashboards = [],
     pkgNotificationEndpoints = [], pkgLabels = [pLabel1], pkgNotificationRules = [], pkgTasks = [],
     pkgTelegrafs = [], pkgVariables = [], mSecrets = []\<rparr>"

text \<open>A stack that records the bucket of \<open>pkg1\<close> and a dashboard that \<open>pkg1\<close> does not have.\<close>

definition stackRes1 :: StackResource where
  "stackRes1 = \<lparr>srAPIVersion = APIVersion, srID = 5, srKind = KindBucket, srPkgName = ''rucket_1'',
     srAssociations = [\<lparr>saKind = KindLabel, saPkgName = ''label_1''\<rparr>]\<rparr>"

definition stackRes2 :: StackResource where
  "stackRes2 = \<lparr>srAPIVersion = APIVersion, srID = 6, srKind = KindDashboard, srPkgName = ''dash_gone'',
     srAssociations = []\<rparr>"

text \<open>
  A platform for the examples: its buckets, dashboards and tasks, the secret keys of its
  organisations, and the calls its secret service has received.
\<close>

record platform =
  platBuckets :: "Bucket list"
  platDashboards :: "Dashboard list"
  platTasks :: "Task list"
  platSecrets :: "(ID \<times> string) list"
  platCalls :: "(string \<times> ID \<times> string list) list"

definition platform1 :: platform where
  "platform1 = \<lparr>platBuckets = [iBucket1],
     platDashboards = [\<lparr>ID = 21, OrgID = 1, Name = ''dash_1''\<rparr>],
     platTasks = [\<lparr>ID = 31, OrgID = 1, Name = ''task_1''\<rparr>],
     platSecrets = [], platCalls = []\<rparr>"

definition mockRuleSVC :: "platform NotificationRuleStore" where
  "mockRuleSVC = \<lparr>FindNotificationRuleByID = (\<lambda>i w. None)\<rparr>"

definition pEndpoint1 :: notificationEndpoint where
  "pEndpoint1 = \<lparr>name = ''endpoint_1'', displayName = '''', labels = []\<rparr>"

definition pRule1 :: notificationRule where
  "pRule1 = \<lparr>name = ''rule_1'', displayName = '''', labels = [], endpointName = ''endpoint_1''\<rparr>"

definition pRule2 :: notificationRule where
  "pRule2 = \<lparr>name = ''rule_2'', displayName = '''', labels = [], endpointName = ''endpoint_9''\<rparr>"

definition mockBucketSVC :: "platform BucketService" where
  "mockBucketSVC =
     \<lparr>FindBucketByID = (\<lambda>i w. find (\<lambda>b. ID b = i) (platBuckets w)),
      FindBucketByName = (\<lambda>org n w. find (\<lambda>b. OrgID b = org \<and> Name b = n) (platBuckets w)),
      CreateBucket = (\<lambda>b w. (Inr (b\<lparr>ID := 100\<rparr>), w\<lparr>platBuckets := platBuckets w @ [b\<lparr>ID := 100\<rparr>]\<rparr>)),
      UpdateBucket = (\<lambda>i u w. ((None, find (\<lambda>b. ID b = i) (platBuckets w)), w)),
      DeleteBucket = (\<lambda>i w. (None, w\<lparr>platBuckets := filter (\<lambda>b. ID b \<noteq> i) (platBuckets w)\<rparr>))\<rparr>"

definition mockCheckSVC :: "platform CheckService" where
  "mockCheckSVC =
     \<lparr>FindCheckByID = (\<lambda>i w. None),
      FindCheck = (\<lambda>n org w. None),
      CreateCheck = (\<lambda>c u w. (Inr \<lparr>ID = 200, OrgID = orgID c, Name = Name' (parser c)\<rparr>, w)),
      UpdateCheck = (\<lambda>i c w.
        ((None, Some \<lparr>ID = i, OrgID = orgID c, Name = Name' (parser c)\<rparr>),
         w\<lparr>platCalls := platCalls w @ [(''UpdateCheck'', i, [])]\<rparr>)),
      DeleteCheck = (\<lambda>i w. (None, w))\<rparr>"

definition mockDashSVC :: "platform DashboardService" where
  "mockDashSVC = \<lparr>FindDashboardByID = (\<lambda>i w. find (\<lambda>d. ID d = i) (platDashboards w))\<rparr>"

definition mockLabelSVC :: "platform LabelService" where
  "mockLabelSVC =
     \<lparr>FindLabelByID = (\<lambda>i w. None),
      FindLabels = (\<lambda>n org w. Inr []),
      CreateLabel = (\<lambda>l w. (Inr (l\<lparr>ID := 300\<rparr>), w)),
      UpdateLabel = (\<lambda>i u w. ((None, None), w)),
      DeleteLabel = (\<lambda>i w. (None, w))\<rparr>"

definition mockEndpointSVC :: "platform NotificationEndpointService" where
  "mockEndpointSVC = \<lparr>FindNotificationEndpoints = (\<lambda>org w. Inr [])\<rparr>"

definition mockTaskSVC :: "platform TaskService" where
  "mockTaskSVC = \<lparr>FindTaskByID = (\<lambda>i w. find (\<lambda>t. ID t = i) (platTasks w))\<rparr>"

definition mockTeleSVC :: "platform TelegrafConfigStore" where
  "mockTeleSVC = \<lparr>FindTelegrafConfigByID = (\<lambda>i w. None)\<rparr>"

definition mockVarSVC :: "platform VariableService" where
  "mockVarSVC =
     \<lparr>FindVariables = (\<lambda>org limit offset w. Inr []),
      CreateVariable = (\<lambda>v w. (Inr (v\<lparr>ID := 400\<rparr>), w)),
      UpdateVariable = (\<lambda>i u w. ((None, None), w)),
      DeleteVariable = (\<lambda>i w. (None, w))\<rparr>"



text \<open>
  An applier without entries whose rollbacker writes its name to a list of names, and a
  logger that logs nothing.
\<close>

definition namedApplier :: "string \<Rightarrow> string list applier" where
  "namedApplier n =
     \<lparr>creater = \<lparr>entries = 0, create_fn = (\<lambda>i org user c. None)\<rparr>,
      rollbacker = \<lparr>resource = n, rollback_fn = (\<lambda>org c. Some (None, c @ [n]))\<rparr>\<rparr>"

definition noLog :: "string \<Rightarrow> error \<Rightarrow> string list \<Rightarrow> string list" where
  "noLog msg e c = c"

definition stageErr :: error where
  "stageErr = Error EInternal [Txt ''a stage failed'']"

text \<open>
  A secret service that keeps the keys of every organisation and the calls it receives.
  Its delete fails with \<open>delErr\<close> when that is an error, and otherwise removes the keys it
  is given.
\<close>

definition mockSecretSVC :: "error option \<Rightarrow> platform SecretService" where
  "mockSecretSVC delErr =
     \<lparr>GetSecretKeys = (\<lambda>org w. Inr (map snd (filter (\<lambda>ok. fst ok = org) (platSecrets w)))),
      PutSecrets = (\<lambda>org m w.
        (None, w\<lparr>platSecrets := platSecrets w @ map (\<lambda>k. (org, k)) (keys m),
                  platCalls := platCalls w @ [(''PutSecrets'', org, keys m)]\<rparr>)),
      DeleteSecret = (\<lambda>org ks w.
        (delErr,
         w\<lparr>platSecrets :=
             (if delErr = None then filter (\<lambda>ok. \<not> (fst ok = org \<and> snd ok \<in> set ks)) (platSecrets w)
              else platSecrets w),
           platCalls := platCalls w @ [(''DeleteSecret'', org, ks)]\<rparr>))\<rparr>"

definition secrets1 :: "string gomap" where
  "secrets1 = [(''token'', ''abc'')]"

definition deleteErr :: error where
  "deleteErr = Error EInternal [Txt ''secret store is down'']"

definition failingLabelSVC :: "platform LabelService" where
  "failingLabelSVC = mockLabelSVC\<lparr>CreateLabel := (\<lambda>l w. (Inl (Error EInternal [Txt ''no labels today'']), w))\<rparr>"

text \<open>A store of stacks kept in a list.\<close>

definition mockStore :: "Stack list Store" where
  "mockStore =
     \<lparr>CreateStack = (\<lambda>s st. (None, st @ [s])),
      ReadStackByID = (\<lambda>i st.
        case find (\<lambda>s. stkID s = i) st of
          None \<Rightarrow> (Inl (Error ''not found'' [Txt ''stack not found'']), st)
        | Some s \<Rightarrow> (Inr s, st)),
      UpdateStack = (\<lambda>s st. (None, map (\<lambda>x. if stkID x = stkID s then s else x) st)),
      DeleteStack = (\<lambda>i st. (None, filter (\<lambda>s. stkID s \<noteq> i) st))\<rparr>"

definition mockService ::
  "platform SecretService \<Rightarrow> platform LabelService \<Rightarrow> (platform, Stack list) Service" where
  "mockService secrets ls =
     \<lparr>store = mockStore, bucketSVC = mockBucketSVC, checkSVC = mockCheckSVC, dashSVC = mockDashSVC,
      labelSVC = ls, endpointSVC = mockEndpointSVC, ruleSVC = mockRuleSVC, secretSVC = secrets,
      taskSVC = mockTaskSVC, teleSVC = mockTeleSVC, varSVC = mockVarSVC\<rparr>"

text \<open>
  The methods of the package and of the service that are parameters: a package that
  validates, and appliers without entries whose rollbacks write their names to \<open>others\<close>.
\<close>

definition mockPkgMethods :: "platform pkgMethods" where
  "mockPkgMethods =
     \<lparr>Validate = (\<lambda>p. (None, p)),
      IsParseErr = (\<lambda>e. False),
      applyEnvRefs = (\<lambda>p refs. (None, p)),
      applySecrets' = (\<lambda>p secrets. p),
      dryRunLabelMappings = (\<lambda>w s. Some (Inr []))\<rparr>"

definition noted ::
  "string \<Rightarrow> (platform, string list) applyCtx \<Rightarrow> (error option \<times> (platform, string list) applyCtx) option" where
  "noted n c = Some (None, c\<lparr>others := others c @ [n]\<rparr>)"

definition mockApplier :: "string \<Rightarrow> (platform, string list) applyCtx applier" where
  "mockApplier n =
     \<lparr>creater = \<lparr>entries = 0, create_fn = (\<lambda>i org user c. Some (None, c))\<rparr>,
      rollbacker = \<lparr>resource = n, rollback_fn = (\<lambda>org c. noted n c)\<rparr>\<rparr>"

definition mockApplyMethods :: "(platform, string list) applyMethods" where
  "mockApplyMethods =
     \<lparr>others0 = [],
      rollbackBucketsM = (\<lambda>ks c. noted ''bucket'' c),
      rollbackChecksM = (\<lambda>ks c. noted ''check'' c),
      rollbackLabelsM = (\<lambda>ks c. noted ''label'' c),
      rollbackVariablesM = (\<lambda>ks c. noted ''variable'' c),
      applyDashboards = (\<lambda>ks. mockApplier ''dashboard''),
      applyNotificationEndpoints = (\<lambda>user ks. (mockApplier ''notification_endpoints'', (\<lambda>org c. noted ''notification_endpoints'' c))),
      applyNotificationRules = (\<lambda>user ks. (mockApplier ''notification_rules'', (\<lambda>org c. noted ''notification_rules'' c))),
      applyTasks = (\<lambda>ks. mockApplier ''tasks''),
      applyTelegrafs = (\<lambda>user ks. mockApplier ''telegrafs''),
      applyLabelMappings = (\<lambda>ms. mockApplier ''label_mapping''),
      removeLabelMappings = (\<lambda>ms. mockApplier ''removing_label_mapping'')\<rparr>"

definition pkg2 :: Pkg where
  "pkg2 = \<lparr>isParsed = True, pkgBuckets = [], pkgChecks = [], pkgDashboards = [],
     pkgNotificationEndpoints = [], pkgLabels = [pLabel1], pkgNotificationRules = [], pkgTasks = [],
     pkgTelegrafs = [], pkgVariables = [], mSecrets = []\<rparr>"

text \<open>
  An apply of \<open>pkg2\<close> with one missing secret, on a platform whose label service refuses to
  create labels: the state after the dry run, the state of the apply before the first stage
  (\<open>ctx2\<close>), after the stage of the secrets (\<open>ctx3\<close>), and after the rollback when the secret
  service refuses to delete (\<open>ctx4\<close>) and when it accepts (\<open>ctx5\<close>).
\<close>

definition state2 :: stateCoordinator where
  "state2 = (newStateCoordinator pkg2)\<lparr>mLabels := [(''label_1'', \<lparr>id' = 0, orgID = 1, stateStatus = StateStatusNew, parser = pLabel1, existing = None\<rparr>)]\<rparr>"

definition svc7 :: "(platform, Stack list) Service" where
  "svc7 = mockService (mockSecretSVC (Some deleteErr)) failingLabelSVC"

definition ctx2 :: "(platform, string list) applyCtx" where
  "ctx2 = \<lparr>world = platform1, state = state2, logged = [], rollbackSecrets = [],
     rollbackBuckets = [], rollbackChecks = [], rollBackLabels = [], rollBackVars = [], others = []\<rparr>"

definition world3 :: platform where
  "world3 = platform1\<lparr>platSecrets := [(1, ''token'')], platCalls := [(''PutSecrets'', 1, [''token''])]\<rparr>"

definition ctx3 :: "(platform, string list) applyCtx" where
  "ctx3 = ctx2\<lparr>world := world3, rollbackSecrets := [''token'']\<rparr>"

definition labelStageErr :: error where
  "labelStageErr = Error EInternal (toErrorText
     [\<lparr>ebName = ''label_1'', ebMsg = [Txt ''creating'', Txt '': '', Txt ''no labels today'']\<rparr>]
     ''label'' ''failed to apply resource'')"

definition coordinator7 :: "(platform, string list) applyCtx rollbackCoordinator" where
  "coordinator7 = \<lparr>rollbacks = [rollbacker (applySecrets (mockSecretSVC (Some deleteErr)) secrets1),
      rollbacker (applyLabels mockApplyMethods failingLabelSVC [''label_1''])]\<rparr>"

definition ctx4 :: "(platform, string list) applyCtx" where
  "ctx4 = ctx3\<lparr>world := world3\<lparr>platCalls := [(''PutSecrets'', 1, [''token'']), (''DeleteSecret'', 1, [])]\<rparr>,
      logged := [(''failed to delete secrets'', deleteErr)], others := [''label'']\<rparr>"

definition ctx5 :: "(platform, string list) applyCtx" where
  "ctx5 = ctx3\<lparr>world := world3\<lparr>platCalls := [(''PutSecrets'', 1, [''token'']), (''DeleteSecret'', 1, [])]\<rparr>\<rparr>"

text \<open>A store that fails every call and leaves a mark in its state.\<close>

definition brokenStore :: "Stack list Store" where
  "brokenStore =
     \<lparr>CreateStack = (\<lambda>s st. (Some (Error EInternal [Txt ''store is down'']), s # st)),
      ReadStackByID = (\<lambda>i st. (Inl (Error EInternal [Txt ''store is down'']), [])),
      UpdateStack = (\<lambda>s st. (Some (Error EInternal [Txt ''store is down'']), s # st)),
      DeleteStack = (\<lambda>i st. (Some (Error EInternal [Txt ''store is down'']), []))\<rparr>"












text \<open>A stack that lists the bucket of \<open>pkg1\<close> and a dashboard that \<open>pkg1\<close> does not have.\<close>

definition stack1 :: Stack where
  "stack1 = \<lparr>stkID = 3, stkOrgID = 1, stkName = ''stack_1'', stkDescription = '''', stkURLs = [],
     stkResources = [stackRes1, stackRes2], stkCreatedAt = 10, stkUpdatedAt = 10\<rparr>"


text \<open>A stack that lists one bucket twice, with two ids; no package here has that bucket.\<close>

definition stackDup :: Stack where
  "stackDup = \<lparr>stkID = 4, stkOrgID = 1, stkName = ''stack_dup'', stkDescription = '''', stkURLs = [],
     stkResources =
       [\<lparr>srAPIVersion = APIVersion, srID = 5, srKind = KindBucket, srPkgName = ''gone'', srAssociations = []\<rparr>,
        \<lparr>srAPIVersion = APIVersion, srID = 6, srKind = KindBucket, srPkgName = ''gone'', srAssociations = []\<rparr>],
     stkCreatedAt = 10, stkUpdatedAt = 10\<rparr>"

text \<open>
  Two packages with the endpoint \<^verbatim>\<open>endpoint_1\<close>: in \<open>pkgR1\<close> the rule \<^verbatim>\<open>rule_2\<close> names an endpoint
  that the package does not have, in \<open>pkgR2\<close> every rule names \<^verbatim>\<open>endpoint_1\<close>. And a service
  that cannot list the endpoints of an organisation.
\<close>

definition pkgR1 :: Pkg where
  "pkgR1 = \<lparr>isParsed = True, pkgBuckets = [], pkgChecks = [], pkgDashboards = [],
     pkgNotificationEndpoints = [pEndpoint1], pkgLabels = [], pkgNotificationRules = [pRule1, pRule2],
     pkgTasks = [], pkgTelegrafs = [], pkgVariables = [], mSecrets = []\<rparr>"

definition pkgR2 :: Pkg where
  "pkgR2 = \<lparr>isParsed = True, pkgBuckets = [], pkgChecks = [], pkgDashboards = [],
     pkgNotificationEndpoints = [pEndpoint1], pkgLabels = [], pkgNotificationRules = [pRule1],
     pkgTasks = [], pkgTelegrafs = [], pkgVariables = [], mSecrets = []\<rparr>"

definition svcM :: "(platform, Stack list) Service" where
  "svcM = mockService (mockSecretSVC None) mockLabelSVC"

definition failingEndpointSVC :: "platform NotificationEndpointService" where
  "failingEndpointSVC =
     \<lparr>FindNotificationEndpoints = (\<lambda>org w. Inl (Error ''unavailable'' [Txt ''endpoints are down'']))\<rparr>"








section \<open>Properties\<close>

subsection \<open>Status constants\<close>

lemma status_distinct:
  "StateStatusNew \<noteq> StateStatusExists" "StateStatusNew \<noteq> StateStatusRemove"
  "StateStatusExists \<noteq> StateStatusRemove" "StateStatusExists \<noteq> StateStatusNew"
  "StateStatusRemove \<noteq> StateStatusNew" "StateStatusRemove \<noteq> StateStatusExists"
  "StateStatusNew \<noteq> ''''" "StateStatusExists \<noteq> ''''" "StateStatusRemove \<noteq> ''''"
  by (simp_all add: StateStatusNew_def StateStatusExists_def StateStatusRemove_def)

lemma IsNew_simps:
  "IsNew StateStatusNew" "IsNew ''''" "\<not> IsNew StateStatusExists" "\<not> IsNew StateStatusRemove"
  by (simp_all add: IsNew_def status_distinct)

lemma IsRemoval_simps:
  "IsRemoval StateStatusRemove" "\<not> IsRemoval StateStatusNew" "\<not> IsRemoval StateStatusExists"
  "\<not> IsRemoval ''''"
  by (simp_all add: IsRemoval_def status_distinct status_distinct[symmetric])

subsection \<open>Go maps\<close>

lemma map_of_graph: "map_of (map (\<lambda>k. (k, f k)) ks) k = (if k \<in> set ks then Some (f k) else None)"
  by (induction ks) auto

lemma map_of_items: "map_of (items m) k = map_of m k"
proof (cases "map_of m k")
  case None
  then have "k \<notin> fst ` set m"
    by (simp add: map_of_eq_None_iff)
  then show ?thesis
    using None by (simp add: items_def map_of_graph)
next
  case (Some v)
  then have "k \<in> fst ` set m"
    by (metis map_of_eq_None_iff option.distinct(1))
  then show ?thesis
    using Some by (simp add: items_def map_of_graph)
qed

lemma map_of_map_entry': "map_of (AList.map_entry k f m) k' = (if k' = k then map_option f (map_of m k) else map_of m k')"
  by (induction m) (auto)

lemma keys_eq: "keys m = remdups (map fst m)"
  by (simp add: keys_def items_def comp_def)

lemma distinct_keys: "distinct (keys m)"
  by (simp add: keys_eq)

lemma set_keys: "set (keys m) = fst ` set m"
  by (simp add: keys_eq)

lemma fold_map_entry:
  "distinct ks \<Longrightarrow>
   map_of (foldl (\<lambda>m k. AList.map_entry k f m) m ks) k
     = (if k \<in> set ks then map_option f (map_of m k) else map_of m k)"
  by (induction ks arbitrary: m) (auto simp add: map_of_map_entry')

lemma map_of_forEach: "map_of (forEach f m) k = map_option f (map_of m k)"
proof (cases "k \<in> set (keys m)")
  case True
  then show ?thesis
    by (simp add: forEach_def fold_map_entry distinct_keys)
next
  case False
  then have "map_of m k = None"
    by (simp add: set_keys map_of_eq_None_iff)
  then show ?thesis
    using False by (simp add: forEach_def fold_map_entry distinct_keys)
qed

lemma distinct_items: "distinct (map fst (items m))"
  by (simp add: items_def comp_def)

lemma in_items: "(k, v) \<in> set (items m) \<longleftrightarrow> map_of m k = Some v"
proof
  assume "(k, v) \<in> set (items m)"
  then have "map_of (items m) k = Some v"
    using distinct_items [of m] by (metis map_of_is_SomeI)
  then show "map_of m k = Some v" by (simp add: map_of_items)
next
  assume "map_of m k = Some v"
  then have "map_of (items m) k = Some v" by (simp add: map_of_items)
  then show "(k, v) \<in> set (items m)" by (rule map_of_SomeD)
qed


subsection \<open>State records\<close>

lemma ID_orgID [simp]:
  "stateBucket_ID (b\<lparr>orgID := org\<rparr>) = stateBucket_ID b"
  "stateCheck_ID (c\<lparr>orgID := org\<rparr>) = stateCheck_ID c"
  "stateDashboard_ID (d\<lparr>orgID := org\<rparr>) = stateDashboard_ID d"
  "stateLabel_ID (l\<lparr>orgID := org\<rparr>) = stateLabel_ID l"
  "stateRule_ID (r\<lparr>orgID := org\<rparr>) = stateRule_ID r"
  "stateTask_ID (t\<lparr>orgID := org\<rparr>) = stateTask_ID t"
  "stateTelegraf_ID (g\<lparr>orgID := org\<rparr>) = stateTelegraf_ID g"
  by (simp_all add: stateBucket_ID_def stateCheck_ID_def stateDashboard_ID_def stateLabel_ID_def
      stateRule_ID_def stateTask_ID_def stateTelegraf_ID_def split: option.split)


subsection \<open>C3: the lookups of dry-run\<close>

lemma getAllPlatformVariables_mock: "getAllPlatformVariables mockVarSVC 1 platform1 = Some (Inr [])"
  unfolding getAllPlatformVariables_def
  by (subst getAllPlatformVariablesFrom.simps) (simp add: mockVarSVC_def)






subsection \<open>The binding of rules to endpoints\<close>

lemma bindEndpoints_error:
  "\<exists>x \<in> set rs. missingEndpoint endpoints (snd x) \<Longrightarrow>
   \<exists>t. fst (bindEndpoints endpoints rs rules) = Some (Error EUnprocessableEntity t)"
proof (induction rs arbitrary: rules)
  case Nil
  then show ?case by simp
next
  case (Cons x rs)
  obtain k r where x: "x = (k, r)" by (cases x)
  show ?case
  proof (cases "missingEndpoint endpoints r")
    case True
    then show ?thesis by (simp add: x missingEndpoint_def)
  next
    case False
    then have "\<exists>x \<in> set rs. missingEndpoint endpoints (snd x)"
      using Cons.prems x by auto
    then show ?thesis
      using Cons.IH by (simp add: x Let_def)
  qed
qed

lemma bindEndpoints_ok:
  "distinct (map fst rs) \<Longrightarrow>
   \<forall>x \<in> set rs. map_of rules (fst x) = Some (snd x) \<and> \<not> missingEndpoint endpoints (snd x) \<Longrightarrow>
   fst (bindEndpoints endpoints rs rules) = None
   \<and> (\<forall>k. map_of (snd (bindEndpoints endpoints rs rules)) k
          = (if k \<in> fst ` set rs then map_option (bindRule endpoints) (map_of rules k)
             else map_of rules k))"
proof (induction rs arbitrary: rules)
  case Nil
  then show ?case by simp
next
  case (Cons x rs)
  obtain k r where x: "x = (k, r)" by (cases x)
  have kr: "map_of rules k = Some r" and nm: "\<not> missingEndpoint endpoints r"
    using Cons.prems(2) x by auto
  have knot: "k \<notin> fst ` set rs" and d: "distinct (map fst rs)"
    using Cons.prems(1) x by auto
  let ?rules' = "if associatedEndpoint r \<noteq> None then rules
    else AList.map_entry k (\<lambda>r. r\<lparr>associatedEndpoint := ptr endpoints (endpointName (parser r))\<rparr>) rules"
  have step: "bindEndpoints endpoints (x # rs) rules = bindEndpoints endpoints rs ?rules'"
    using nm by (auto simp add: x missingEndpoint_def Let_def)
  have other: "map_of ?rules' k' = map_of rules k'" if "k' \<noteq> k" for k'
    using that by (simp add: map_of_map_entry')
  have here: "map_of ?rules' k = Some (bindRule endpoints r)"
    using kr by (simp add: map_of_map_entry' bindRule_def)
  have pre: "\<forall>y \<in> set rs. map_of ?rules' (fst y) = Some (snd y) \<and> \<not> missingEndpoint endpoints (snd y)"
  proof
    fix y assume y: "y \<in> set rs"
    then have "fst y \<noteq> k" using knot by auto
    then show "map_of ?rules' (fst y) = Some (snd y) \<and> \<not> missingEndpoint endpoints (snd y)"
      using Cons.prems(2) y other by simp
  qed
  have ih: "fst (bindEndpoints endpoints rs ?rules') = None
   \<and> (\<forall>k'. map_of (snd (bindEndpoints endpoints rs ?rules')) k'
          = (if k' \<in> fst ` set rs then map_option (bindRule endpoints) (map_of ?rules' k')
             else map_of ?rules' k'))"
    by (rule Cons.IH [OF d pre])
  show ?case
  proof (intro conjI allI)
    show "fst (bindEndpoints endpoints (x # rs) rules) = None"
      using ih step by simp
  next
    fix k'
    show "map_of (snd (bindEndpoints endpoints (x # rs) rules)) k'
        = (if k' \<in> fst ` set (x # rs) then map_option (bindRule endpoints) (map_of rules k')
           else map_of rules k')"
    proof (cases "k' = k")
      case True
      then show ?thesis
        using ih step knot here kr by (simp add: x)
    next
      case False
      then show ?thesis
        using ih step other [OF False] by (simp add: x)
    qed
  qed
qed


lemma missingEndpoint_dryRun [simp]:
  "missingEndpoint endpoints (dryRunNotificationRule svc orgID' w r) = missingEndpoint endpoints r"
  by (simp add: missingEndpoint_def dryRunNotificationRule_def Let_def)

text \<open>
  \<^verbatim>\<open>dryRunNotificationRules\<close> fails exactly when the state has a rule that is not being
  removed, has no associated endpoint, and names an endpoint pkg-name that the endpoint map
  of the state does not have; the error then has the code UnprocessableEntity. Otherwise
  it returns no error, and every rule that had no associated endpoint is bound to the
  endpoint of that pkg-name (a rule that had one keeps it).
\<close>

lemma dryRunNotificationRules_binding:
  "((\<exists>k r. map_of rules k = Some r \<and> missingEndpoint endpoints r) \<longrightarrow>
      (\<exists>t. fst (dryRunNotificationRules svc orgID' w rules endpoints)
            = Some (Error EUnprocessableEntity t)))
   \<and> (\<not> (\<exists>k r. map_of rules k = Some r \<and> missingEndpoint endpoints r) \<longrightarrow>
      fst (dryRunNotificationRules svc orgID' w rules endpoints) = None
      \<and> (\<forall>k. map_of (snd (dryRunNotificationRules svc orgID' w rules endpoints)) k
             = map_option (\<lambda>r. bindRule endpoints (dryRunNotificationRule svc orgID' w r))
                 (map_of rules k)))"
proof -
  let ?rules1 = "forEach (dryRunNotificationRule svc orgID' w) rules"
  have unfold: "dryRunNotificationRules svc orgID' w rules endpoints
      = bindEndpoints endpoints (items ?rules1) ?rules1"
    by (simp add: dryRunNotificationRules_def Let_def)
  show ?thesis
  proof (rule conjI; rule impI)
    assume "\<exists>k r. map_of rules k = Some r \<and> missingEndpoint endpoints r"
    then obtain k r where kr: "map_of rules k = Some r" and m: "missingEndpoint endpoints r"
      by blast
    have "(k, dryRunNotificationRule svc orgID' w r) \<in> set (items ?rules1)"
      using kr by (simp add: in_items map_of_forEach)
    then have "\<exists>x \<in> set (items ?rules1). missingEndpoint endpoints (snd x)"
      using m by force
    then show "\<exists>t. fst (dryRunNotificationRules svc orgID' w rules endpoints)
        = Some (Error EUnprocessableEntity t)"
      unfolding unfold by (rule bindEndpoints_error)
  next
    assume no: "\<not> (\<exists>k r. map_of rules k = Some r \<and> missingEndpoint endpoints r)"
    have pre: "\<forall>x \<in> set (items ?rules1).
        map_of ?rules1 (fst x) = Some (snd x) \<and> \<not> missingEndpoint endpoints (snd x)"
    proof
      fix x assume "x \<in> set (items ?rules1)"
      then have x: "map_of ?rules1 (fst x) = Some (snd x)"
        using in_items [of "fst x" "snd x" ?rules1] by simp
      then obtain r where "map_of rules (fst x) = Some r"
        and "snd x = dryRunNotificationRule svc orgID' w r"
        by (auto simp add: map_of_forEach)
      then show "map_of ?rules1 (fst x) = Some (snd x) \<and> \<not> missingEndpoint endpoints (snd x)"
        using x no by auto
    qed
    have ok: "fst (bindEndpoints endpoints (items ?rules1) ?rules1) = None
       \<and> (\<forall>k. map_of (snd (bindEndpoints endpoints (items ?rules1) ?rules1)) k
          = (if k \<in> fst ` set (items ?rules1) then map_option (bindRule endpoints) (map_of ?rules1 k)
             else map_of ?rules1 k))"
      by (rule bindEndpoints_ok [OF distinct_items pre])
    have dom: "k \<notin> fst ` set (items ?rules1) \<Longrightarrow> map_of ?rules1 k = None" for k
      by (metis map_of_eq_None_iff map_of_items)
    show "fst (dryRunNotificationRules svc orgID' w rules endpoints) = None
      \<and> (\<forall>k. map_of (snd (dryRunNotificationRules svc orgID' w rules endpoints)) k
             = map_option (\<lambda>r. bindRule endpoints (dryRunNotificationRule svc orgID' w r))
                 (map_of rules k))"
    proof (intro conjI allI)
      show "fst (dryRunNotificationRules svc orgID' w rules endpoints) = None"
        using ok unfold by simp
    next
      fix k
      show "map_of (snd (dryRunNotificationRules svc orgID' w rules endpoints)) k
             = map_option (\<lambda>r. bindRule endpoints (dryRunNotificationRule svc orgID' w r))
                 (map_of rules k)"
      proof (cases "k \<in> fst ` set (items ?rules1)")
        case True
        then show ?thesis
          using ok unfold by (simp add: map_of_forEach option.map_comp comp_def)
      next
        case False
        then have "map_of ?rules1 k = None" by (rule dom)
        then show ?thesis
          using ok unfold False by (simp add: map_of_forEach)
      qed
    qed
  qed
qed

lemma dryRunNotificationRules_fails:
  "\<exists>k r. map_of rules k = Some r \<and> missingEndpoint endpoints r \<Longrightarrow>
   \<exists>t. fst (dryRunNotificationRules svc orgID' w rules endpoints) = Some (Error EUnprocessableEntity t)"
  using dryRunNotificationRules_binding [of rules endpoints svc orgID' w] by blast

lemma dryRunNotificationRules_binds:
  "\<not> (\<exists>k r. map_of rules k = Some r \<and> missingEndpoint endpoints r) \<Longrightarrow>
   fst (dryRunNotificationRules svc orgID' w rules endpoints) = None
   \<and> (\<forall>k. map_of (snd (dryRunNotificationRules svc orgID' w rules endpoints)) k
          = map_option (\<lambda>r. bindRule endpoints (dryRunNotificationRule svc orgID' w r)) (map_of rules k))"
  using dryRunNotificationRules_binding [of rules endpoints svc orgID' w] by blast


subsection \<open>The rollback coordinator\<close>

lemma runApplier_rollbacks:
  "runApplier org user (r, ec) app = Some (r', ec') \<Longrightarrow> rollbacks r' = rollbacks r @ [rollbacker app]"
  by (auto simp add: runApplier_def Let_def split: option.splits)

lemma runAppliers_rollbacks:
  "foldOpt (runApplier org user) (r, ec) apps = Some (r', ec') \<Longrightarrow>
   rollbacks r' = rollbacks r @ map rollbacker apps"
proof (induction apps arbitrary: r ec)
  case Nil
  then show ?case by simp
next
  case (Cons app apps)
  from Cons.prems obtain r1 ec1 where
    1: "runApplier org user (r, ec) app = Some (r1, ec1)" and
    2: "foldOpt (runApplier org user) (r1, ec1) apps = Some (r', ec')"
    by (auto split: option.splits)
  show ?case
    using Cons.IH [OF 2] runApplier_rollbacks [OF 1] by simp
qed

lemma runTilEnd_rollbacks:
  "runTilEnd r org user apps c = Some (e, r', c') \<Longrightarrow> rollbacks r' = rollbacks r @ map rollbacker apps"
  by (auto simp add: runTilEnd_def split: option.splits dest: runAppliers_rollbacks)

lemma traced_fold:
  assumes "\<forall>rb \<in> set rs. \<forall>c. rollback_fn rb org c \<noteq> None"
  shows "\<exists>c'. foldOpt (rollbackStep (tracedLog l) org) (c, tr) (map (\<lambda>(i, rb). traced i rb) (enumerate n rs))
            = Some (c', tr @ [n..<n + length rs])
          \<and> foldOpt (rollbackStep l org) c rs = Some c'"
  using assms
proof (induction rs arbitrary: c tr n)
  case Nil
  then show ?case by simp
next
  case (Cons rb rs)
  from Cons.prems have "rollback_fn rb org c \<noteq> None"
    by simp
  then obtain e c1 where rb: "rollback_fn rb org c = Some (e, c1)"
    by (cases "rollback_fn rb org c") auto
  let ?c2 = "case e of None \<Rightarrow> c1 | Some err \<Rightarrow> l (''failed to delete '' @ resource rb) err c1"
  have s1: "rollbackStep l org c rb = Some ?c2"
    using rb by (simp add: rollbackStep_def split: option.splits)
  have s2: "rollbackStep (tracedLog l) org (c, tr) (traced n rb) = Some (?c2, tr @ [n])"
    using rb by (simp add: rollbackStep_def traced_def tracedLog_def split: option.splits)
  have pre: "\<forall>rb \<in> set rs. \<forall>c. rollback_fn rb org c \<noteq> None"
    using Cons.prems by simp
  from Cons.IH [OF pre, of ?c2 "tr @ [n]" "Suc n"] obtain c' where
    "foldOpt (rollbackStep (tracedLog l) org) (?c2, tr @ [n])
        (map (\<lambda>(i, rb). traced i rb) (enumerate (Suc n) rs)) = Some (c', (tr @ [n]) @ [Suc n..<Suc n + length rs])"
    and "foldOpt (rollbackStep l org) ?c2 rs = Some c'"
    by blast
  then show ?case
    using s1 s2 by (simp add: upt_conv_Cons del: upt_Suc)
qed


subsection \<open>An apply that fails at the labels\<close>

lemma applyOpt_secrets1: "applyOptFromOptFns [ApplyWithSecrets secrets1] = \<lparr>EnvRefs = [], MissingSecrets = secrets1, StackID = 0\<rparr>"
  by (simp add: applyOptFromOptFns_def ApplyWithSecrets_def)

lemma forEach_Nil: "forEach f [] = []"
  by (simp add: forEach_def keys_def items_def)

lemma keys_Nil: "keys [] = []"
  by (simp add: keys_def items_def)

lemma keys_single: "keys [(k, v)] = [k]"
  by (simp add: keys_def items_def)

lemma forEach_single: "forEach f [(k, v)] = [(k, f v)]"
  by (simp add: forEach_def keys_def items_def)

lemma newStateCoordinator_pkg2: "newStateCoordinator pkg2 =
  \<lparr>mBuckets = [], mChecks = [], mDashboards = [], mEndpoints = [],
   mLabels = [(''label_1'', newState pLabel1)], mRules = [], mTasks = [], mTelegrafs = [], mVariables = [],
   labelMappings = [], labelMappingsToRemove = []\<rparr>"
  by (simp add: newStateCoordinator_def pkg2_def PkgName_def pLabel1_def)

lemma dryRunLabels_pkg2: "dryRunLabels failingLabelSVC 1 platform1 [(''label_1'', newState pLabel1)]
   = [(''label_1'', \<lparr>id' = 0, orgID = 1, stateStatus = StateStatusNew, parser = pLabel1, existing = None\<rparr>)]"
  by (simp add: dryRunLabels_def forEach_single dryRunLabel_def findLabel_def failingLabelSVC_def mockLabelSVC_def
      newState_def stateLabel_ID_def IsNew_simps Let_def)

lemma dryRunResources_pkg2: "dryRunResources mockPkgMethods (mockService (mockSecretSVC (Some deleteErr)) failingLabelSVC) 1 platform1
    (newStateCoordinator pkg2) = Some (Inr state2)"
  unfolding newStateCoordinator_pkg2 state2_def
  by (simp add: dryRunResources_def mockService_def dryRunLabels_pkg2
      dryRunBuckets_def dryRunChecks_def dryRunDashboards_def dryRunTasks_def
      dryRunTelegrafConfigs_def dryRunVariables_def getAllPlatformVariables_mock forEach_Nil
      dryRunNotificationEndpoints_def dryRunNotificationRules_def mockEndpointSVC_def indexBy_def
      mockPkgMethods_def items_def Let_def)

lemma dryRun_pkg2: "dryRun mockPkgMethods (mockService (mockSecretSVC (Some deleteErr)) failingLabelSVC) 1 pkg2
     [ApplyWithSecrets secrets1] platform1 [] = Some ((Some state2, None), pkg2, [])"
proof -
  have v: "dryRunValidate mockPkgMethods pkg2 \<lparr>EnvRefs = [], MissingSecrets = secrets1, StackID = 0\<rparr> = (Inr None, pkg2)"
    by (simp add: dryRunValidate_def pkg2_def keys_Nil)
  have s: "dryRunSecrets (mockSecretSVC (Some deleteErr)) 1 platform1 pkg2 = (None, pkg2)"
    by (simp add: dryRunSecrets_def pkg2_def keys_Nil)
  have sv: "secretSVC (mockService (mockSecretSVC (Some deleteErr)) failingLabelSVC) = mockSecretSVC (Some deleteErr)"
    by (simp add: mockService_def)
  show ?thesis
    by (simp add: dryRun_def applyOpt_secrets1 v dryRunState_def s sv dryRunResources_pkg2)
qed

lemma generator_pkg2: "\<exists>ea ra. applyNotificationGenerator mockApplyMethods 1 [] [] ctx2 = Some ((ea, ra), None, ctx2)"
  by (simp add: applyNotificationGenerator_def toError_def mockApplyMethods_def ctx2_def)

lemma secrets_stage: "runTilEnd \<lparr>rollbacks = []\<rparr> 1 1 [applySecrets (mockSecretSVC (Some deleteErr)) secrets1] ctx2
   = Some (None, \<lparr>rollbacks = [rollbacker (applySecrets (mockSecretSVC (Some deleteErr)) secrets1)]\<rparr>, ctx3)"
  by (simp add: runTilEnd_def runApplier_def applySecrets_def secrets1_def keys_single runEntry_def mockSecretSVC_def
      ctx2_def ctx3_def world3_def platform1_def errStream_close_def keys_Nil)

lemma labels_stage: "runTilEnd r 1 1 [applyLabels mockApplyMethods failingLabelSVC [''label_1'']] ctx3
   = Some (Some (errorsNew (Msg labelStageErr)), r\<lparr>rollbacks := rollbacks r @ [rollbacker (applyLabels mockApplyMethods failingLabelSVC [''label_1''])]\<rparr>, ctx3)"
  by (simp add: runTilEnd_def runApplier_def applyLabels_def runEntry_def applyLabels_createFn_def
      ctx2_def ctx3_def state2_def newStateCoordinator_pkg2 stateLabel_shouldApply_def applyLabel_def status_distinct
      failingLabelSVC_def mockLabelSVC_def Wrap_def errStream_close_def keys_single items_def labelStageErr_def
      PkgName_def pLabel1_def Let_def)

lemma applyState_fails_at_labels: "applyState mockApplyMethods svc7 \<lparr>rollbacks = []\<rparr> 1 1 secrets1 ctx2
   = Some (Some labelStageErr, coordinator7, ctx3)"
proof -
  have l: "labels' (state ctx2) = [''label_1'']"
    by (simp add: labels'_def ctx2_def state2_def keys_single)
  have s: "secretSVC svc7 = mockSecretSVC (Some deleteErr)" "labelSVC svc7 = failingLabelSVC"
    by (simp_all add: svc7_def mockService_def)
  have r: "rules' (state ctx2) = []" "endpoints' (state ctx2) = []"
    by (simp_all add: rules'_def endpoints'_def ctx2_def state2_def newStateCoordinator_pkg2 keys_Nil)
  from generator_pkg2 obtain ea ra where
    g: "applyNotificationGenerator mockApplyMethods 1 [] [] ctx2 = Some ((ea, ra), None, ctx2)"
    by blast
  show ?thesis
    by (simp add: applyState_def r g l s secrets_stage labels_stage coordinator7_def internalErr_def toInfluxError_def
        labelStageErr_def errorsNew_def)
qed

lemma rollback_after_labels: "rollback coordinator7 logError (Some labelStageErr) 1 ctx3 = Some ctx4"
  by (simp add: rollback_def coordinator7_def rollbackStep_def applySecrets_def secrets1_def keys_single
      mockSecretSVC_def deleteErr_def logError_def applyLabels_def mockApplyMethods_def noted_def
      ctx4_def ctx3_def ctx2_def world3_def)

lemma Apply_fails_at_labels:
  "Apply mockPkgMethods mockApplyMethods svc7 0 1 1 pkg2 [ApplyWithSecrets secrets1] platform1 []
     = Some ((None, Some labelStageErr), world ctx4, logged ctx4, [])"
proof -
  have c: "\<lparr>world = platform1, state = state2, logged = [], rollbackSecrets = [],
     rollbackBuckets = [], rollbackChecks = [], rollBackLabels = [], rollBackVars = [],
     others = others0 mockApplyMethods\<rparr> = ctx2"
    by (simp add: ctx2_def mockApplyMethods_def)
  have p: "isParsed pkg2" "applyEnvRefs mockPkgMethods pkg2 [] = (None, pkg2)"
    by (simp_all add: pkg2_def mockPkgMethods_def)
  show ?thesis
    using dryRun_pkg2 [folded svc7_def]
    by (simp add: Apply_def p applyOpt_secrets1 c applyState_fails_at_labels rollback_after_labels
        updateStack_def)
qed

subsection \<open>C9: the zero status is NEW\<close>

text \<open>
  C9. For every status \<open>s\<close>, \<open>IsNew s\<close> holds exactly when \<open>s\<close> is \<open>StateStatusNew\<close> or the
  empty string. The \<^verbatim>\<open>ID()\<close> method of each of the nine state records treats the two
  alike: with an unset status, as with NEW, it returns the record's own \<open>id\<close> field,
  whether or not an existing platform resource is attached.
\<close>

theorem IsNew_zero_value:
  fixes b :: stateBucket and c :: stateCheck and d :: stateDashboard and e :: stateEndpoint
    and l :: stateLabel and r :: stateRule and t :: stateTask and g :: stateTelegraf
    and v :: stateVariable
  shows "(IsNew s \<longleftrightarrow> s = StateStatusNew \<or> s = '''')
    \<and> stateBucket_ID (b\<lparr>stateStatus := ''''\<rparr>) = id' b
    \<and> stateBucket_ID (b\<lparr>stateStatus := StateStatusNew\<rparr>) = id' b
    \<and> stateCheck_ID (c\<lparr>stateStatus := ''''\<rparr>) = id' c
    \<and> stateCheck_ID (c\<lparr>stateStatus := StateStatusNew\<rparr>) = id' c
    \<and> stateDashboard_ID (d\<lparr>stateStatus := ''''\<rparr>) = id' d
    \<and> stateDashboard_ID (d\<lparr>stateStatus := StateStatusNew\<rparr>) = id' d
    \<and> stateEndpoint_ID (e\<lparr>stateStatus := ''''\<rparr>) = id' e
    \<and> stateEndpoint_ID (e\<lparr>stateStatus := StateStatusNew\<rparr>) = id' e
    \<and> stateLabel_ID (l\<lparr>stateStatus := ''''\<rparr>) = id' l
    \<and> stateLabel_ID (l\<lparr>stateStatus := StateStatusNew\<rparr>) = id' l
    \<and> stateRule_ID (r\<lparr>stateStatus := ''''\<rparr>) = id' r
    \<and> stateRule_ID (r\<lparr>stateStatus := StateStatusNew\<rparr>) = id' r
    \<and> stateTask_ID (t\<lparr>stateStatus := ''''\<rparr>) = id' t
    \<and> stateTask_ID (t\<lparr>stateStatus := StateStatusNew\<rparr>) = id' t
    \<and> stateTelegraf_ID (g\<lparr>stateStatus := ''''\<rparr>) = id' g
    \<and> stateTelegraf_ID (g\<lparr>stateStatus := StateStatusNew\<rparr>) = id' g
    \<and> stateVariable_ID (v\<lparr>stateStatus := ''''\<rparr>) = id' v
    \<and> stateVariable_ID (v\<lparr>stateStatus := StateStatusNew\<rparr>) = id' v"
  by (simp add: IsNew_simps stateBucket_ID_def stateCheck_ID_def stateDashboard_ID_def
      stateEndpoint_ID_def stateLabel_ID_def stateRule_ID_def stateTask_ID_def
      stateTelegraf_ID_def stateVariable_ID_def split: option.split)
    (simp add: IsNew_def)

theorem IsNew_zero_value_witness:
  "IsNew '''' \<and> IsNew StateStatusNew \<and> \<not> IsNew StateStatusExists
   \<and> stateBucket_ID sBucket1 = 9
   \<and> stateBucket_ID (sBucket1\<lparr>stateStatus := ''''\<rparr>) = 7
   \<and> stateBucket_ID (sBucket1\<lparr>stateStatus := StateStatusNew\<rparr>) = 7"
proof -
  have a: "IsNew '''' \<and> IsNew StateStatusNew \<and> \<not> IsNew StateStatusExists"
    using IsNew_zero_value [of "''''"] IsNew_zero_value [of StateStatusNew]
      IsNew_zero_value [of StateStatusExists]
    by (simp add: status_distinct)
  have b: "stateBucket_ID sBucket1 = 9"
    by (simp add: stateBucket_ID_def sBucket1_def iBucket1_def IsNew_simps)
  have c: "id' sBucket1 = 7"
    by (simp add: sBucket1_def)
  show ?thesis
    using a b c IsNew_zero_value [of "''''" sBucket1] by simp
qed


subsection \<open>C1: the order of the compensations\<close>

text \<open>
  C1, as the code has it. \<^verbatim>\<open>runTilEnd\<close> appends the rollbacker of each applier to the
  coordinator's list, in the order of the appliers. When a stage has reported an error,
  \<^verbatim>\<open>rollback\<close> ranges over that list from its first element to its last: with every
  rollbacker numbered by its position and recording its number when it returns, the trace
  of a rollback is \<open>0, 1, \<dots>, n - 1\<close>, so every registered compensation is invoked once and
  in the order of registration, the first registered first. The recording changes nothing
  else: the state reached is that of the plain rollback.
\<close>

theorem rollback_registration_order:
  "(runTilEnd r org user apps c = Some (e, r', c') \<longrightarrow> rollbacks r' = rollbacks r @ map rollbacker apps)
   \<and> ((\<forall>rb \<in> set (rollbacks r). \<forall>c. rollback_fn rb org c \<noteq> None) \<longrightarrow>
        (\<exists>c1. rollback \<lparr>rollbacks = tracedAll (rollbacks r)\<rparr> (tracedLog l) (Some err) org (c, [])
                = Some (c1, [0..<length (rollbacks r)])
             \<and> rollback r l (Some err) org c = Some c1))"
proof (rule conjI; rule impI)
  assume "runTilEnd r org user apps c = Some (e, r', c')"
  then show "rollbacks r' = rollbacks r @ map rollbacker apps"
    by (rule runTilEnd_rollbacks)
next
  assume a: "\<forall>rb \<in> set (rollbacks r). \<forall>c. rollback_fn rb org c \<noteq> None"
  show "\<exists>c1. rollback \<lparr>rollbacks = tracedAll (rollbacks r)\<rparr> (tracedLog l) (Some err) org (c, [])
                = Some (c1, [0..<length (rollbacks r)])
             \<and> rollback r l (Some err) org c = Some c1"
    using traced_fold [OF a, of l c "[]" 0]
    by (simp add: rollback_def tracedAll_def)
qed

theorem rollback_registration_order_witness:
  "runTilEnd \<lparr>rollbacks = []\<rparr> 1 1 [namedApplier ''secrets'', namedApplier ''label''] []
     = Some (None, \<lparr>rollbacks = [rollbacker (namedApplier ''secrets''), rollbacker (namedApplier ''label'')]\<rparr>, [])
   \<and> rollback \<lparr>rollbacks = tracedAll [rollbacker (namedApplier ''secrets''), rollbacker (namedApplier ''label'')]\<rparr>
        (tracedLog noLog) (Some stageErr) 1 ([], [])
     = Some ([''secrets'', ''label''], [0, 1])
   \<and> rollback \<lparr>rollbacks = [rollbacker (namedApplier ''secrets''), rollbacker (namedApplier ''label'')]\<rparr>
        noLog (Some stageErr) 1 []
     = Some [''secrets'', ''label'']"
proof -
  let ?r = "\<lparr>rollbacks = [rollbacker (namedApplier ''secrets''), rollbacker (namedApplier ''label'')]\<rparr>"
  have run: "runTilEnd \<lparr>rollbacks = []\<rparr> 1 1 [namedApplier ''secrets'', namedApplier ''label''] []
     = Some (None, ?r, [])"
    by (simp add: runTilEnd_def runApplier_def namedApplier_def errStream_close_def keys_def items_def)
  have ret: "\<forall>rb \<in> set (rollbacks ?r). \<forall>c. rollback_fn rb 1 c \<noteq> None"
    by (simp add: namedApplier_def)
  have plain: "rollback ?r noLog (Some stageErr) 1 [] = Some [''secrets'', ''label'']"
    by (simp add: rollback_def rollbackStep_def namedApplier_def)
  show ?thesis
    using run plain ret
      rollback_registration_order [where r = ?r and org = 1 and user = 1 and apps = "[]" and c = "[]"
        and e = None and r' = ?r and c' = "[]" and l = noLog and err = stageErr]
    by (simp add: numeral_2_eq_2 upt_rec)
qed


text \<open>
  The order stated by the claim, last registered first, is not the order of the code: with
  the rollbacker of the secrets registered before that of the labels, the rollback runs
  the compensation of the secrets first.
\<close>

theorem rollback_reverse_order_counterexample:
  "rollback \<lparr>rollbacks = [rollbacker (namedApplier ''secrets''), rollbacker (namedApplier ''label'')]\<rparr>
      noLog (Some stageErr) 1 [] = Some [''secrets'', ''label'']
   \<and> rollbackReversed \<lparr>rollbacks = [rollbacker (namedApplier ''secrets''), rollbacker (namedApplier ''label'')]\<rparr>
      noLog (Some stageErr) 1 [] = Some [''label'', ''secrets'']"
  by (simp add: rollbackReversed_def rollback_def rollbackStep_def namedApplier_def)


subsection \<open>C7: a compensation that fails\<close>

lemma rollback_Cons:
  "rollback \<lparr>rollbacks = rb # rbs\<rparr> l (Some err) org c =
     (case rollbackStep l org c rb of None \<Rightarrow> None | Some c' \<Rightarrow> rollback \<lparr>rollbacks = rbs\<rparr> l (Some err) org c')"
  by (simp add: rollback_def split: option.split)

lemma rollback_returns:
  "\<forall>rb \<in> set rs. \<forall>c. rollback_fn rb org c \<noteq> None \<Longrightarrow> foldOpt (rollbackStep l org) c rs \<noteq> None"
  using traced_fold [of rs org l c "[]" 0] by auto

text \<open>
  C7. A rollbacker that returns an error does not end the rollback: the error is logged
  with the message \<^verbatim>\<open>failed to delete <resource>\<close> and the rollbackers after it run on the
  state it left. A rollback whose rollbackers all return, with or without an error, returns.
  And when \<^verbatim>\<open>applyState\<close> has returned an error, \<^verbatim>\<open>Apply\<close> returns that error, whatever the
  rollback and the update of the stack have logged.
\<close>

theorem compensation_failure_logged:
  "(rollback_fn rb org c = Some (Some e, c1) \<longrightarrow>
      rollback \<lparr>rollbacks = rb # rbs\<rparr> l (Some err) org c
        = rollback \<lparr>rollbacks = rbs\<rparr> l (Some err) org (l (''failed to delete '' @ resource rb) e c1))
   \<and> ((\<forall>rb \<in> set (rollbacks r). \<forall>c. rollback_fn rb org c \<noteq> None) \<longrightarrow>
        rollback r l (Some err) org c \<noteq> None)
   \<and> ((if \<not> isParsed pkgIn then Validate pm pkgIn else (None, pkgIn)) = (None, pkgA) \<longrightarrow>
       applyEnvRefs pm pkgA (EnvRefs (applyOptFromOptFns opts)) = (None, pkgB) \<longrightarrow>
       dryRun pm svc org pkgB opts w st = Some ((Some found, None), pkgC, stA) \<longrightarrow>
       applyState am svc \<lparr>rollbacks = []\<rparr> org user (MissingSecrets (applyOptFromOptFns opts))
           \<lparr>world = w, state = found, logged = [], rollbackSecrets = [], rollbackBuckets = [],
            rollbackChecks = [], rollBackLabels = [], rollBackVars = [], others = others0 am\<rparr>
         = Some (Some stageError, coordinator, ca) \<longrightarrow>
       rollback coordinator logError (Some stageError) org ca = Some cb \<longrightarrow>
       updateStack (store svc) now (StackID (applyOptFromOptFns opts)) (Some stageError) cb stA = Some (cc, stB) \<longrightarrow>
       Apply pm am svc now org user pkgIn opts w st = Some ((None, Some stageError), world cc, logged cc, stB))"
proof (intro conjI)
  show "rollback_fn rb org c = Some (Some e, c1) \<longrightarrow>
      rollback \<lparr>rollbacks = rb # rbs\<rparr> l (Some err) org c
        = rollback \<lparr>rollbacks = rbs\<rparr> l (Some err) org (l (''failed to delete '' @ resource rb) e c1)"
    by (simp add: rollback_Cons rollbackStep_def)
  show "(\<forall>rb \<in> set (rollbacks r). \<forall>c. rollback_fn rb org c \<noteq> None) \<longrightarrow>
        rollback r l (Some err) org c \<noteq> None"
    using rollback_returns [of "rollbacks r" org l c] by (simp add: rollback_def)
  show "(if \<not> isParsed pkgIn then Validate pm pkgIn else (None, pkgIn)) = (None, pkgA) \<longrightarrow>
       applyEnvRefs pm pkgA (EnvRefs (applyOptFromOptFns opts)) = (None, pkgB) \<longrightarrow>
       dryRun pm svc org pkgB opts w st = Some ((Some found, None), pkgC, stA) \<longrightarrow>
       applyState am svc \<lparr>rollbacks = []\<rparr> org user (MissingSecrets (applyOptFromOptFns opts))
           \<lparr>world = w, state = found, logged = [], rollbackSecrets = [], rollbackBuckets = [],
            rollbackChecks = [], rollBackLabels = [], rollBackVars = [], others = others0 am\<rparr>
         = Some (Some stageError, coordinator, ca) \<longrightarrow>
       rollback coordinator logError (Some stageError) org ca = Some cb \<longrightarrow>
       updateStack (store svc) now (StackID (applyOptFromOptFns opts)) (Some stageError) cb stA = Some (cc, stB) \<longrightarrow>
       Apply pm am svc now org user pkgIn opts w st = Some ((None, Some stageError), world cc, logged cc, stB)"
    by (simp add: Apply_def Let_def)
qed

theorem compensation_failure_logged_witness:
  "rollback_fn (rollbacker (applySecrets (mockSecretSVC (Some deleteErr)) secrets1)) 1 ctx3
     = Some (Some deleteErr, ctx3\<lparr>world := world ctx4\<rparr>)
   \<and> rollback coordinator7 logError (Some labelStageErr) 1 ctx3 = Some ctx4
   \<and> logged ctx4 = [(''failed to delete secrets'', deleteErr)]
   \<and> others ctx4 = [''label'']
   \<and> Apply mockPkgMethods mockApplyMethods svc7 0 1 1 pkg2 [ApplyWithSecrets secrets1] platform1 []
       = Some ((None, Some labelStageErr), world ctx4, logged ctx4, [])"
proof -
  have c: "\<lparr>world = platform1, state = state2, logged = [], rollbackSecrets = [],
     rollbackBuckets = [], rollbackChecks = [], rollBackLabels = [], rollBackVars = [], others = others0 mockApplyMethods\<rparr> = ctx2"
    by (simp add: ctx2_def mockApplyMethods_def)
  have p: "isParsed pkg2" "applyEnvRefs mockPkgMethods pkg2 [] = (None, pkg2)"
    by (simp_all add: pkg2_def mockPkgMethods_def)
  have f: "rollback_fn (rollbacker (applySecrets (mockSecretSVC (Some deleteErr)) secrets1)) 1 ctx3
     = Some (Some deleteErr, ctx3\<lparr>world := world ctx4\<rparr>)"
    by (simp add: applySecrets_def secrets1_def keys_single mockSecretSVC_def ctx4_def ctx3_def ctx2_def
        world3_def)
  have u: "updateStack (store svc7) 0 0 (Some labelStageErr) ctx4 [] = Some (ctx4, [])"
    by (simp add: updateStack_def)
  have a: "Apply mockPkgMethods mockApplyMethods svc7 0 1 1 pkg2 [ApplyWithSecrets secrets1] platform1 []
       = Some ((None, Some labelStageErr), world ctx4, logged ctx4, [])"
    using compensation_failure_logged [where pkgIn = pkg2 and pm = mockPkgMethods and pkgA = pkg2
        and opts = "[ApplyWithSecrets secrets1]" and pkgB = pkg2 and svc = svc7 and org = 1 and w = platform1
        and st = "[]" and found = state2 and pkgC = pkg2 and stA = "[]" and am = mockApplyMethods and user = 1
        and stageError = labelStageErr and coordinator = coordinator7 and ca = ctx3 and cb = ctx4
        and now = 0 and cc = ctx4 and stB = "[]"
        and rb = "rollbacker (applySecrets (mockSecretSVC (Some deleteErr)) secrets1)" and c = ctx3
        and e = deleteErr and ?c1.0 = "ctx3\<lparr>world := world ctx4\<rparr>"
        and rbs = "[rollbacker (applyLabels mockApplyMethods failingLabelSVC [''label_1''])]"
        and l = logError and err = labelStageErr and r = coordinator7]
      dryRun_pkg2 [folded svc7_def] applyState_fails_at_labels rollback_after_labels u
    by (simp add: p applyOpt_secrets1 c)
  show ?thesis
    using f rollback_after_labels a by (simp add: ctx4_def)
qed


subsection \<open>C8: the rollback of the secrets\<close>

text \<open>
  C8 fails in the code. The stage of the secrets puts the secret \<^verbatim>\<open>token\<close> and notes the key
  in \<^verbatim>\<open>rollbackSecrets\<close>; its rollbacker calls \<^verbatim>\<open>DeleteSecret\<close> with the organisation and no
  key. The secret service deletes the keys it is given: the key the apply added is still
  there after the rollback.
\<close>

theorem secrets_rollback_passes_no_key:
  "create_fn (creater (applySecrets (mockSecretSVC None) secrets1)) 0 1 1 ctx2 = Some (None, ctx3)
   \<and> platSecrets (world ctx3) = [(1, ''token'')]
   \<and> rollbackSecrets ctx3 = [''token'']
   \<and> rollback_fn (rollbacker (applySecrets (mockSecretSVC None) secrets1)) 1 ctx3 = Some (None, ctx5)
   \<and> platCalls (world ctx5) = [(''PutSecrets'', 1, [''token'']), (''DeleteSecret'', 1, [])]
   \<and> platSecrets (world ctx5) = [(1, ''token'')]"
  by (simp add: applySecrets_def secrets1_def keys_single mockSecretSVC_def ctx5_def ctx3_def ctx2_def
      world3_def platform1_def)


subsection \<open>C10: no stack id, no store\<close>

lemma dryRunResources_store: "dryRunResources m (svc\<lparr>store := s\<rparr>) org w state0 = dryRunResources m svc org w state0"
  unfolding dryRunResources_def by (simp cong: option.case_cong prod.case_cong sum.case_cong)

lemma applyState_store: "applyState am (svc\<lparr>store := s\<rparr>) r org user secrets c = applyState am svc r org user secrets c"
  unfolding applyState_def by (simp cong: option.case_cong prod.case_cong)

lemma dryRunState_no_stack: "StackID opt = 0 \<Longrightarrow> dryRunState svc pkg opt st = Some (None, newStateCoordinator pkg, st)"
  by (simp add: dryRunState_def)

lemma dryRun_no_stack:
  assumes "StackID (applyOptFromOptFns opts) = 0"
  shows "dryRun m (svc\<lparr>store := s\<rparr>) org pkg opts w st = dryRun m svc org pkg opts w st"
    and "dryRun m svc org pkg opts w st = Some (res, pkg', st') \<Longrightarrow> st' = st"
  using assms
  by (auto simp add: dryRun_def Let_def dryRunState_no_stack dryRunResources_store
      split: prod.splits sum.splits option.splits)

lemma updateStack_no_stack: "updateStack store' now 0 e c st = Some (c, st)"
  by (simp add: updateStack_def)

lemma Apply_no_stack:
  assumes "StackID (applyOptFromOptFns opts) = 0"
  shows "Apply pm am (svc\<lparr>store := s\<rparr>) now org user pkg opts w st = Apply pm am svc now org user pkg opts w st"
  using assms
  by (simp add: Apply_def Let_def dryRun_no_stack(1) applyState_store updateStack_no_stack
      cong: option.case_cong prod.case_cong)

lemma Apply_no_stack_state:
  assumes "StackID (applyOptFromOptFns opts) = 0"
    and "Apply pm am svc now org user pkg opts w st = Some (res, w', lg, st')"
  shows "st' = st"
  using assms dryRun_no_stack(2) [OF assms(1), of pm svc org _ w st]
  by (auto simp add: Apply_def Let_def updateStack_no_stack
      split: prod.splits option.splits)

text \<open>
  C10. With options that give no stack id, \<^verbatim>\<open>Apply\<close> and \<^verbatim>\<open>DryRun\<close> do not use the store:
  whatever store the service has, the result is the same, and the state of the store is
  returned as it was given. The state of the dry run is the state of the package, with no
  call of \<^verbatim>\<open>addStackState\<close>, and the update of the stack that follows the apply returns at
  once, after a success and after a rollback.
\<close>

theorem no_stack_no_store:
  "StackID (applyOptFromOptFns opts) = 0 \<Longrightarrow>
     Apply pm am (svc\<lparr>store := s\<rparr>) now org user pkg opts w st = Apply pm am svc now org user pkg opts w st
     \<and> (\<forall>res w' lg st'. Apply pm am svc now org user pkg opts w st = Some (res, w', lg, st') \<longrightarrow> st' = st)
     \<and> DryRun pm (svc\<lparr>store := s\<rparr>) org user pkg opts w st = DryRun pm svc org user pkg opts w st
     \<and> (\<forall>res st'. DryRun pm svc org user pkg opts w st = Some (res, st') \<longrightarrow> st' = st)
     \<and> dryRunState svc pkg (applyOptFromOptFns opts) st = Some (None, newStateCoordinator pkg, st)
     \<and> updateStack (store svc) now (StackID (applyOptFromOptFns opts)) e c st = Some (c, st)"
proof -
  assume a: "StackID (applyOptFromOptFns opts) = 0"
  have d: "DryRun pm (svc\<lparr>store := s\<rparr>) org user pkg opts w st = DryRun pm svc org user pkg opts w st"
    by (simp add: DryRun_def dryRun_no_stack(1) [OF a])
  have d': "\<forall>res st'. DryRun pm svc org user pkg opts w st = Some (res, st') \<longrightarrow> st' = st"
    using dryRun_no_stack(2) [OF a, of pm svc org pkg w st]
    by (auto simp add: DryRun_def split: option.splits prod.splits)
  have ap: "Apply pm am (svc\<lparr>store := s\<rparr>) now org user pkg opts w st = Apply pm am svc now org user pkg opts w st"
    by (rule Apply_no_stack [OF a])
  have ap': "\<forall>res w' lg st'. Apply pm am svc now org user pkg opts w st = Some (res, w', lg, st') \<longrightarrow> st' = st"
  proof (intro allI impI)
    fix res w' lg st'
    assume "Apply pm am svc now org user pkg opts w st = Some (res, w', lg, st')"
    then show "st' = st"
      by (rule Apply_no_stack_state [OF a])
  qed
  show ?thesis
    using a ap ap' d d'
    by (simp add: dryRunState_no_stack updateStack_no_stack)
qed

theorem no_stack_no_store_witness:
  "StackID (applyOptFromOptFns [ApplyWithSecrets secrets1]) = 0
   \<and> Apply mockPkgMethods mockApplyMethods (svc7\<lparr>store := brokenStore\<rparr>) 0 1 1 pkg2
         [ApplyWithSecrets secrets1] platform1 []
       = Some ((None, Some labelStageErr), world ctx4, logged ctx4, [])"
proof -
  have a: "StackID (applyOptFromOptFns [ApplyWithSecrets secrets1]) = 0"
    by (simp add: applyOpt_secrets1)
  show ?thesis
    using a Apply_fails_at_labels
      no_stack_no_store [OF a, where pm = mockPkgMethods and am = mockApplyMethods and svc = svc7
        and s = brokenStore and now = 0 and org = 1 and user = 1 and pkg = pkg2 and w = platform1
        and st = "[]" and e = None and c = ctx4]
    by simp
qed


subsection \<open>C4: what \<^verbatim>\<open>shouldApply\<close> gates\<close>

lemma shouldApply_orgID [simp]:
  "stateBucket_shouldApply (b\<lparr>orgID := org\<rparr>) = stateBucket_shouldApply b"
  "stateLabel_shouldApply (l\<lparr>orgID := org\<rparr>) = stateLabel_shouldApply l"
  "stateVariable_shouldApply (v\<lparr>orgID := org\<rparr>) = stateVariable_shouldApply v"
  by (simp_all add: stateBucket_shouldApply_def stateLabel_shouldApply_def stateVariable_shouldApply_def
      split: option.split)










subsection \<open>C2: the stack after a successful apply\<close>






















subsection \<open>C5: reconciling the stack's resources\<close>

lemma step_at:
  "get (reconcileStackResource s r) (srKind r) (srPkgName r) =
     (case get s (srKind r) (srPkgName r) of
        None \<Rightarrow> get (addObjectForRemoval s (srKind r) (srPkgName r) (srID r)) (srKind r) (srPkgName r)
      | Some v \<Rightarrow> Some (objSetExists (srID r) v))"
  by (cases "srKind r")
     (auto simp add: reconcileStackResource_def Contains_def get_def setObjectID_def getObjectIDSetter_def
       map_of_map_entry' Let_def split: option.splits)

lemma step_frame:
  "(slotOf k, p) \<noteq> stackKey r \<Longrightarrow> get (reconcileStackResource s r) k p = get s k p"
  apply (cases "srKind r"; cases k)
  apply (auto simp add: reconcileStackResource_def Contains_def get_def setObjectID_def getObjectIDSetter_def
       map_of_map_entry' Let_def stackKey_def slotOf_def addObjectForRemoval_def update_conv' split: option.splits)
  done

lemma foldl_frame:
  "(slotOf k, p) \<notin> stackKey ` set rs \<Longrightarrow> get (foldl reconcileStackResource s rs) k p = get s k p"
  by (induction rs arbitrary: s) (auto simp add: step_frame)

lemma add_at:
  "k \<noteq> KindUnknown \<Longrightarrow> \<exists>v. get (addObjectForRemoval s k p i) k p = Some v \<and> objField v = i
     \<and> objStatus v = StateStatusRemove \<and> objPkgName v = p \<and> \<not> objHasExisting v"
  by (cases k) (simp_all add: addObjectForRemoval_def get_def Let_def update_conv' forRemoval_def
      forRemovalRule_def PkgName_def newIdentity_def object.defs)

lemma add_depends:
  "get s k p = get s' k p \<Longrightarrow> get (addObjectForRemoval s k p i) k p = get (addObjectForRemoval s' k p i) k p"
  by (cases k) (simp_all add: addObjectForRemoval_def get_def Let_def update_conv')

lemma step_depends:
  assumes "get s (srKind r) (srPkgName r) = get s' (srKind r) (srPkgName r)"
  shows "get (reconcileStackResource s r) (srKind r) (srPkgName r)
       = get (reconcileStackResource s' r) (srKind r) (srPkgName r)"
  using assms add_depends[OF assms] by (simp add: step_at split: option.split)

lemma foldl_at_once:
  "filter (\<lambda>x. stackKey x = stackKey r) rs = [r] \<Longrightarrow>
   get (foldl reconcileStackResource s rs) (srKind r) (srPkgName r)
     = get (reconcileStackResource s r) (srKind r) (srPkgName r)"
proof (induction rs arbitrary: s)
  case Nil
  then show ?case by simp
next
  case (Cons x xs)
  show ?case
  proof (cases "stackKey x = stackKey r")
    case True
    then have x: "x = r" and none: "filter (\<lambda>x. stackKey x = stackKey r) xs = []"
      using Cons.prems by simp_all
    have "(slotOf (srKind r), srPkgName r) \<notin> stackKey ` set xs"
      using none by (auto simp add: filter_empty_conv stackKey_def)
    then show ?thesis using x by (simp add: foldl_frame)
  next
    case False
    then have once: "filter (\<lambda>x. stackKey x = stackKey r) xs = [r]"
      using Cons.prems by simp
    have neq: "(slotOf (srKind r), srPkgName r) \<noteq> stackKey x"
      using False by (auto simp add: stackKey_def)
    have "get (foldl reconcileStackResource (reconcileStackResource s x) xs) (srKind r) (srPkgName r)
        = get (reconcileStackResource (reconcileStackResource s x) r) (srKind r) (srPkgName r)"
      by (rule Cons.IH [OF once])
    also have "\<dots> = get (reconcileStackResource s r) (srKind r) (srPkgName r)"
      by (rule step_depends) (simp add: step_frame [OF neq])
    finally show ?thesis by simp
  qed
qed

lemma foldOpt_invariant:
  assumes "\<And>s x s'. f s x = Some s' \<Longrightarrow> P s' = P s"
    and "foldOpt f s xs = Some s'"
  shows "P s' = P s"
  using assms(2)
proof (induction xs arbitrary: s)
  case Nil
  then show ?case by simp
next
  case (Cons x xs)
  from Cons.prems obtain s1 where 1: "f s x = Some s1" and 2: "foldOpt f s1 xs = Some s'"
    by (auto split: option.splits)
  show ?case
    using Cons.IH [OF 2] assms(1) [OF 1] by simp
qed

lemma reconcileLabelMapping_get:
  "reconcileLabelMapping rs s r = Some s' \<Longrightarrow> get s' k p = get s k p"
  by (cases k) (auto simp add: reconcileLabelMapping_def get_def Let_def split: option.splits if_splits)

lemma reconcileLabelMappings_get:
  "reconcileLabelMappings s rs = Some s' \<Longrightarrow> get s' k p = get s k p"
  unfolding reconcileLabelMappings_def
  by (rule foldOpt_invariant [where P = "\<lambda>s. get s k p"]) (auto dest: reconcileLabelMapping_get)

lemma reconcileNotificationDependency_view:
  "reconcileNotificationDependency s r = Some s' \<Longrightarrow>
   map_option objView (get s' k p) = map_option objView (get s k p)
   \<and> (k \<noteq> KindNotificationRule \<longrightarrow> get s' k p = get s k p)"
  by (cases k)
     (auto simp add: reconcileNotificationDependency_def get_def map_of_map_entry' objView_def
       split: option.splits if_splits)

lemma reconcileNotificationDependencies_view:
  "reconcileNotificationDependencies s rs = Some s' \<Longrightarrow>
   map_option objView (get s' k p) = map_option objView (get s k p)"
  unfolding reconcileNotificationDependencies_def
  by (rule foldOpt_invariant [where P = "\<lambda>s. map_option objView (get s k p)"])
     (auto dest: reconcileNotificationDependency_view)

lemma reconcileNotificationDependencies_get:
  "reconcileNotificationDependencies s rs = Some s' \<Longrightarrow> k \<noteq> KindNotificationRule \<Longrightarrow>
   get s' k p = get s k p"
  unfolding reconcileNotificationDependencies_def
  by (rule foldOpt_invariant [where P = "\<lambda>s. get s k p"])
     (auto dest: reconcileNotificationDependency_view)

lemma objView_setExists:
  "objView (objSetExists i v) = (i, StateStatusExists, objPkgName v, objHasExisting v)"
  by (cases v) (simp_all add: objView_def setExists_def)

lemma get_slot: "get s (slotOf k) p = get s k p"
  by (cases k) (simp_all add: get_def slotOf_def)

lemma objSetExists_twice: "objSetExists i (objSetExists j v) = objSetExists i v"
  by (cases v) (simp_all add: setExists_def)

lemma step_at_key:
  assumes "stackKey x = (slotOf k, p)"
  shows "get (reconcileStackResource s x) k p =
     (case get s k p of
        None \<Rightarrow> get (addObjectForRemoval s (srKind x) (srPkgName x) (srID x)) (srKind x) (srPkgName x)
      | Some v \<Rightarrow> Some (objSetExists (srID x) v))"
proof -
  have p: "srPkgName x = p" and k: "slotOf (srKind x) = slotOf k"
    using assms by (simp_all add: stackKey_def)
  have g: "get t k p = get t (srKind x) (srPkgName x)" for t
    using get_slot [of t k p] get_slot [of t "srKind x" p] k p by simp
  show ?thesis
    by (simp add: g step_at)
qed

lemma foldl_present:
  assumes "get s k p = Some v"
  shows "get (foldl reconcileStackResource s rs) k p =
     Some (if filter (\<lambda>x. stackKey x = (slotOf k, p)) rs = [] then v
           else objSetExists (srID (last (filter (\<lambda>x. stackKey x = (slotOf k, p)) rs))) v)"
proof (induction rs rule: rev_induct)
  case Nil
  then show ?case by (simp add: assms)
next
  case (snoc x xs)
  show ?case
  proof (cases "stackKey x = (slotOf k, p)")
    case True
    have "get (reconcileStackResource (foldl reconcileStackResource s xs) x) k p
        = Some (objSetExists (srID x) v)"
      using snoc.IH
      by (simp add: step_at_key [OF True] objSetExists_twice)
    then show ?thesis
      using True by simp
  next
    case False
    then have "(slotOf k, p) \<noteq> stackKey x"
      by auto
    then show ?thesis
      using snoc.IH False by (simp add: step_frame)
  qed
qed

text \<open>
  C5, as the code has it. When the state of a stack is added to the state coordinator and
  \<^verbatim>\<open>addStackState\<close> returns, then for each stack resource \<open>r\<close> of a resource kind: if the
  state built from the package has a record for the kind and pkg-name of \<open>r\<close>, the state
  then holds that record with its status set to EXISTS and its id set to the id the stack
  recorded, that of its last listing when the stack lists the kind and pkg-name more than
  once (for a rule, its endpoint may have been bound as well; a record of another kind is
  changed in nothing else); if it has none and the stack lists the kind and pkg-name once,
  the state then holds a record for that kind and pkg-name with the id the stack recorded,
  the status REMOVE, the pkg-name as its only parsed content and no existing resource.
\<close>

theorem addStackState_sets_or_injects:
  assumes "r \<in> set (stkResources stack)"
    and "srKind r \<noteq> KindUnknown"
    and "addStackState s stack = Some s'"
  shows "(Contains s (srKind r) (srPkgName r) \<longrightarrow>
           (\<exists>v v' i. get s (srKind r) (srPkgName r) = Some v
              \<and> get s' (srKind r) (srPkgName r) = Some v'
              \<and> i = srID (last (filter (\<lambda>x. stackKey x = stackKey r) (stkResources stack)))
              \<and> objField v' = i
              \<and> objStatus v' = StateStatusExists
              \<and> objPkgName v' = objPkgName v
              \<and> objHasExisting v' = objHasExisting v
              \<and> (srKind r \<noteq> KindNotificationRule \<longrightarrow> v' = objSetExists i v)))
       \<and> (\<not> Contains s (srKind r) (srPkgName r)
            \<and> filter (\<lambda>x. stackKey x = stackKey r) (stkResources stack) = [r] \<longrightarrow>
           (\<exists>v'. get s' (srKind r) (srPkgName r) = Some v'
              \<and> objField v' = srID r \<and> objStatus v' = StateStatusRemove
              \<and> objPkgName v' = srPkgName r \<and> \<not> objHasExisting v'))"
proof -
  let ?k = "srKind r" and ?p = "srPkgName r"
  let ?rs = "stkResources stack"
  let ?s1 = "reconcileStackResources s ?rs"
  let ?i = "srID (last (filter (\<lambda>x. stackKey x = stackKey r) ?rs))"
  from assms(3) obtain s2 where
    2: "reconcileLabelMappings ?s1 ?rs = Some s2" and
    3: "reconcileNotificationDependencies s2 ?rs = Some s'"
    by (auto simp add: addStackState_def split: option.splits)
  have g2: "get s2 ?k ?p = get ?s1 ?k ?p"
    using 2 by (rule reconcileLabelMappings_get)
  have view: "map_option objView (get s' ?k ?p) = map_option objView (get ?s1 ?k ?p)"
    using reconcileNotificationDependencies_view [OF 3, of ?k ?p] g2 by simp
  have same: "?k \<noteq> KindNotificationRule \<Longrightarrow> get s' ?k ?p = get ?s1 ?k ?p"
    using reconcileNotificationDependencies_get [OF 3, of ?k ?p] g2 by simp
  show ?thesis
  proof (rule conjI; rule impI)
    assume "Contains s ?k ?p"
    then obtain v where v: "get s ?k ?p = Some v"
      by (auto simp add: Contains_def)
    have ne: "filter (\<lambda>x. stackKey x = stackKey r) ?rs \<noteq> []"
      using assms(1) by (auto simp add: filter_empty_conv)
    have 1: "get ?s1 ?k ?p = Some (objSetExists ?i v)"
      using foldl_present [OF v, of ?rs] ne
      by (simp add: reconcileStackResources_def stackKey_def)
    from view 1 obtain v' where
      v': "get s' ?k ?p = Some v'" "objView v' = objView (objSetExists ?i v)"
      by (cases "get s' ?k ?p") auto
    have w: "objField v' = ?i \<and> objStatus v' = StateStatusExists \<and> objPkgName v' = objPkgName v
        \<and> objHasExisting v' = objHasExisting v"
      using v'(2) by (simp add: objView_setExists) (simp add: objView_def)
    have "?k \<noteq> KindNotificationRule \<longrightarrow> v' = objSetExists ?i v"
      using same 1 v'(1) by auto
    then show "\<exists>v v' i. get s ?k ?p = Some v
              \<and> get s' ?k ?p = Some v'
              \<and> i = ?i
              \<and> objField v' = i
              \<and> objStatus v' = StateStatusExists
              \<and> objPkgName v' = objPkgName v
              \<and> objHasExisting v' = objHasExisting v
              \<and> (?k \<noteq> KindNotificationRule \<longrightarrow> v' = objSetExists i v)"
      using v v'(1) w by simp
  next
    assume a: "\<not> Contains s ?k ?p \<and> filter (\<lambda>x. stackKey x = stackKey r) ?rs = [r]"
    then have None: "get s ?k ?p = None"
      by (simp add: Contains_def)
    have at: "get ?s1 ?k ?p = get (reconcileStackResource s r) ?k ?p"
      unfolding reconcileStackResources_def using a by (intro foldl_at_once) simp
    from add_at [OF assms(2), of s ?p "srID r"] obtain v where
      v: "get ?s1 ?k ?p = Some v" "objView v = (srID r, StateStatusRemove, ?p, False)"
      by (auto simp add: at step_at None objView_def)
    from view v obtain v' where "get s' ?k ?p = Some v'" "objView v' = (srID r, StateStatusRemove, ?p, False)"
      by (cases "get s' ?k ?p") auto
    then show "\<exists>v'. get s' ?k ?p = Some v'
              \<and> objField v' = srID r \<and> objStatus v' = StateStatusRemove
              \<and> objPkgName v' = ?p \<and> \<not> objHasExisting v'"
      by (auto simp add: objView_def)
  qed
qed

lemma addStackState_pkg1:
  "\<exists>s'. addStackState (newStateCoordinator pkg1) stack1 = Some s'"
proof -
  have n: "newStateCoordinator pkg1 =
    \<lparr>mBuckets = [(''rucket_1'', newState pBucket1)], mChecks = [], mDashboards = [], mEndpoints = [],
     mLabels = [(''label_1'', newState pLabel1)], mRules = [], mTasks = [], mTelegrafs = [], mVariables = [],
     labelMappings = [], labelMappingsToRemove = []\<rparr>"
    by (simp add: newStateCoordinator_def pkg1_def PkgName_def pBucket1_def pLabel1_def)
  have 1: "reconcileStackResources (newStateCoordinator pkg1) [stackRes1, stackRes2] =
    \<lparr>mBuckets = [(''rucket_1'', setExists 5 (newState pBucket1))], mChecks = [],
     mDashboards = [(''dash_gone'', forRemoval 6 (newIdentity ''dash_gone''))], mEndpoints = [],
     mLabels = [(''label_1'', newState pLabel1)], mRules = [], mTasks = [], mTelegrafs = [], mVariables = [],
     labelMappings = [], labelMappingsToRemove = []\<rparr>"
    unfolding n
    by (simp add: reconcileStackResources_def reconcileStackResource_def Contains_def get_def
        stackRes1_def stackRes2_def setObjectID_def getObjectIDSetter_def addObjectForRemoval_def Let_def)
  show ?thesis
    unfolding addStackState_def stack1_def Stack.simps 1
    by (simp add: reconcileLabelMappings_def reconcileLabelMapping_def labelAssociations_def get_def
        stackRes1_def stackRes2_def labelAssociater_def setExists_def newState_def pBucket1_def ptr_def
        pLabel1_def PkgName_def forRemoval_def newIdentity_def Let_def
        reconcileNotificationDependencies_def reconcileNotificationDependency_def)
qed

theorem addStackState_sets_or_injects_witness:
  "\<exists>s'. addStackState (newStateCoordinator pkg1) stack1 = Some s'
     \<and> Contains (newStateCoordinator pkg1) KindBucket ''rucket_1''
     \<and> (\<exists>v. get s' KindBucket ''rucket_1'' = Some v \<and> objField v = 5 \<and> objStatus v = StateStatusExists)
     \<and> \<not> Contains (newStateCoordinator pkg1) KindDashboard ''dash_gone''
     \<and> (\<exists>v. get s' KindDashboard ''dash_gone'' = Some v
          \<and> objField v = 6 \<and> objStatus v = StateStatusRemove \<and> objPkgName v = ''dash_gone''
          \<and> \<not> objHasExisting v)"
proof -
  from addStackState_pkg1 obtain s' where a: "addStackState (newStateCoordinator pkg1) stack1 = Some s'"
    by blast
  have m: "filter (\<lambda>x. stackKey x = stackKey stackRes1) (stkResources stack1) = [stackRes1]"
    "filter (\<lambda>x. stackKey x = stackKey stackRes2) (stkResources stack1) = [stackRes2]"
    by (simp_all add: stack1_def stackKey_def slotOf_def stackRes1_def stackRes2_def)
  have i: "stackRes1 \<in> set (stkResources stack1)" "stackRes2 \<in> set (stkResources stack1)"
    by (simp_all add: stack1_def)
  have c1: "Contains (newStateCoordinator pkg1) KindBucket ''rucket_1''"
    by (simp add: Contains_def get_def newStateCoordinator_def pkg1_def pBucket1_def PkgName_def)
  have c2: "\<not> Contains (newStateCoordinator pkg1) KindDashboard ''dash_gone''"
    by (simp add: Contains_def get_def newStateCoordinator_def pkg1_def)
  have r1: "srKind stackRes1 = KindBucket" "srPkgName stackRes1 = ''rucket_1''" "srID stackRes1 = 5"
    by (simp_all add: stackRes1_def)
  have r2: "srKind stackRes2 = KindDashboard" "srPkgName stackRes2 = ''dash_gone''" "srID stackRes2 = 6"
    by (simp_all add: stackRes2_def)
  have t1: "\<exists>v. get s' KindBucket ''rucket_1'' = Some v \<and> objField v = 5 \<and> objStatus v = StateStatusExists"
    using addStackState_sets_or_injects [OF i(1) _ a] c1
    by (auto simp add: r1 m(1))
  have t2: "\<exists>v. get s' KindDashboard ''dash_gone'' = Some v
          \<and> objField v = 6 \<and> objStatus v = StateStatusRemove \<and> objPkgName v = ''dash_gone''
          \<and> \<not> objHasExisting v"
    using addStackState_sets_or_injects [OF i(2) _ a] c2 m(2)
    by (simp add: r2)
  show ?thesis using a c1 c2 t1 t2 by blast
qed

text \<open>
  C5 as stated fails for a stack that lists a kind and pkg-name twice: the package has no
  bucket \<^verbatim>\<open>gone\<close>, the first listing injects a record to remove, the second finds that record
  in the state and sets it to EXISTS, with the second id.
\<close>

theorem addStackState_duplicate_counterexample:
  "\<not> Contains (newStateCoordinator pkg2) KindBucket ''gone''
   \<and> addStackState (newStateCoordinator pkg2) stackDup
       = Some ((newStateCoordinator pkg2)
           \<lparr>mBuckets := [(''gone'', \<lparr>id' = 6, orgID = 0, stateStatus = StateStatusExists,
               parser = \<lparr>name = ''gone'', displayName = '''', labels = [], description = '''', retention = 0\<rparr>,
               existing = None\<rparr>)]\<rparr>)"
proof -
  have 1: "reconcileStackResources (newStateCoordinator pkg2) (stkResources stackDup) =
    (newStateCoordinator pkg2)
           \<lparr>mBuckets := [(''gone'', \<lparr>id' = 6, orgID = 0, stateStatus = StateStatusExists,
               parser = \<lparr>name = ''gone'', displayName = '''', labels = [], description = '''', retention = 0\<rparr>,
               existing = None\<rparr>)]\<rparr>"
    unfolding newStateCoordinator_pkg2
    by (simp add: reconcileStackResources_def reconcileStackResource_def Contains_def get_def
        stackDup_def setObjectID_def getObjectIDSetter_def addObjectForRemoval_def Let_def
        setExists_def forRemoval_def newIdentity_def object.defs)
  have c: "\<not> Contains (newStateCoordinator pkg2) KindBucket ''gone''"
    unfolding newStateCoordinator_pkg2 by (simp add: Contains_def get_def)
  show ?thesis
    unfolding addStackState_def 1 using c
    by (simp add: newStateCoordinator_pkg2 stackDup_def reconcileLabelMappings_def reconcileLabelMapping_def
        labelAssociations_def get_def labelAssociater_def
        reconcileNotificationDependencies_def reconcileNotificationDependency_def)
qed


subsection \<open>C6: a rule whose endpoint is missing\<close>

lemma ptr_forEach: "ptr (forEach f m) k = ptr m k"
  by (simp add: ptr_def map_of_forEach)

lemma missingEndpoint_forEach [simp]: "missingEndpoint (forEach f m) r = missingEndpoint m r"
  by (simp add: missingEndpoint_def map_of_forEach)

lemma bindRule_forEach [simp]: "bindRule (forEach f m) r = bindRule m r"
  by (simp add: bindRule_def ptr_forEach)

lemma dryRunResources_rules:
  assumes "dryRunVariables (varSVC svc) org w (mVariables state0) = Some vars"
    and "FindNotificationEndpoints (endpointSVC svc) org w = Inr es"
  shows "\<exists>stateE. mRules stateE = mRules state0
     \<and> mEndpoints stateE = forEach (dryRunNotificationEndpoint es) (mEndpoints state0)
     \<and> dryRunResources m svc org w state0 =
         (case dryRunNotificationRules (ruleSVC svc) org w (mRules stateE) (mEndpoints stateE) of
            (Some err, rs) \<Rightarrow> Some (Inl (Some err))
          | (None, rs) \<Rightarrow>
              (case dryRunLabelMappings m w (stateE\<lparr>mRules := rs\<rparr>) of
                 None \<Rightarrow> None
               | Some (Inl err) \<Rightarrow> Some (Inl (Some err))
               | Some (Inr lm) \<Rightarrow> Some (Inr (stateE\<lparr>mRules := rs, labelMappings := lm\<rparr>))))"
  by (rule exI [of _ "state0\<lparr>mBuckets := dryRunBuckets (bucketSVC svc) org w (mBuckets state0),
        mChecks := dryRunChecks (checkSVC svc) org w (mChecks state0),
        mDashboards := dryRunDashboards (dashSVC svc) org w (mDashboards state0),
        mLabels := dryRunLabels (labelSVC svc) org w (mLabels state0),
        mTasks := dryRunTasks (taskSVC svc) org w (mTasks state0),
        mTelegrafs := dryRunTelegrafConfigs (teleSVC svc) org w (mTelegrafs state0),
        mVariables := vars,
        mEndpoints := forEach (dryRunNotificationEndpoint es) (mEndpoints state0)\<rparr>"])
     (simp add: dryRunResources_def Let_def assms dryRunNotificationEndpoints_def
       split: prod.splits option.splits sum.splits)

lemma applyOpt_none: "applyOptFromOptFns [] = \<lparr>EnvRefs = [], MissingSecrets = [], StackID = 0\<rparr>"
  by (simp add: applyOptFromOptFns_def)

lemma newStateCoordinator_pkgR1: "newStateCoordinator pkgR1 =
  \<lparr>mBuckets = [], mChecks = [], mDashboards = [], mEndpoints = [(''endpoint_1'', newState pEndpoint1)],
   mLabels = [], mRules = [(''rule_1'', newStateRule pRule1), (''rule_2'', newStateRule pRule2)],
   mTasks = [], mTelegrafs = [], mVariables = [], labelMappings = [], labelMappingsToRemove = []\<rparr>"
  by (simp add: newStateCoordinator_def pkgR1_def PkgName_def pEndpoint1_def pRule1_def pRule2_def)

lemma newStateCoordinator_pkgR2: "newStateCoordinator pkgR2 =
  \<lparr>mBuckets = [], mChecks = [], mDashboards = [], mEndpoints = [(''endpoint_1'', newState pEndpoint1)],
   mLabels = [], mRules = [(''rule_1'', newStateRule pRule1)],
   mTasks = [], mTelegrafs = [], mVariables = [], labelMappings = [], labelMappingsToRemove = []\<rparr>"
  by (simp add: newStateCoordinator_def pkgR2_def PkgName_def pEndpoint1_def pRule1_def)

lemma dryRun_start:
  assumes "isParsed p" and "mSecrets p = []"
  shows "dryRunValidate mockPkgMethods p \<lparr>EnvRefs = [], MissingSecrets = [], StackID = 0\<rparr> = (Inr None, p)"
    and "dryRunState svc p \<lparr>EnvRefs = [], MissingSecrets = [], StackID = 0\<rparr> st
          = Some (None, newStateCoordinator p, st)"
    and "dryRunSecrets ssvc org w p = (None, p)"
  using assms by (simp_all add: dryRunValidate_def dryRunState_def dryRunSecrets_def keys_Nil)

lemma dryRunVariables_none: "dryRunVariables mockVarSVC 1 platform1 [] = Some []"
  by (simp add: dryRunVariables_def getAllPlatformVariables_mock forEach_Nil)

text \<open>
  C6, as the code has it. Take a dry run whose steps before the rules have gone through:
  the validation has no error but a parse error, the state is built (with the state of the
  stack when there is one), the secrets are read, the listing of the variables returns and
  the endpoints of the organisation are listed. If the state then has a rule that is not
  being removed, has no associated endpoint and names an endpoint pkg-name that the
  endpoint map of the state does not have, \<^verbatim>\<open>dryRun\<close> returns an error of code
  UnprocessableEntity and no state. Otherwise every rule that had no associated endpoint is
  bound to the endpoint of that pkg-name and the dry run goes on: its result is that of the
  label mappings on the state with the rules bound.
\<close>

theorem dryRun_rule_binding:
  assumes "dryRunValidate m pkg0 (applyOptFromOptFns opts) = (Inr parseErr, pkg)"
    and "dryRunState svc pkg (applyOptFromOptFns opts) st = Some (None, state0, st')"
    and "dryRunSecrets (secretSVC svc) org w pkg = (None, pkg')"
    and "dryRunVariables (varSVC svc) org w (mVariables state0) = Some vars"
    and "FindNotificationEndpoints (endpointSVC svc) org w = Inr es"
  shows "((\<exists>k r. map_of (mRules state0) k = Some r \<and> missingEndpoint (mEndpoints state0) r) \<longrightarrow>
           (\<exists>t. dryRun m svc org pkg0 opts w st
                 = Some ((None, Some (Error EUnprocessableEntity t)), pkg', st')))
     \<and> (\<not> (\<exists>k r. map_of (mRules state0) k = Some r \<and> missingEndpoint (mEndpoints state0) r) \<longrightarrow>
           (\<exists>state1.
              (\<forall>k. map_of (mRules state1) k
                    = map_option (\<lambda>r. bindRule (mEndpoints state0) (dryRunNotificationRule (ruleSVC svc) org w r))
                        (map_of (mRules state0) k))
              \<and> dryRun m svc org pkg0 opts w st =
                  (case dryRunLabelMappings m w state1 of
                     None \<Rightarrow> None
                   | Some (Inl err) \<Rightarrow> Some ((None, Some err), pkg', st')
                   | Some (Inr lm) \<Rightarrow> Some ((Some (state1\<lparr>labelMappings := lm\<rparr>), parseErr), pkg', st'))))"
proof -
  from dryRunResources_rules [OF assms(4,5), of m] obtain stateE where
    r: "mRules stateE = mRules state0" and
    e: "mEndpoints stateE = forEach (dryRunNotificationEndpoint es) (mEndpoints state0)" and
    d: "dryRunResources m svc org w state0 =
         (case dryRunNotificationRules (ruleSVC svc) org w (mRules stateE) (mEndpoints stateE) of
            (Some err, rs) \<Rightarrow> Some (Inl (Some err))
          | (None, rs) \<Rightarrow>
              (case dryRunLabelMappings m w (stateE\<lparr>mRules := rs\<rparr>) of
                 None \<Rightarrow> None
               | Some (Inl err) \<Rightarrow> Some (Inl (Some err))
               | Some (Inr lm) \<Rightarrow> Some (Inr (stateE\<lparr>mRules := rs, labelMappings := lm\<rparr>))))"
    by blast
  let ?res = "dryRunNotificationRules (ruleSVC svc) org w (mRules stateE) (mEndpoints stateE)"
  have run: "dryRun m svc org pkg0 opts w st =
      (case dryRunResources m svc org w state0 of
         None \<Rightarrow> None
       | Some (Inl e) \<Rightarrow> Some ((None, e), pkg', st')
       | Some (Inr state') \<Rightarrow> Some ((Some state', parseErr), pkg', st'))"
    by (simp add: dryRun_def Let_def assms(1,2,3))
  show ?thesis
  proof (rule conjI; rule impI)
    assume "\<exists>k r. map_of (mRules state0) k = Some r \<and> missingEndpoint (mEndpoints state0) r"
    then have "\<exists>k r. map_of (mRules stateE) k = Some r \<and> missingEndpoint (mEndpoints stateE) r"
      by (simp add: r e)
    then obtain t where "fst ?res = Some (Error EUnprocessableEntity t)"
      using dryRunNotificationRules_fails [of "mRules stateE" "mEndpoints stateE" "ruleSVC svc" org w]
      by blast
    then show "\<exists>t. dryRun m svc org pkg0 opts w st
                 = Some ((None, Some (Error EUnprocessableEntity t)), pkg', st')"
      by (cases ?res) (simp add: run d)
  next
    assume "\<not> (\<exists>k r. map_of (mRules state0) k = Some r \<and> missingEndpoint (mEndpoints state0) r)"
    then have no: "\<not> (\<exists>k r. map_of (mRules stateE) k = Some r \<and> missingEndpoint (mEndpoints stateE) r)"
      by (simp add: r e)
    have ok: "fst ?res = None"
      and bound: "\<forall>k. map_of (snd ?res) k
             = map_option (\<lambda>r. bindRule (mEndpoints stateE) (dryRunNotificationRule (ruleSVC svc) org w r))
                 (map_of (mRules stateE) k)"
      using dryRunNotificationRules_binds [OF no, of "ruleSVC svc" org w] by simp_all
    let ?state1 = "stateE\<lparr>mRules := snd ?res\<rparr>"
    have 1: "\<forall>k. map_of (mRules ?state1) k
                    = map_option (\<lambda>r. bindRule (mEndpoints state0) (dryRunNotificationRule (ruleSVC svc) org w r))
                        (map_of (mRules state0) k)"
      using bound by (simp add: r e)
    have 2: "dryRun m svc org pkg0 opts w st =
                  (case dryRunLabelMappings m w ?state1 of
                     None \<Rightarrow> None
                   | Some (Inl err) \<Rightarrow> Some ((None, Some err), pkg', st')
                   | Some (Inr lm) \<Rightarrow> Some ((Some (?state1\<lparr>labelMappings := lm\<rparr>), parseErr), pkg', st'))"
      using ok by (cases ?res) (simp add: run d split: option.split sum.split)
    show "\<exists>state1.
              (\<forall>k. map_of (mRules state1) k
                    = map_option (\<lambda>r. bindRule (mEndpoints state0) (dryRunNotificationRule (ruleSVC svc) org w r))
                        (map_of (mRules state0) k))
              \<and> dryRun m svc org pkg0 opts w st =
                  (case dryRunLabelMappings m w state1 of
                     None \<Rightarrow> None
                   | Some (Inl err) \<Rightarrow> Some ((None, Some err), pkg', st')
                   | Some (Inr lm) \<Rightarrow> Some ((Some (state1\<lparr>labelMappings := lm\<rparr>), parseErr), pkg', st'))"
      using 1 2 by blast
  qed
qed

theorem dryRun_rule_binding_witness:
  "(\<exists>t. dryRun mockPkgMethods svcM 1 pkgR1 [] platform1 []
         = Some ((None, Some (Error EUnprocessableEntity t)), pkgR1, []))
   \<and> (\<exists>state1. dryRun mockPkgMethods svcM 1 pkgR2 [] platform1 [] = Some ((Some state1, None), pkgR2, [])
        \<and> map_option associatedEndpoint (map_of (mRules state1) ''rule_1'') = Some (Some ''endpoint_1''))"
proof -
  let ?opt = "\<lparr>EnvRefs = [], MissingSecrets = [], StackID = 0\<rparr>"
  have p1: "isParsed pkgR1" "mSecrets pkgR1 = []" and p2: "isParsed pkgR2" "mSecrets pkgR2 = []"
    by (simp_all add: pkgR1_def pkgR2_def)
  have v: "dryRunVariables (varSVC svcM) 1 platform1 (mVariables (newStateCoordinator pkgR1)) = Some []"
    "dryRunVariables (varSVC svcM) 1 platform1 (mVariables (newStateCoordinator pkgR2)) = Some []"
    by (simp_all add: svcM_def mockService_def newStateCoordinator_pkgR1 newStateCoordinator_pkgR2
        dryRunVariables_none)
  have e: "FindNotificationEndpoints (endpointSVC svcM) 1 platform1 = Inr []"
    by (simp add: svcM_def mockService_def mockEndpointSVC_def)
  have m2: "missingEndpoint (mEndpoints (newStateCoordinator pkgR1)) (newStateRule pRule2)"
    by (simp add: newStateCoordinator_pkgR1 missingEndpoint_def newStateRule_def pRule2_def IsRemoval_simps)
  have ex: "\<exists>k r. map_of (mRules (newStateCoordinator pkgR1)) k = Some r
      \<and> missingEndpoint (mEndpoints (newStateCoordinator pkgR1)) r"
    using m2 by (intro exI [of _ "''rule_2''"] exI [of _ "newStateRule pRule2"])
      (simp add: newStateCoordinator_pkgR1)
  have no: "\<not> (\<exists>k r. map_of (mRules (newStateCoordinator pkgR2)) k = Some r
      \<and> missingEndpoint (mEndpoints (newStateCoordinator pkgR2)) r)"
    by (auto simp add: newStateCoordinator_pkgR2 missingEndpoint_def newStateRule_def pRule1_def
        split: if_splits)
  have a: "\<exists>t. dryRun mockPkgMethods svcM 1 pkgR1 [] platform1 []
         = Some ((None, Some (Error EUnprocessableEntity t)), pkgR1, [])"
    using dryRun_rule_binding [where m = mockPkgMethods and opts = "[]" and ?pkg0.0 = pkgR1 and pkg = pkgR1
        and pkg' = pkgR1 and parseErr = None and svc = svcM and st = "[]" and st' = "[]"
        and ?state0.0 = "newStateCoordinator pkgR1" and org = 1 and w = platform1 and vars = "[]" and es = "[]",
        unfolded applyOpt_none, OF dryRun_start(1) [OF p1] dryRun_start(2) [OF p1] dryRun_start(3) [OF p1]
          v(1) e] ex
    by blast
  from dryRun_rule_binding [where m = mockPkgMethods and opts = "[]" and ?pkg0.0 = pkgR2 and pkg = pkgR2
        and pkg' = pkgR2 and parseErr = None and svc = svcM and st = "[]" and st' = "[]"
        and ?state0.0 = "newStateCoordinator pkgR2" and org = 1 and w = platform1 and vars = "[]" and es = "[]",
        unfolded applyOpt_none, OF dryRun_start(1) [OF p2] dryRun_start(2) [OF p2] dryRun_start(3) [OF p2]
          v(2) e] no
  obtain state1 where
    b: "\<forall>k. map_of (mRules state1) k
          = map_option (\<lambda>r. bindRule (mEndpoints (newStateCoordinator pkgR2))
                (dryRunNotificationRule (ruleSVC svcM) 1 platform1 r))
              (map_of (mRules (newStateCoordinator pkgR2)) k)" and
    d: "dryRun mockPkgMethods svcM 1 pkgR2 [] platform1 [] =
          (case dryRunLabelMappings mockPkgMethods platform1 state1 of
             None \<Rightarrow> None
           | Some (Inl err) \<Rightarrow> Some ((None, Some err), pkgR2, [])
           | Some (Inr lm) \<Rightarrow> Some ((Some (state1\<lparr>labelMappings := lm\<rparr>), None), pkgR2, []))"
    by blast
  have d': "dryRun mockPkgMethods svcM 1 pkgR2 [] platform1 []
      = Some ((Some (state1\<lparr>labelMappings := []\<rparr>), None), pkgR2, [])"
    using d by (simp add: mockPkgMethods_def)
  have "map_option associatedEndpoint (map_of (mRules (state1\<lparr>labelMappings := []\<rparr>)) ''rule_1'')
      = Some (Some ''endpoint_1'')"
    using b [rule_format, of "''rule_1''"]
    by (simp add: newStateCoordinator_pkgR2 bindRule_def dryRunNotificationRule_def newStateRule_def
        Let_def ptr_def pRule1_def)
  then show ?thesis
    using a d' by blast
qed

text \<open>
  C6 as stated fails when a step before the rules fails: the package has a rule whose
  endpoint is missing, the endpoints of the organisation cannot be listed, and the dry run
  fails with an internal error.
\<close>

theorem dryRun_other_error_counterexample:
  "map_of (mRules (newStateCoordinator pkgR1)) ''rule_2'' = Some (newStateRule pRule2)
   \<and> missingEndpoint (mEndpoints (newStateCoordinator pkgR1)) (newStateRule pRule2)
   \<and> dryRun mockPkgMethods (svcM\<lparr>endpointSVC := failingEndpointSVC\<rparr>) 1 pkgR1 [] platform1 []
       = Some ((None, Some (Error EInternal
            [Txt ''failed to dry run notification endpoints'', Txt '': '', Txt ''endpoints are down''])),
          pkgR1, [])"
proof -
  have p1: "isParsed pkgR1" "mSecrets pkgR1 = []"
    by (simp_all add: pkgR1_def)
  have r: "dryRunResources mockPkgMethods (svcM\<lparr>endpointSVC := failingEndpointSVC\<rparr>) 1 platform1
      (newStateCoordinator pkgR1)
    = Some (Inl (Some (Error EInternal
         [Txt ''failed to dry run notification endpoints'', Txt '': '', Txt ''endpoints are down''])))"
    by (simp add: dryRunResources_def Let_def svcM_def mockService_def newStateCoordinator_pkgR1
        dryRunVariables_none dryRunNotificationEndpoints_def failingEndpointSVC_def internalErr_def
        toInfluxError_def Wrap_def)
  show ?thesis
    by (simp add: dryRun_def applyOpt_none dryRun_start [OF p1] r)
      (simp add: newStateCoordinator_pkgR1 missingEndpoint_def newStateRule_def pRule2_def IsRemoval_simps)
qed

end
